theory Spec2Isabelle
  imports Main "HOL-Library.Sublist"
begin

section \<open>JavaScript values\<close>

text \<open>
  Every datum the handlers touch is a parsed JSON body or a property read from one.
  \<open>JUndefined\<close> is the value of a missing property; it never occurs inside a parsed
  body but it does occur in the objects the handlers build.  Numbers are the integers
  (identifiers, ranks, points and page counters are integers upstream).  No value is a
  function: a parsed body cannot carry one.
  An object is the list of its own properties, each key once, in insertion order.
\<close>

datatype jsval =
    JUndefined
  | JNull
  | JBool bool
  | JNum int
  | JStr string
  | JArr "jsval list"
  | JObj "(string \<times> jsval) list"

text \<open>
  An exception value; both kinds carry their \<open>message\<close>.  The wording of the messages
  of the TypeErrors the engine raises is the engine's own and is only indicative here.
\<close>

datatype js_error = Error string | TypeError string

fun message :: "js_error \<Rightarrow> string" where
  "message (Error m) = m"
| "message (TypeError m) = m"

text \<open>Truthiness, as tested by \<open>if (v)\<close>, \<open>!v\<close>, \<open>while (v)\<close> and \<open>a || b\<close>.\<close>

fun truthy :: "jsval \<Rightarrow> bool" where
  "truthy JUndefined = False"
| "truthy JNull = False"
| "truthy (JBool b) = b"
| "truthy (JNum n) = (n \<noteq> 0)"
| "truthy (JStr s) = (s \<noteq> [])"
| "truthy (JArr xs) = True"
| "truthy (JObj kvs) = True"

text \<open>\<open>a || b\<close>\<close>

definition js_or :: "jsval \<Rightarrow> jsval \<Rightarrow> jsval" where
  "js_or a b = (if truthy a then a else b)"

fun nullish :: "jsval \<Rightarrow> bool" where
  "nullish JUndefined = True"
| "nullish JNull = True"
| "nullish v = False"

text \<open>
  \<open>v.k\<close>: a TypeError on \<open>null\<close> and \<open>undefined\<close>, the property's value on an
  object that has it, \<open>undefined\<close> otherwise.  None of the keys the handlers read is a
  built-in property of a string, a number, a boolean or an array.
\<close>

fun get_prop :: "jsval \<Rightarrow> string \<Rightarrow> js_error + jsval" where
  "get_prop JUndefined k = Inl (TypeError (''Cannot read properties of undefined (reading '' @ k @ '')''))"
| "get_prop JNull k = Inl (TypeError (''Cannot read properties of null (reading '' @ k @ '')''))"
| "get_prop (JObj kvs) k = Inr (case map_of kvs k of None \<Rightarrow> JUndefined | Some v \<Rightarrow> v)"
| "get_prop v k = Inr JUndefined"

text \<open>\<open>v?.k\<close>: as \<open>v.k\<close>, but \<open>undefined\<close> where \<open>v\<close> is \<open>null\<close> or \<open>undefined\<close>.\<close>

fun opt_prop :: "jsval \<Rightarrow> string \<Rightarrow> jsval" where
  "opt_prop (JObj kvs) k = (case map_of kvs k of None \<Rightarrow> JUndefined | Some v \<Rightarrow> v)"
| "opt_prop v k = JUndefined"

text \<open>
  \<open>a === b\<close> on values that come from different parsed bodies: primitives are
  compared by type and value, and two arrays or objects are never the same reference.
\<close>

fun strict_eq :: "jsval \<Rightarrow> jsval \<Rightarrow> bool" where
  "strict_eq JUndefined JUndefined = True"
| "strict_eq JNull JNull = True"
| "strict_eq (JBool a) (JBool b) = (a = b)"
| "strict_eq (JNum a) (JNum b) = (a = b)"
| "strict_eq (JStr a) (JStr b) = (a = b)"
| "strict_eq a b = False"

text \<open>
  \<open>...v\<close> in an argument list: the elements of an array, the characters of a string,
  a TypeError on anything else.
\<close>

fun spread :: "jsval \<Rightarrow> js_error + jsval list" where
  "spread (JArr xs) = Inr xs"
| "spread (JStr s) = Inr (map (\<lambda>c. JStr [c]) s)"
| "spread v = Inl (TypeError ''Spread syntax requires ...iterable[Symbol.iterator] to be a function'')"

text \<open>\<open>xs.concat(v)\<close>: appends the elements of an array, and any other value as one element.\<close>

fun concat_js :: "jsval list \<Rightarrow> jsval \<Rightarrow> jsval list" where
  "concat_js xs (JArr ys) = xs @ ys"
| "concat_js xs v = xs @ [v]"

text \<open>
  \<open>xs.find(p)\<close> where the callback may throw: the first element on which \<open>p\<close> is
  truthy, \<open>undefined\<close> when there is none; elements after the hit are not visited.
\<close>

fun find_js :: "(jsval \<Rightarrow> js_error + bool) \<Rightarrow> jsval list \<Rightarrow> js_error + jsval" where
  "find_js p [] = Inr JUndefined"
| "find_js p (x # xs) =
     (case p x of
        Inl e \<Rightarrow> Inl e
      | Inr True \<Rightarrow> Inr x
      | Inr False \<Rightarrow> find_js p xs)"

text \<open>
  \<open>v.find(p)\<close> on a parsed value \<open>v\<close>: only an array has the method; reading it off
  \<open>null\<close>/\<open>undefined\<close> or calling the missing method throws.
\<close>

fun find_method :: "jsval \<Rightarrow> (jsval \<Rightarrow> js_error + bool) \<Rightarrow> js_error + jsval" where
  "find_method (JArr xs) p = find_js p xs"
| "find_method JUndefined p = Inl (TypeError ''Cannot read properties of undefined (reading find)'')"
| "find_method JNull p = Inl (TypeError ''Cannot read properties of null (reading find)'')"
| "find_method v p = Inl (TypeError ''find is not a function'')"

text \<open>The callback \<open>e => e.k\<close>, whose result \<open>find\<close> tests for truthiness.\<close>

definition flagged :: "string \<Rightarrow> jsval \<Rightarrow> js_error + bool" where
  "flagged k e = (case get_prop e k of Inl err \<Rightarrow> Inl err | Inr v \<Rightarrow> Inr (truthy v))"

subsection \<open>Numbers and values inside template literals\<close>

definition digit_char :: "nat \<Rightarrow> char" where
  "digit_char d = ''0123456789'' ! d"

function show_nat :: "nat \<Rightarrow> string" where
  "show_nat n = (if n < 10 then [digit_char n] else show_nat (n div 10) @ [digit_char (n mod 10)])"
  by pat_completeness auto
termination
  by (relation "measure (\<lambda>n. n)") auto

declare show_nat.simps [simp del]

text \<open>
  \<open>Number.prototype.toString\<close> on an integer.  Below \<open>2 ^ 53\<close> it prints the digits
  of the integer.  From there on it prints the double nearest to the integer (ties to the
  even significand, \<open>Infinity\<close> from \<open>2 ^ 1024 - 2 ^ 970\<close> on): the decimal with the
  fewest significant digits that still rounds to that double, the one closest to the
  double when there are several, written out in full below \<open>10 ^ 21\<close> and in exponent
  form from there on.
\<close>

function show_digits :: "int \<Rightarrow> string" where
  "show_digits i =
     (if i < 10 then [digit_char (nat i)] else show_digits (i div 10) @ [digit_char (nat (i mod 10))])"
  by pat_completeness auto
termination
  by (relation "measure nat") auto

declare show_digits.simps [simp del]

function bit_length :: "int \<Rightarrow> nat" where
  "bit_length i = (if i \<le> 0 then 0 else Suc (bit_length (i div 2)))"
  by pat_completeness auto
termination
  by (relation "measure nat") auto

declare bit_length.simps [simp del]

definition round_double :: "int \<Rightarrow> int" where
  "round_double y =
     (if y < 2 ^ 53 then y
      else (let e = bit_length y - 53; q = y div 2 ^ e; r = y mod 2 ^ e
            in if 2 ^ e < 2 * r \<or> (2 * r = 2 ^ e \<and> odd q) then (q + 1) * 2 ^ e else q * 2 ^ e))"

text \<open>
  The shortest decimal for the double \<open>x\<close>, tried with \<open>p\<close> trailing zeros, then with
  \<open>p - 1\<close>, and so on: of the multiples of \<open>10 ^ p\<close> only the two around \<open>x\<close> can
  round to it.
\<close>

fun shortest_digits :: "int \<Rightarrow> nat \<Rightarrow> int" where
  "shortest_digits x 0 = x"
| "shortest_digits x (Suc p) =
     (let lo = (x div 10 ^ Suc p) * 10 ^ Suc p; hi = lo + 10 ^ Suc p
      in if round_double lo = x \<and> round_double hi = x
         then (if x - lo < hi - x \<or> (x - lo = hi - x \<and> even (x div 10 ^ Suc p)) then lo else hi)
         else if round_double lo = x then lo
         else if round_double hi = x then hi
         else shortest_digits x p)"

definition strip_zeros :: "string \<Rightarrow> string" where
  "strip_zeros ds = rev (dropWhile (\<lambda>c. c = CHR ''0'') (rev ds))"

definition show_double :: "int \<Rightarrow> string" where
  "show_double x =
     (if 2 ^ 1024 \<le> x then ''Infinity''
      else (let y = shortest_digits x (length (show_digits x) - 1); ds = show_digits y
            in if y < 10 ^ 21 then ds
               else (case strip_zeros ds of
                       [] \<Rightarrow> ds
                     | d # more \<Rightarrow>
                         d # (if more = [] then [] else CHR ''.'' # more)
                           @ ''e+'' @ show_digits (int (length ds) - 1))))"

definition show_number :: "int \<Rightarrow> string" where
  "show_number i =
     (if i < 0 then ''-'' else [])
     @ (if \<bar>i\<bar> < 2 ^ 53 then show_digits \<bar>i\<bar> else show_double (round_double \<bar>i\<bar>))"

text \<open>
  \<open>${v}\<close>: the string conversion of a value, which can throw.  An object is converted by
  its \<open>toString\<close> method; an own property of that name hides the inherited method and is
  not callable, and the inherited \<open>valueOf\<close> returns the object itself, so the conversion
  ends in a TypeError.  An array joins the conversions of its elements, \<open>null\<close> and
  \<open>undefined\<close> counting as the empty string.
\<close>

fun to_string :: "jsval \<Rightarrow> js_error + string"
and join_elements :: "jsval list \<Rightarrow> js_error + string" where
  "to_string JUndefined = Inr ''undefined''"
| "to_string JNull = Inr ''null''"
| "to_string (JBool b) = Inr (if b then ''true'' else ''false'')"
| "to_string (JNum n) = Inr (show_number n)"
| "to_string (JStr s) = Inr s"
| "to_string (JArr xs) = join_elements xs"
| "to_string (JObj kvs) =
     (if ''toString'' \<in> set (map fst kvs)
      then Inl (TypeError ''Cannot convert object to primitive value'')
      else Inr ''[object Object]'')"
| "join_elements [] = Inr []"
| "join_elements (x # xs) =
     (case (if nullish x then Inr [] else to_string x) of
        Inl e \<Rightarrow> Inl e
      | Inr s \<Rightarrow>
          if xs = [] then Inr s
          else (case join_elements xs of Inl e \<Rightarrow> Inl e | Inr t \<Rightarrow> Inr (s @ '','' @ t)))"

section \<open>The upstream API and the data store\<close>

text \<open>
  What \<open>fetch(url)\<close> resolves to: the promise rejects (\<open>Inl\<close>), or it yields a response
  with its \<open>ok\<close> flag, its status and the outcome of \<open>response.json()\<close>.
  The upstream answers a URL the same way throughout one invocation; the request
  headers are not part of the model.
\<close>

record http_response =
  ok :: bool
  status :: nat
  json :: "js_error + jsval"

type_synonym network = "string \<Rightarrow> js_error + http_response"

text \<open>
  One call \<open>supabase.from(table).upsert(payload, {onConflict})\<close>, and what awaiting it
  gives: a rejection, or an object whose \<open>error\<close> field is the carried value.
\<close>

record db_write =
  table :: string
  payload :: jsval
  onConflict :: string

datatype store_outcome = Rejected js_error | Resolved jsval

type_synonym client = "db_write \<Rightarrow> store_outcome"

text \<open>
  The effects of one invocation, in the order they happen: the URLs requested from the
  upstream and the writes submitted to the store.  Console output is left out.
\<close>

record effects =
  fetched :: "string list"
  upserts :: "db_write list"

definition no_effects :: effects where
  "no_effects = \<lparr>fetched = [], upserts = []\<rparr>"

definition api_url :: "string \<Rightarrow> string" where
  "api_url endpoint = ''https://fantasy.premierleague.com/api'' @ endpoint"

text \<open>The common part of both \<open>fetchFPL\<close>s; \<open>complaint\<close> builds the message for a bad status.\<close>

definition fetch_json :: "(nat \<Rightarrow> string) \<Rightarrow> network \<Rightarrow> string \<Rightarrow> effects \<Rightarrow> (js_error + jsval) \<times> effects" where
  "fetch_json complaint net endpoint s =
     (let s' = s\<lparr>fetched := fetched s @ [api_url endpoint]\<rparr>
      in case net (api_url endpoint) of
           Inl e \<Rightarrow> (Inl e, s')
         | Inr response \<Rightarrow>
             if \<not> ok response then (Inl (Error (complaint (status response))), s')
             else (json response, s'))"

text \<open>\<open>fetchFPL\<close> of the two three-league handlers (the same text in both files).\<close>

definition fetchFPL :: "network \<Rightarrow> string \<Rightarrow> effects \<Rightarrow> (js_error + jsval) \<times> effects" where
  "fetchFPL net endpoint =
     fetch_json (\<lambda>st. ''FPL API '' @ endpoint @ '' returned '' @ show_nat st) net endpoint"

text \<open>\<open>fetchFPL\<close> of \<open>api/cron/sync-fpl-data.js\<close>.\<close>

definition fetchFPL_cron :: "network \<Rightarrow> string \<Rightarrow> effects \<Rightarrow> (js_error + jsval) \<times> effects" where
  "fetchFPL_cron net endpoint =
     fetch_json (\<lambda>st. ''FPL API error: '' @ show_nat st) net endpoint"

text \<open>\<open>await supabase.from(t).upsert(p, {onConflict: c})\<close>\<close>

definition upsert :: "client \<Rightarrow> string \<Rightarrow> jsval \<Rightarrow> string \<Rightarrow> effects \<Rightarrow> store_outcome \<times> effects" where
  "upsert supabase t p c s =
     (let w = \<lparr>table = t, payload = p, onConflict = c\<rparr>
      in (supabase w, s\<lparr>upserts := upserts s @ [w]\<rparr>))"

section \<open>Period resolver\<close>

text \<open>The expression \<open>bootstrap.events.find(e => e.is_current)?.id || 11\<close>.\<close>

definition current_event_id :: "jsval \<Rightarrow> js_error + jsval" where
  "current_event_id bootstrap =
     (case get_prop bootstrap ''events'' of
        Inl e \<Rightarrow> Inl e
      | Inr events \<Rightarrow>
          (case find_method events (flagged ''is_current'') of
             Inl e \<Rightarrow> Inl e
           | Inr found \<Rightarrow> Inr (js_or (opt_prop found ''id'') (JNum 11))))"

definition getCurrentGW_with ::
  "(string \<Rightarrow> effects \<Rightarrow> (js_error + jsval) \<times> effects) \<Rightarrow> effects \<Rightarrow> jsval \<times> effects" where
  "getCurrentGW_with fetcher s =
     (case fetcher ''/bootstrap-static/'' s of
        (Inl error, s') \<Rightarrow> (JNum 11, s')
      | (Inr bootstrap, s') \<Rightarrow>
          (case current_event_id bootstrap of
             Inl error \<Rightarrow> (JNum 11, s')
           | Inr gw \<Rightarrow> (gw, s')))"

text \<open>\<open>getCurrentGW\<close> of the two three-league handlers, and of \<open>api/cron/sync-fpl-data.js\<close>.\<close>

definition getCurrentGW :: "network \<Rightarrow> effects \<Rightarrow> jsval \<times> effects" where
  "getCurrentGW net = getCurrentGW_with (fetchFPL net)"

definition getCurrentGW_cron :: "network \<Rightarrow> effects \<Rightarrow> jsval \<times> effects" where
  "getCurrentGW_cron net = getCurrentGW_with (fetchFPL_cron net)"

section \<open>Paginator\<close>

definition standings_endpoint :: "nat \<Rightarrow> nat \<Rightarrow> string" where
  "standings_endpoint leagueId page =
     ''/leagues-classic/'' @ show_nat leagueId @ ''/standings/?page_standings='' @ show_nat page"

text \<open>
  The loop variables of \<open>fetchAllManagers\<close>: \<open>managers\<close>, \<open>page\<close> and \<open>hasMore\<close>
  (which holds whatever \<open>has_next\<close> was, and is tested for truthiness).
\<close>

type_synonym loop_vars = "jsval list \<times> nat \<times> jsval"

text \<open>
  What follows the fetch inside the \<open>try\<close> block of the scheduled handler's
  \<open>fetchAllManagers\<close>.  An exception leaves the variables as they were: the spread is
  evaluated before \<open>push\<close> appends anything.
\<close>

definition take_page :: "jsval \<Rightarrow> jsval list \<Rightarrow> nat \<Rightarrow> js_error + loop_vars" where
  "take_page data managers page =
     (case get_prop data ''standings'' of
        Inl e \<Rightarrow> Inl e
      | Inr standings \<Rightarrow>
          if truthy (opt_prop standings ''results'') then
            (case spread (opt_prop standings ''results'') of
               Inl e \<Rightarrow> Inl e
             | Inr results \<Rightarrow> Inr (managers @ results, page + 1, opt_prop standings ''has_next''))
          else Inr (managers, page, JBool False))"

text \<open>
  The same for the manual handler, which tests \<open>data.standings && data.standings.results\<close>
  and appends with \<open>concat\<close>.
\<close>

definition take_page_manual :: "jsval \<Rightarrow> jsval list \<Rightarrow> nat \<Rightarrow> js_error + loop_vars" where
  "take_page_manual data managers page =
     (case get_prop data ''standings'' of
        Inl e \<Rightarrow> Inl e
      | Inr standings \<Rightarrow>
          if truthy (if truthy standings then opt_prop standings ''results'' else standings) then
            Inr (concat_js managers (opt_prop standings ''results''), page + 1,
                 opt_prop standings ''has_next'')
          else Inr (managers, page, JBool False))"

text \<open>The \<open>while (hasMore)\<close> loop; the \<open>catch\<close> block only clears \<open>hasMore\<close>.\<close>

partial_function (option) fetch_pages ::
  "(jsval \<Rightarrow> jsval list \<Rightarrow> nat \<Rightarrow> js_error + loop_vars) \<Rightarrow> network \<Rightarrow> nat \<Rightarrow>
     loop_vars \<Rightarrow> effects \<Rightarrow> (jsval list \<times> effects) option" where
  "fetch_pages step net leagueId vars s =
     (case vars of (managers, page, hasMore) \<Rightarrow>
        if \<not> truthy hasMore then Some (managers, s)
        else
          (case fetchFPL net (standings_endpoint leagueId page) s of
             (Inl error, s') \<Rightarrow> fetch_pages step net leagueId (managers, page, JBool False) s'
           | (Inr data, s') \<Rightarrow>
               (case step data managers page of
                  Inl error \<Rightarrow> fetch_pages step net leagueId (managers, page, JBool False) s'
                | Inr vars' \<Rightarrow> fetch_pages step net leagueId vars' s')))"

declare fetch_pages.simps [code]

text \<open>\<open>fetchAllManagers\<close> of the scheduled and of the manual handler (the league's name is only logged).\<close>

definition fetchAllManagers :: "network \<Rightarrow> nat \<Rightarrow> effects \<Rightarrow> (jsval list \<times> effects) option" where
  "fetchAllManagers net leagueId s = fetch_pages take_page net leagueId ([], 1, JBool True) s"

definition fetchAllManagers_manual :: "network \<Rightarrow> nat \<Rightarrow> effects \<Rightarrow> (jsval list \<times> effects) option" where
  "fetchAllManagers_manual net leagueId s =
     fetch_pages take_page_manual net leagueId ([], 1, JBool True) s"

text \<open>
  The \<open>try\<close> block of the recursive \<open>getAllManagersFromLeague\<close> up to the recursive
  call: the managers of this page and whether \<open>has_next\<close> asks for another page.  Its
  exceptions all happen while \<open>managers\<close> is still empty.
\<close>

definition own_page :: "jsval \<Rightarrow> js_error + (jsval list \<times> bool)" where
  "own_page response =
     (case get_prop response ''standings'' of
        Inl e \<Rightarrow> Inl e
      | Inr standings \<Rightarrow>
          (case (if truthy (opt_prop standings ''results'')
                 then spread (opt_prop standings ''results'') else Inr []) of
             Inl e \<Rightarrow> Inl e
           | Inr managers \<Rightarrow> Inr (managers, truthy (opt_prop standings ''has_next''))))"

partial_function (option) getAllManagersFromLeague ::
  "network \<Rightarrow> nat \<Rightarrow> nat \<Rightarrow> effects \<Rightarrow> (jsval list \<times> effects) option" where
  "getAllManagersFromLeague net leagueId pageStandings s =
     (case fetchFPL_cron net (standings_endpoint leagueId pageStandings) s of
        (Inl error, s') \<Rightarrow> Some ([], s')
      | (Inr response, s') \<Rightarrow>
          (case own_page response of
             Inl error \<Rightarrow> Some ([], s')
           | Inr (managers, again) \<Rightarrow>
               if again then
                 Option.bind (getAllManagersFromLeague net leagueId (pageStandings + 1) s')
                   (\<lambda>(nextPageManagers, s''). Some (managers @ nextPageManagers, s''))
               else Some (managers, s')))"

declare getAllManagersFromLeague.simps [code]

section \<open>Configuration, requests, responses\<close>

record environment =
  SUPABASE_URL :: "string option"
  SUPABASE_KEY :: "string option"
  CRON_SECRET :: "string option"

definition classicLeagueId :: nat where "classicLeagueId = 1229613"
definition lmsLeagueId :: nat where "lmsLeagueId = 1190208"
definition h2hLeagueId :: nat where "h2hLeagueId = 1190166"

text \<open>The request headers: each is a string or absent.\<close>

type_synonym headers = "string \<Rightarrow> string option"

text \<open>\<open>Date.now()\<close> at the start and at the end, and \<open>new Date().toISOString()\<close>.\<close>

record clock =
  startTime :: int
  endTime :: int
  isoNow :: string

text \<open>
  How an invocation ends: \<open>res.status(n).json(body)\<close>, or an exception that nothing
  catches.
\<close>

datatype outcome = Responded nat jsval | Uncaught js_error

text \<open>\<open>!v\<close> on an environment variable: unset or empty.\<close>

definition unset :: "string option \<Rightarrow> bool" where
  "unset v = (case v of None \<Rightarrow> True | Some x \<Rightarrow> x = [])"

text \<open>
  The module initialisation of the two three-league handlers:
  \<open>supabase\<close> stays \<open>undefined\<close> when a credential is missing or \<open>createClient\<close> throws.
\<close>

definition init_supabase ::
  "(string option \<Rightarrow> string option \<Rightarrow> js_error + client) \<Rightarrow> environment \<Rightarrow> client option" where
  "init_supabase createClient env =
     (if unset (SUPABASE_URL env) \<or> unset (SUPABASE_KEY env) then None
      else (case createClient (SUPABASE_URL env) (SUPABASE_KEY env) of
              Inl error \<Rightarrow> None
            | Inr c \<Rightarrow> Some c))"

text \<open>\<open>s.replace(pat, rep)\<close> with a string pattern: the first occurrence only.\<close>

fun replace_first :: "string \<Rightarrow> string \<Rightarrow> string \<Rightarrow> string" where
  "replace_first pat rep [] = (if pat = [] then rep else [])"
| "replace_first pat rep (c # cs) =
     (if prefix pat (c # cs) then rep @ drop (length pat) (c # cs)
      else c # replace_first pat rep cs)"

text \<open>
  \<open>req.headers['x-vercel-cron-secret'] || req.headers['authorization']?.replace('Bearer ', '')\<close>
\<close>

definition cronSecret :: "headers \<Rightarrow> string option" where
  "cronSecret hs =
     (case hs ''x-vercel-cron-secret'' of
        Some v \<Rightarrow> if v \<noteq> [] then Some v
                  else map_option (replace_first ''Bearer '' []) (hs ''authorization'')
      | None \<Rightarrow> map_option (replace_first ''Bearer '' []) (hs ''authorization''))"

section \<open>Building the rows\<close>

text \<open>\<open>xs.map(f)\<close> where \<open>f\<close> may throw: the first exception ends the whole map.\<close>

fun map_js :: "(jsval \<Rightarrow> js_error + jsval) \<Rightarrow> jsval list \<Rightarrow> js_error + jsval list" where
  "map_js f [] = Inr []"
| "map_js f (x # xs) =
     (case f x of
        Inl e \<Rightarrow> Inl e
      | Inr y \<Rightarrow> (case map_js f xs of Inl e \<Rightarrow> Inl e | Inr ys \<Rightarrow> Inr (y # ys)))"

text \<open>
  The row the scheduled handler builds for a classic-league entry \<open>m\<close>.  Once
  \<open>m.entry\<close> has been read, \<open>m\<close> is neither \<open>null\<close> nor \<open>undefined\<close> and each
  further \<open>m.k\<close> is \<open>opt_prop m k\<close>.
\<close>

definition scheduled_row :: "jsval \<Rightarrow> string \<Rightarrow> jsval \<Rightarrow> js_error + jsval" where
  "scheduled_row currentGW now m =
     (case get_prop m ''entry'' of
        Inl e \<Rightarrow> Inl e
      | Inr entry \<Rightarrow>
          Inr (JObj
            [(''manager_id'', entry),
             (''manager_name'', opt_prop m ''player_name''),
             (''team_name'', opt_prop m ''entry_name''),
             (''gw'', currentGW),
             (''gw_points'', js_or (opt_prop m ''event_total'') (JNum 0)),
             (''total_points'', js_or (opt_prop m ''total'') (JNum 0)),
             (''overall_rank'', js_or (opt_prop m ''rank'') (JNum 0)),
             (''last_updated'', JStr now)]))"

text \<open>\<open>league.find(lm => lm.entry === entry)?.rank || null\<close>\<close>

definition rank_in :: "jsval list \<Rightarrow> jsval \<Rightarrow> js_error + jsval" where
  "rank_in league entry =
     (case find_js (\<lambda>lm. case get_prop lm ''entry'' of
                            Inl e \<Rightarrow> Inl e
                          | Inr v \<Rightarrow> Inr (strict_eq v entry)) league of
        Inl e \<Rightarrow> Inl e
      | Inr found \<Rightarrow> Inr (js_or (opt_prop found ''rank'') JNull))"

text \<open>The row the manual handler builds; the properties are evaluated in this order.\<close>

definition manual_row :: "jsval \<Rightarrow> string \<Rightarrow> jsval list \<Rightarrow> jsval list \<Rightarrow> jsval \<Rightarrow> js_error + jsval" where
  "manual_row currentGW now lmsManagers h2hManagers m =
     (case get_prop m ''entry'' of
        Inl e \<Rightarrow> Inl e
      | Inr entry \<Rightarrow>
          (case rank_in lmsManagers entry of
             Inl e \<Rightarrow> Inl e
           | Inr lms_rank \<Rightarrow>
               (case rank_in h2hManagers entry of
                  Inl e \<Rightarrow> Inl e
                | Inr h2h_rank \<Rightarrow>
                    Inr (JObj
                      [(''manager_id'', entry),
                       (''gw'', currentGW),
                       (''team_name'', opt_prop m ''entry_name''),
                       (''player_name'', opt_prop m ''player_name''),
                       (''classic_rank'', opt_prop m ''rank''),
                       (''classic_total'', opt_prop m ''total''),
                       (''classic_gw_points'', js_or (opt_prop m ''event_total'') (JNum 0)),
                       (''lms_rank'', lms_rank),
                       (''h2h_rank'', h2h_rank),
                       (''last_updated'', JStr now)]))))"

text \<open>The reconciliation step: \<open>classicManagers.map(m => ({...}))\<close> of the manual handler.\<close>

definition reconcile :: "jsval \<Rightarrow> string \<Rightarrow> jsval list \<Rightarrow> jsval list \<Rightarrow> jsval list \<Rightarrow> js_error + jsval list" where
  "reconcile currentGW now classicManagers lmsManagers h2hManagers =
     map_js (manual_row currentGW now lmsManagers h2hManagers) classicManagers"

section \<open>The three-league handlers\<close>

definition success_body :: "jsval \<Rightarrow> nat \<Rightarrow> clock \<Rightarrow> jsval" where
  "success_body currentGW n clk =
     JObj [(''success'', JBool True),
           (''gw'', currentGW),
           (''managersProcessed'', JNum (int n)),
           (''duration'', JStr (show_number (endTime clk - startTime clk) @ ''ms''))]"

definition failure_body :: "js_error \<Rightarrow> jsval" where
  "failure_body error = JObj [(''success'', JBool False), (''error'', JStr (message error))]"

text \<open>
  The bulk upsert and what follows it.  \<open>error\<close> is truthy where it is tested, so
  \<open>error.message\<close> is \<open>opt_prop error ''message''\<close>; the template literal that
  builds the message of the exception converts it to a string.
\<close>

definition store_rows :: "client \<Rightarrow> jsval \<Rightarrow> jsval list \<Rightarrow> clock \<Rightarrow> effects \<Rightarrow> (js_error + jsval) \<times> effects" where
  "store_rows supabase currentGW managerData clk s =
     (case upsert supabase ''manager_data'' (JArr managerData) ''manager_id,gw'' s of
        (Rejected e, s') \<Rightarrow> (Inl e, s')
      | (Resolved error, s') \<Rightarrow>
          if truthy error
          then (case to_string (opt_prop error ''message'') of
                  Inl e \<Rightarrow> (Inl e, s')
                | Inr m \<Rightarrow> (Inl (Error (''Supabase insert failed: '' @ m)), s'))
          else (Inr (success_body currentGW (length managerData) clk), s'))"

text \<open>
  The \<open>try\<close> block shared by both handlers, with the paginator and the row builder
  of each as parameters.  The three paginations that \<open>Promise.all\<close> starts are taken
  one after the other.
\<close>

definition sync_leagues ::
  "(network \<Rightarrow> nat \<Rightarrow> effects \<Rightarrow> (jsval list \<times> effects) option) \<Rightarrow>
   (jsval \<Rightarrow> jsval list \<Rightarrow> jsval list \<Rightarrow> jsval list \<Rightarrow> js_error + jsval list) \<Rightarrow>
   client option \<Rightarrow> network \<Rightarrow> clock \<Rightarrow> effects \<Rightarrow> ((js_error + jsval) \<times> effects) option" where
  "sync_leagues paginate rows supabase net clk s =
     (case supabase of
        None \<Rightarrow> Some (Inl (Error ''Supabase client not initialized''), s)
      | Some db \<Rightarrow>
          (case getCurrentGW net s of (currentGW, s0) \<Rightarrow>
             Option.bind (paginate net classicLeagueId s0) (\<lambda>(classicManagers, s1).
             Option.bind (paginate net lmsLeagueId s1) (\<lambda>(lmsManagers, s2).
             Option.bind (paginate net h2hLeagueId s2) (\<lambda>(h2hManagers, s3).
               (case rows currentGW classicManagers lmsManagers h2hManagers of
                  Inl e \<Rightarrow> Some (Inl e, s3)
                | Inr managerData \<Rightarrow> Some (store_rows db currentGW managerData clk s3)))))))"

text \<open>The \<open>catch\<close> block and the success path: the response for the outcome of the \<open>try\<close> block.\<close>

definition respond :: "((js_error + jsval) \<times> effects) option \<Rightarrow> (outcome \<times> effects) option" where
  "respond r =
     (case r of
        None \<Rightarrow> None
      | Some (Inl error, s) \<Rightarrow> Some (Responded 500 (failure_body error), s)
      | Some (Inr body, s) \<Rightarrow> Some (Responded 200 body, s))"

text \<open>The manual trigger's handler.\<close>

definition handler_manual :: "client option \<Rightarrow> network \<Rightarrow> clock \<Rightarrow> (outcome \<times> effects) option" where
  "handler_manual supabase net clk =
     respond (sync_leagues fetchAllManagers_manual
                (\<lambda>currentGW classicManagers lmsManagers h2hManagers.
                   reconcile currentGW (isoNow clk) classicManagers lmsManagers h2hManagers)
                supabase net clk no_effects)"

text \<open>The scheduled trigger's handler (the file that calls itself the fixed version).\<close>

definition handler_scheduled ::
  "client option \<Rightarrow> environment \<Rightarrow> headers \<Rightarrow> network \<Rightarrow> clock \<Rightarrow> (outcome \<times> effects) option" where
  "handler_scheduled supabase env hs net clk =
     (if cronSecret hs \<noteq> CRON_SECRET env
      then Some (Responded 401 (JObj [(''error'', JStr ''Unauthorized'')]), no_effects)
      else respond (sync_leagues fetchAllManagers
                      (\<lambda>currentGW classicManagers lmsManagers h2hManagers.
                         map_js (scheduled_row currentGW (isoNow clk)) classicManagers)
                      supabase net clk no_effects))"

text \<open>A trigger invocation from a fresh module: initialisation, then the handler.\<close>

definition manual_trigger ::
  "(string option \<Rightarrow> string option \<Rightarrow> js_error + client) \<Rightarrow> environment \<Rightarrow> network \<Rightarrow> clock \<Rightarrow>
     (outcome \<times> effects) option" where
  "manual_trigger createClient env net clk =
     handler_manual (init_supabase createClient env) net clk"

definition scheduled_trigger ::
  "(string option \<Rightarrow> string option \<Rightarrow> js_error + client) \<Rightarrow> environment \<Rightarrow> headers \<Rightarrow> network \<Rightarrow>
     clock \<Rightarrow> (outcome \<times> effects) option" where
  "scheduled_trigger createClient env hs net clk =
     handler_scheduled (init_supabase createClient env) env hs net clk"

section \<open>The per-manager handler of \<open>api/cron/sync-fpl-data.js\<close>\<close>

text \<open>
  Both helpers turn a failed fetch into \<open>null\<close>.  Their \<open>catch\<close> blocks log
  \<open>${managerId}\<close>: when the identifier has no string form the template literal of the
  \<open>try\<close> block throws, the one of the \<open>catch\<close> block throws again, and the helper
  throws.  When only \<open>${gw}\<close> has no string form, the \<open>catch\<close> block returns \<open>null\<close>.
\<close>

definition getManagerDetails :: "network \<Rightarrow> jsval \<Rightarrow> effects \<Rightarrow> (js_error + jsval) \<times> effects" where
  "getManagerDetails net managerId s =
     (case to_string managerId of
        Inl e \<Rightarrow> (Inl e, s)
      | Inr label \<Rightarrow>
          (case fetchFPL_cron net (''/entry/'' @ label @ ''/'') s of
             (Inl error, s') \<Rightarrow> (Inr JNull, s')
           | (Inr response, s') \<Rightarrow> (Inr response, s')))"

definition getManagerGWPicks ::
  "network \<Rightarrow> jsval \<Rightarrow> jsval \<Rightarrow> effects \<Rightarrow> (js_error + jsval) \<times> effects" where
  "getManagerGWPicks net managerId gw s =
     (case to_string managerId of
        Inl e \<Rightarrow> (Inl e, s)
      | Inr label \<Rightarrow>
          (case to_string gw of
             Inl e \<Rightarrow> (Inr JNull, s)
           | Inr period \<Rightarrow>
               (case fetchFPL_cron net (''/entry/'' @ label @ ''/event/'' @ period @ ''/picks/'') s of
                  (Inl error, s') \<Rightarrow> (Inr JNull, s')
                | (Inr response, s') \<Rightarrow> (Inr response, s'))))"

text \<open>\<open>picks?.picks?.find(p => p.is_captain)\<close>\<close>

definition captain_of :: "jsval \<Rightarrow> js_error + jsval" where
  "captain_of picks =
     (if nullish (opt_prop picks ''picks'') then Inr JUndefined
      else find_method (opt_prop picks ''picks'') (flagged ''is_captain''))"

text \<open>
  The object passed to \<open>upsert\<close>; \<open>manager\<close> and \<open>details\<close> are neither \<open>null\<close> nor
  \<open>undefined\<close> where it is built.
\<close>

definition manager_row :: "jsval \<Rightarrow> jsval \<Rightarrow> jsval \<Rightarrow> string \<Rightarrow> jsval" where
  "manager_row manager details captainId now =
     JObj [(''manager_id'', opt_prop manager ''entry''),
           (''entry_id'', opt_prop manager ''entry''),
           (''manager_name'', opt_prop manager ''player_name''),
           (''team_name'', opt_prop manager ''entry_name''),
           (''total_points'', opt_prop manager ''total''),
           (''overall_rank'', opt_prop manager ''rank''),
           (''gw_points'', js_or (opt_prop manager ''event_total'') (JNum 0)),
           (''captain_id'', captainId),
           (''captain_name'', js_or (opt_prop details ''last_name'') (JStr ''Unknown'')),
           (''value'', js_or (opt_prop details ''value'') (JNum 0)),
           (''bank'', js_or (opt_prop details ''bank'') (JNum 0)),
           (''transfers_made'', js_or (opt_prop details ''transfers_made'') (JNum 0)),
           (''last_updated'', JStr now)]"

text \<open>
  The \<open>try\<close> block of one iteration of the loop over the managers; \<open>Inr ()\<close> also
  stands for \<open>continue\<close>.  A rejected upsert throws; what a resolved one carries is
  not looked at.
\<close>

definition sync_manager ::
  "client \<Rightarrow> network \<Rightarrow> string \<Rightarrow> jsval \<Rightarrow> jsval \<Rightarrow> effects \<Rightarrow> (js_error + unit) \<times> effects" where
  "sync_manager supabase net now currentGW manager s =
     (case get_prop manager ''entry'' of
        Inl e \<Rightarrow> (Inl e, s)
      | Inr entry \<Rightarrow>
          (case getManagerDetails net entry s of
             (Inl e, s1) \<Rightarrow> (Inl e, s1)
           | (Inr details, s1) \<Rightarrow>
               if \<not> truthy details then (Inr (), s1)
               else
                 (case getManagerGWPicks net entry currentGW s1 of
                    (Inl e, s2) \<Rightarrow> (Inl e, s2)
                  | (Inr picks, s2) \<Rightarrow>
                      (case captain_of picks of
                         Inl e \<Rightarrow> (Inl e, s2)
                       | Inr captain \<Rightarrow>
                           (case upsert supabase ''manager_data''
                                   (manager_row manager details
                                      (js_or (opt_prop captain ''element'') JNull) now)
                                   ''manager_id'' s2 of
                              (Rejected e, s3) \<Rightarrow> (Inl e, s3)
                            | (Resolved r, s3) \<Rightarrow> (Inr (), s3))))))"

text \<open>
  The \<open>for\<close> loop.  The \<open>catch\<close> block of an iteration logs
  \<open>`Error syncing manager ${manager.entry}:`\<close> and the loop goes on; an exception of
  that template literal (the manager is \<open>null\<close> or \<open>undefined\<close>, or its identifier has
  no string form) leaves the loop.
\<close>

fun sync_each ::
  "client \<Rightarrow> network \<Rightarrow> string \<Rightarrow> jsval \<Rightarrow> jsval list \<Rightarrow> effects \<Rightarrow> (js_error + unit) \<times> effects" where
  "sync_each supabase net now currentGW [] s = (Inr (), s)"
| "sync_each supabase net now currentGW (manager # rest) s =
     (case sync_manager supabase net now currentGW manager s of
        (Inr done, s') \<Rightarrow> sync_each supabase net now currentGW rest s'
      | (Inl error, s') \<Rightarrow>
          (case get_prop manager ''entry'' of
             Inl e \<Rightarrow> (Inl e, s')
           | Inr entry \<Rightarrow>
               (case to_string entry of
                  Inl e \<Rightarrow> (Inl e, s')
                | Inr label \<Rightarrow> sync_each supabase net now currentGW rest s')))"

text \<open>What the outer \<open>catch\<close> block returns.\<close>

definition sync_failed :: "js_error \<Rightarrow> jsval" where
  "sync_failed error = JObj [(''success'', JBool False), (''error'', JStr (message error))]"

text \<open>
  \<open>syncManagerData\<close>.  Its \<open>try\<close> block logs \<open>`Current GW: ${currentGW}`\<close> before it
  paginates; every exception of the block ends in the outer \<open>catch\<close>.
\<close>

definition syncManagerData :: "client \<Rightarrow> network \<Rightarrow> string \<Rightarrow> effects \<Rightarrow> (jsval \<times> effects) option" where
  "syncManagerData supabase net now s =
     (case getCurrentGW_cron net s of (currentGW, s0) \<Rightarrow>
        (case to_string currentGW of
           Inl error \<Rightarrow> Some (sync_failed error, s0)
         | Inr label \<Rightarrow>
             Option.bind (getAllManagersFromLeague net classicLeagueId 1 s0) (\<lambda>(allManagers, s1).
               if length allManagers = 0
               then Some (JObj [(''success'', JBool False), (''message'', JStr ''No managers found'')], s1)
               else
                 (case sync_each supabase net now currentGW allManagers s1 of
                    (Inl error, s2) \<Rightarrow> Some (sync_failed error, s2)
                  | (Inr done, s2) \<Rightarrow>
                      (case upsert supabase ''season_snapshot''
                              (JObj [(''id'', JNum 1), (''current_gw'', currentGW),
                                     (''updated_at'', JStr now)])
                              ''id'' s2 of
                         (Rejected error, s3) \<Rightarrow> Some (sync_failed error, s3)
                       | (Resolved r, s3) \<Rightarrow>
                           Some (JObj [(''success'', JBool True),
                                       (''managers'', JNum (int (length allManagers))),
                                       (''gw'', currentGW)], s3))))))"

text \<open>\<open>`Bearer ${process.env.CRON_SECRET}`\<close>\<close>

definition bearer :: "string option \<Rightarrow> string" where
  "bearer secret = ''Bearer '' @ (case secret of None \<Rightarrow> ''undefined'' | Some v \<Rightarrow> v)"

definition handler_cron ::
  "client \<Rightarrow> environment \<Rightarrow> headers \<Rightarrow> network \<Rightarrow> string \<Rightarrow> (outcome \<times> effects) option" where
  "handler_cron supabase env hs net now =
     (if hs ''authorization'' \<noteq> Some (bearer (CRON_SECRET env))
      then Some (Responded 401 (JObj [(''error'', JStr ''Unauthorized'')]), no_effects)
      else Option.bind (syncManagerData supabase net now no_effects)
             (\<lambda>(result, s). Some (Responded 200 result, s)))"

text \<open>
  A trigger invocation from a fresh module: this file calls \<open>createClient\<close> at load
  time with whatever the environment holds, outside any \<open>try\<close>.
\<close>

definition cron_trigger ::
  "(string option \<Rightarrow> string option \<Rightarrow> js_error + client) \<Rightarrow> environment \<Rightarrow> headers \<Rightarrow> network \<Rightarrow>
     string \<Rightarrow> (outcome \<times> effects) option" where
  "cron_trigger createClient env hs net now =
     (case createClient (SUPABASE_URL env) (SUPABASE_KEY env) of
        Inl error \<Rightarrow> Some (Uncaught error, no_effects)
      | Inr supabase \<Rightarrow> handler_cron supabase env hs net now)"

section \<open>Notions used in the statements\<close>

text \<open>
  The upstream serves \<open>body\<close> at an endpoint (a success status and a body that parses),
  or it fails there (the request is rejected, the status is not a success, or the body
  does not parse).
\<close>

definition serves :: "network \<Rightarrow> string \<Rightarrow> jsval \<Rightarrow> bool" where
  "serves net endpoint body =
     (case net (api_url endpoint) of Inl e \<Rightarrow> False | Inr r \<Rightarrow> ok r \<and> json r = Inr body)"

definition fails :: "network \<Rightarrow> string \<Rightarrow> bool" where
  "fails net endpoint =
     (case net (api_url endpoint) of Inl e \<Rightarrow> True | Inr r \<Rightarrow> \<not> ok r \<or> isl (json r))"

text \<open>The result list and the has-more flag of a standings page.\<close>

definition results_of :: "jsval \<Rightarrow> jsval" where
  "results_of body = opt_prop (opt_prop body ''standings'') ''results''"

definition has_next_of :: "jsval \<Rightarrow> jsval" where
  "has_next_of body = opt_prop (opt_prop body ''standings'') ''has_next''"

text \<open>The effects after one more request, and the URLs of \<open>k\<close> pages from page \<open>p\<close> on.\<close>

definition requested :: "string \<Rightarrow> effects \<Rightarrow> effects" where
  "requested endpoint s = s\<lparr>fetched := fetched s @ [api_url endpoint]\<rparr>"

definition page_urls :: "nat \<Rightarrow> nat \<Rightarrow> nat \<Rightarrow> string list" where
  "page_urls leagueId p k = map (\<lambda>i. api_url (standings_endpoint leagueId i)) [p..<p + k]"

text \<open>
  The period the resolver is to return for a list of period descriptors: the identifier
  of the first descriptor flagged current when that identifier is truthy, the fallback
  otherwise.
\<close>

definition current_period :: "jsval list \<Rightarrow> jsval" where
  "current_period events =
     (case find (\<lambda>e. truthy (opt_prop e ''is_current'')) events of
        None \<Rightarrow> JNum 11
      | Some e \<Rightarrow> if truthy (opt_prop e ''id'') then opt_prop e ''id'' else JNum 11)"

subsection \<open>Concrete inputs\<close>

definition ok_body :: "jsval \<Rightarrow> js_error + http_response" where
  "ok_body v = Inr \<lparr>ok = True, status = 200, json = Inr v\<rparr>"

definition standings_page :: "jsval list \<Rightarrow> bool \<Rightarrow> jsval" where
  "standings_page rs again =
     JObj [(''standings'', JObj [(''has_next'', JBool again), (''page'', JNum 1), (''results'', JArr rs)])]"

definition standing :: "int \<Rightarrow> int \<Rightarrow> int \<Rightarrow> jsval" where
  "standing i r t = JObj [(''entry'', JNum i), (''rank'', JNum r), (''total'', JNum t)]"

text \<open>A bootstrap body whose only period descriptor is current and has identifier 0.\<close>

definition net_period_zero :: network where
  "net_period_zero url =
     ok_body (JObj [(''events'', JArr [JObj [(''id'', JNum 0), (''is_current'', JBool True)]])])"

text \<open>
  The bootstrap body of the specification's example, one whose current period is not the
  fallback, and an upstream that is down.
\<close>

definition events_eleven :: "jsval list" where
  "events_eleven = [JObj [(''id'', JNum 10), (''is_current'', JBool False)],
                    JObj [(''id'', JNum 11), (''is_current'', JBool True)]]"

definition net_period_eleven :: network where
  "net_period_eleven url = ok_body (JObj [(''events'', JArr events_eleven)])"

definition events_38 :: "jsval list" where
  "events_38 = [JObj [(''id'', JNum 37), (''is_current'', JBool False)],
                JObj [(''id'', JNum 38), (''is_current'', JBool True)]]"

definition net_period_38 :: network where
  "net_period_38 url = ok_body (JObj [(''events'', JArr events_38)])"

definition net_down :: network where
  "net_down url = Inl (TypeError ''fetch failed'')"

text \<open>League 7 has three pages of one manager each; the upstream answers 503 on page 4.\<close>

definition net_three_pages :: network where
  "net_three_pages url =
     (if url = api_url (standings_endpoint 7 1) then ok_body (standings_page [standing 1 1 50] True)
      else if url = api_url (standings_endpoint 7 2) then ok_body (standings_page [standing 2 2 40] True)
      else if url = api_url (standings_endpoint 7 3) then ok_body (standings_page [standing 3 3 30] True)
      else Inr \<lparr>ok = False, status = 503, json = Inl (Error ''Unexpected token'')\<rparr>)"

text \<open>
  League 7 answers page 1 with an empty result list that announces a further page, and
  page 2 with one manager and no further page; and a league with no managers at all.
\<close>

definition net_empty_first_page :: network where
  "net_empty_first_page url =
     (if url = api_url (standings_endpoint 7 1) then ok_body (standings_page [] True)
      else if url = api_url (standings_endpoint 7 2) then ok_body (standings_page [standing 1 1 50] False)
      else Inr \<lparr>ok = False, status = 404, json = Inl (Error ''Unexpected token'')\<rparr>)"

definition net_no_managers :: network where
  "net_no_managers url = ok_body (standings_page [] False)"

definition three_pages :: "nat \<Rightarrow> jsval list" where
  "three_pages i = [standing (int i) (int i) (60 - 10 * int i)]"

text \<open>
  The rank the reconciliation is to attach for one secondary league: the rank of the first
  entry of that league whose identifier equals the manager's when that rank is truthy,
  \<open>null\<close> otherwise.
\<close>

definition secondary_rank :: "jsval list \<Rightarrow> jsval \<Rightarrow> jsval" where
  "secondary_rank league entry =
     (case find (\<lambda>lm. strict_eq (opt_prop lm ''entry'') entry) league of
        None \<Rightarrow> JNull
      | Some lm \<Rightarrow> if truthy (opt_prop lm ''rank'') then opt_prop lm ''rank'' else JNull)"

text \<open>The merged record for a primary-list entry that is neither \<open>null\<close> nor \<open>undefined\<close>.\<close>

definition merged_row :: "jsval \<Rightarrow> string \<Rightarrow> jsval list \<Rightarrow> jsval list \<Rightarrow> jsval \<Rightarrow> jsval" where
  "merged_row currentGW now lmsManagers h2hManagers m =
     JObj [(''manager_id'', opt_prop m ''entry''),
           (''gw'', currentGW),
           (''team_name'', opt_prop m ''entry_name''),
           (''player_name'', opt_prop m ''player_name''),
           (''classic_rank'', opt_prop m ''rank''),
           (''classic_total'', opt_prop m ''total''),
           (''classic_gw_points'', js_or (opt_prop m ''event_total'') (JNum 0)),
           (''lms_rank'', secondary_rank lmsManagers (opt_prop m ''entry'')),
           (''h2h_rank'', secondary_rank h2hManagers (opt_prop m ''entry'')),
           (''last_updated'', JStr now)]"

text \<open>An entry of a secondary league: a manager identifier and a rank.\<close>

definition secondary_entry :: "int \<Rightarrow> int \<Rightarrow> jsval" where
  "secondary_entry i r = JObj [(''entry'', JNum i), (''rank'', JNum r)]"

text \<open>
  Environments, a request carrying a bearer token, a store that accepts every write, a
  \<open>createClient\<close> that refuses missing arguments the way the store's client library
  does, one that accepts anything, and a clock.
\<close>

definition env_example :: environment where
  "env_example = \<lparr>SUPABASE_URL = Some ''https://db.example'', SUPABASE_KEY = Some ''key'',
                   CRON_SECRET = Some ''s3cret''\<rparr>"

definition env_no_credentials :: environment where
  "env_no_credentials = \<lparr>SUPABASE_URL = None, SUPABASE_KEY = None, CRON_SECRET = Some ''s3cret''\<rparr>"

definition bearer_header :: "string \<Rightarrow> headers" where
  "bearer_header v k = (if k = ''authorization'' then Some (''Bearer '' @ v) else None)"

definition store_ok :: client where
  "store_ok w = Resolved JNull"

definition createClient_strict :: "string option \<Rightarrow> string option \<Rightarrow> js_error + client" where
  "createClient_strict url key =
     (if unset url then Inl (Error ''supabaseUrl is required.'')
      else if unset key then Inl (Error ''supabaseKey is required.'')
      else Inr store_ok)"

definition createClient_lenient :: "string option \<Rightarrow> string option \<Rightarrow> js_error + client" where
  "createClient_lenient url key = Inr store_ok"

definition clock_example :: clock where
  "clock_example = \<lparr>startTime = 1000, endTime = 1250, isoNow = ''2025-01-01T00:00:00.000Z''\<rparr>"

text \<open>
  Page \<open>q\<close> is a last page of a league when the upstream fails there or serves a body
  whose has-more flag is falsy; a league ends when it has a last page.
\<close>

definition last_page :: "network \<Rightarrow> nat \<Rightarrow> nat \<Rightarrow> bool" where
  "last_page net leagueId q =
     (fails net (standings_endpoint leagueId q)
      \<or> (\<exists>body. serves net (standings_endpoint leagueId q) body \<and> \<not> truthy (has_next_of body)))"

definition league_ends :: "network \<Rightarrow> nat \<Rightarrow> bool" where
  "league_ends net leagueId = (\<exists>q\<ge>1. last_page net leagueId q)"

text \<open>
  The store accepted the rows of an invocation: there is a client, the rows were
  submitted, and the store resolved them without an error.  \<open>sync_response\<close> is the
  answer of a three-league handler: the success body with status 200 when the store
  accepted the rows, the failure body with status 500 otherwise.
\<close>

definition accepted :: "client option \<Rightarrow> effects \<Rightarrow> bool" where
  "accepted supabase s =
     (case supabase of
        None \<Rightarrow> False
      | Some db \<Rightarrow>
          (case upserts s of
             [] \<Rightarrow> False
           | w # ws \<Rightarrow> (case db w of Rejected e \<Rightarrow> False | Resolved error \<Rightarrow> \<not> truthy error)))"

definition sync_response :: "clock \<Rightarrow> client option \<Rightarrow> outcome \<Rightarrow> effects \<Rightarrow> bool" where
  "sync_response clk supabase out s =
     (if accepted supabase s
      then (\<exists>currentGW rows.
              upserts s = [\<lparr>table = ''manager_data'', payload = JArr rows,
                                onConflict = ''manager_id,gw''\<rparr>]
              \<and> out = Responded 200
                   (JObj [(''success'', JBool True),
                          (''gw'', currentGW),
                          (''managersProcessed'', JNum (int (length rows))),
                          (''duration'', JStr (show_number (endTime clk - startTime clk) @ ''ms''))]))
      else (\<exists>error. out = Responded 500
                   (JObj [(''success'', JBool False), (''error'', JStr (message error))])))"

text \<open>
  A season: the bootstrap body names period 38 as current, the classic league has one
  manager on one page, the second league ranks that manager third, and the third league
  answers 404.  Then a store whose answer carries an error, a store that rejects, and
  the field names of a record.
\<close>

definition manager_ann :: jsval where
  "manager_ann = JObj [(''entry'', JNum 1), (''entry_name'', JStr ''Team A''),
                       (''player_name'', JStr ''Ann''), (''rank'', JNum 1), (''total'', JNum 50),
                       (''event_total'', JNum 5)]"

definition net_season :: network where
  "net_season url =
     (if url = ''https://fantasy.premierleague.com/api/bootstrap-static/''
        then ok_body (JObj [(''events'', JArr events_38)])
      else if url = ''https://fantasy.premierleague.com/api/leagues-classic/1229613/standings/?page_standings=1''
        then ok_body (standings_page [manager_ann] False)
      else if url = ''https://fantasy.premierleague.com/api/leagues-classic/1190208/standings/?page_standings=1''
        then ok_body (standings_page [secondary_entry 1 3] False)
      else Inr \<lparr>ok = False, status = 404, json = Inl (Error ''Unexpected token'')\<rparr>)"

definition store_down :: client where
  "store_down w = Resolved (JObj [(''message'', JStr ''connection refused'')])"

definition store_reject :: client where
  "store_reject w = Rejected (Error ''connection refused'')"

definition fields :: "jsval \<Rightarrow> string list" where
  "fields v = (case v of JObj kvs \<Rightarrow> map fst kvs | _ \<Rightarrow> [])"

text \<open>
  The body the upstream serves at an endpoint, if any, and the two endpoints of a manager.
  A manager record is an entry of the standings that is neither \<open>null\<close> nor
  \<open>undefined\<close> and whose identifier has a string form.  The details and the picks that
  the upstream serves for a manager are those at the manager's endpoints; there are none
  when the fetch fails.
\<close>

definition fetched_body :: "network \<Rightarrow> string \<Rightarrow> jsval option" where
  "fetched_body net endpoint =
     (case net (api_url endpoint) of
        Inl e \<Rightarrow> None
      | Inr r \<Rightarrow> if ok r then (case json r of Inl e \<Rightarrow> None | Inr v \<Rightarrow> Some v) else None)"

definition details_endpoint :: "string \<Rightarrow> string" where
  "details_endpoint label = ''/entry/'' @ label @ ''/''"

definition picks_endpoint :: "string \<Rightarrow> string \<Rightarrow> string" where
  "picks_endpoint label period = ''/entry/'' @ label @ ''/event/'' @ period @ ''/picks/''"

definition manager_record :: "jsval \<Rightarrow> bool" where
  "manager_record manager =
     (\<not> nullish manager \<and> \<not> isl (to_string (opt_prop manager ''entry'')))"

definition details_served :: "network \<Rightarrow> jsval \<Rightarrow> jsval option" where
  "details_served net manager =
     (case to_string (opt_prop manager ''entry'') of
        Inl e \<Rightarrow> None
      | Inr label \<Rightarrow> fetched_body net (details_endpoint label))"

definition picks_served :: "network \<Rightarrow> jsval \<Rightarrow> jsval \<Rightarrow> jsval option" where
  "picks_served net currentGW manager =
     (case to_string (opt_prop manager ''entry'') of
        Inl e \<Rightarrow> None
      | Inr label \<Rightarrow>
          (case to_string currentGW of
             Inl e \<Rightarrow> None
           | Inr period \<Rightarrow> fetched_body net (picks_endpoint label period)))"

text \<open>
  What the per-manager loop is to write for a manager record.  Nothing when no details
  are served, or when the details served are falsy.  Otherwise the manager's row: with
  \<open>captain_id\<close> \<open>null\<close> when no picks are served, and with the element of the first
  pick flagged as captain (\<open>null\<close> when there is none, or when that element is falsy)
  when the picks served can be searched.  Nothing when the picks served cannot be
  searched, their \<open>picks\<close> field being neither absent nor a list of records.
\<close>

definition expected_row :: "network \<Rightarrow> string \<Rightarrow> jsval \<Rightarrow> jsval \<Rightarrow> jsval option" where
  "expected_row net now currentGW manager =
     (case details_served net manager of
        None \<Rightarrow> None
      | Some details \<Rightarrow>
          if \<not> truthy details then None
          else
            (case picks_served net currentGW manager of
               None \<Rightarrow> Some (manager_row manager details JNull now)
             | Some picks \<Rightarrow>
                 (case captain_of picks of
                    Inl e \<Rightarrow> None
                  | Inr captain \<Rightarrow>
                      Some (manager_row manager details
                              (js_or (opt_prop captain ''element'') JNull) now))))"

definition manager_write :: "jsval \<Rightarrow> db_write" where
  "manager_write row = \<lparr>table = ''manager_data'', payload = row, onConflict = ''manager_id''\<rparr>"

definition season_write :: "jsval \<Rightarrow> string \<Rightarrow> db_write" where
  "season_write currentGW now =
     \<lparr>table = ''season_snapshot'',
      payload = JObj [(''id'', JNum 1), (''current_gw'', currentGW), (''updated_at'', JStr now)],
      onConflict = ''id''\<rparr>"

text \<open>
  An upstream whose current period is 38 and whose classic league has three managers, with
  no details for manager 1, details but no picks for manager 2, and details and picks
  (captain: element 7) for manager 3.
\<close>

definition net_entries :: network where
  "net_entries url =
     (if url = ''https://fantasy.premierleague.com/api/bootstrap-static/''
        then ok_body (JObj [(''events'', JArr events_38)])
      else if url = ''https://fantasy.premierleague.com/api/leagues-classic/1229613/standings/?page_standings=1''
        then ok_body (standings_page [standing 1 1 50, standing 2 2 40, standing 3 3 30] False)
      else if url = ''https://fantasy.premierleague.com/api/entry/2/''
        then ok_body (JObj [(''last_name'', JStr ''Bee''), (''bank'', JNum 5)])
      else if url = ''https://fantasy.premierleague.com/api/entry/3/''
        then ok_body (JObj [(''last_name'', JStr ''Cee'')])
      else if url = ''https://fantasy.premierleague.com/api/entry/3/event/38/picks/''
        then ok_body (JObj [(''picks'',
               JArr [JObj [(''element'', JNum 5), (''is_captain'', JBool False)],
                     JObj [(''element'', JNum 7), (''is_captain'', JBool True)]])])
      else Inr \<lparr>ok = False, status = 404, json = Inl (Error ''Unexpected token'')\<rparr>)"

text \<open>
  An upstream that serves the number 0 as the details of manager 1, serves details for
  manager 2 together with picks whose \<open>picks\<close> field is a number, and serves details
  but no picks for manager 3.
\<close>

definition net_entries_odd :: network where
  "net_entries_odd url =
     (if url = ''https://fantasy.premierleague.com/api/entry/1/''
        then ok_body (JNum 0)
      else if url = ''https://fantasy.premierleague.com/api/entry/2/''
        then ok_body (JObj [(''last_name'', JStr ''Bee'')])
      else if url = ''https://fantasy.premierleague.com/api/entry/2/event/38/picks/''
        then ok_body (JObj [(''picks'', JNum 5)])
      else if url = ''https://fantasy.premierleague.com/api/entry/3/''
        then ok_body (JObj [(''last_name'', JStr ''Cee'')])
      else Inr \<lparr>ok = False, status = 404, json = Inl (Error ''Unexpected token'')\<rparr>)"

text \<open>
  A standings page is listed when its result field is a list of records (entries that
  are neither \<open>null\<close> nor \<open>undefined\<close>) or is falsy; a league is listed when every
  page the upstream serves for it is.
\<close>

definition listed :: "jsval \<Rightarrow> bool" where
  "listed body =
     (case results_of body of
        JArr rs \<Rightarrow> list_all (\<lambda>m. \<not> nullish m) rs
      | v \<Rightarrow> \<not> truthy v)"

definition league_listed :: "network \<Rightarrow> nat \<Rightarrow> bool" where
  "league_listed net leagueId =
     (\<forall>page body. serves net (standings_endpoint leagueId page) body \<longrightarrow> listed body)"

text \<open>
  The record of the scheduled trigger for a manager record, next to \<open>merged_row\<close> of
  the manual trigger; the bulk write of a list of rows; and the answer of a three-league
  handler for the rows it submitted: the failure body with status 500 when the store
  rejects the write or resolves it with an error, the success body with status 200
  otherwise.
\<close>

definition scheduled_record :: "jsval \<Rightarrow> string \<Rightarrow> jsval \<Rightarrow> jsval" where
  "scheduled_record currentGW now m =
     JObj [(''manager_id'', opt_prop m ''entry''),
           (''manager_name'', opt_prop m ''player_name''),
           (''team_name'', opt_prop m ''entry_name''),
           (''gw'', currentGW),
           (''gw_points'', js_or (opt_prop m ''event_total'') (JNum 0)),
           (''total_points'', js_or (opt_prop m ''total'') (JNum 0)),
           (''overall_rank'', js_or (opt_prop m ''rank'') (JNum 0)),
           (''last_updated'', JStr now)]"

definition rows_write :: "jsval list \<Rightarrow> db_write" where
  "rows_write rows = \<lparr>table = ''manager_data'', payload = JArr rows, onConflict = ''manager_id,gw''\<rparr>"

definition answers :: "clock \<Rightarrow> client \<Rightarrow> jsval \<Rightarrow> jsval list \<Rightarrow> outcome \<Rightarrow> bool" where
  "answers clk db currentGW rows out =
     (case db (rows_write rows) of
        Rejected e \<Rightarrow> out = Responded 500 (failure_body e)
      | Resolved error \<Rightarrow>
          if truthy error then (\<exists>e. out = Responded 500 (failure_body e))
          else out = Responded 200 (success_body currentGW (length rows) clk))"

text \<open>
  An upstream whose classic league answers with a single record where the list of results
  should be, and whose other leagues answer 404.
\<close>

definition net_unlisted :: network where
  "net_unlisted url =
     (if url = ''https://fantasy.premierleague.com/api/bootstrap-static/''
        then ok_body (JObj [(''events'', JArr events_38)])
      else if url = ''https://fantasy.premierleague.com/api/leagues-classic/1229613/standings/?page_standings=1''
        then ok_body (JObj [(''standings'',
               JObj [(''has_next'', JBool False), (''results'', manager_ann)])])
      else Inr \<lparr>ok = False, status = 404, json = Inl (Error ''Unexpected token'')\<rparr>)"

section \<open>Properties\<close>

subsection \<open>Reading values and fetching\<close>

lemma get_prop_opt: "\<not> nullish v \<Longrightarrow> get_prop v k = Inr (opt_prop v k)"
  by (cases v) auto

lemma opt_prop_not_nullish: "opt_prop v k = JArr xs \<Longrightarrow> \<not> nullish v"
  by (cases v) auto

lemma fetch_json_serves:
  "serves net endpoint body \<Longrightarrow> fetch_json c net endpoint s = (Inr body, requested endpoint s)"
  by (auto simp: serves_def fetch_json_def requested_def Let_def split: sum.splits)

lemma fetch_json_fails:
  "fails net endpoint \<Longrightarrow> \<exists>e. fetch_json c net endpoint s = (Inl e, requested endpoint s)"
  by (auto simp: fails_def fetch_json_def requested_def Let_def isl_def split: sum.splits)

lemma serves_or_fails: "fails net endpoint \<or> (\<exists>body. serves net endpoint body)"
proof (cases "net (api_url endpoint)")
  case (Inl e)
  then show ?thesis by (simp add: fails_def)
next
  case (Inr r)
  then show ?thesis by (cases "json r") (auto simp: fails_def serves_def)
qed

lemma show_small_numbers:
  "show_number 1 = ''1''" "show_number 2 = ''2''" "show_number 3 = ''3''"
  "show_number 11 = ''11''" "show_number 38 = ''38''" "show_number 250 = ''250''"
  by (simp_all add: show_number_def show_digits.simps [of 1] show_digits.simps [of 2]
        show_digits.simps [of 3] show_digits.simps [of 11] show_digits.simps [of 38]
        show_digits.simps [of 250] show_digits.simps [of 25] digit_char_def)

subsection \<open>Period resolver\<close>

lemma find_flagged:
  "\<forall>e\<in>set xs. \<not> nullish e \<Longrightarrow>
     find_js (flagged k) xs =
       Inr (case find (\<lambda>e. truthy (opt_prop e k)) xs of None \<Rightarrow> JUndefined | Some e \<Rightarrow> e)"
  by (induction xs) (auto simp: flagged_def get_prop_opt)

lemma current_event_id_array:
  assumes "opt_prop bootstrap ''events'' = JArr events" and "\<forall>e\<in>set events. \<not> nullish e"
  shows "current_event_id bootstrap = Inr (current_period events)"
proof -
  from assms(1) have nn: "\<not> nullish bootstrap" by (cases bootstrap) auto
  show ?thesis
    using assms
    by (simp add: current_event_id_def get_prop_opt [OF nn] find_flagged current_period_def js_or_def
             split: option.splits)
qed

text \<open>
  Claim C7, as amended.  When the bootstrap fetch fails the resolver returns the fallback
  11.  When the bootstrap body carries a list of period descriptors, it returns the
  identifier of the first descriptor flagged current provided that identifier is truthy,
  and the fallback 11 otherwise: for an empty list, for a list with no flagged descriptor,
  and for a flagged descriptor whose identifier is 0 or missing.  In every case the
  resolver returns after its one request: it has no exceptional result, every exception
  of its \<open>try\<close> block being a branch that yields 11.
\<close>

theorem period_resolver_current_or_fallback:
  "(fails net ''/bootstrap-static/'' \<longrightarrow>
      fst (getCurrentGW net s) = JNum 11 \<and> fst (getCurrentGW_cron net s) = JNum 11)
   \<and> (serves net ''/bootstrap-static/'' bootstrap \<and> opt_prop bootstrap ''events'' = JArr events
        \<and> (\<forall>e\<in>set events. \<not> nullish e) \<longrightarrow>
      fst (getCurrentGW net s) = current_period events
      \<and> fst (getCurrentGW_cron net s) = current_period events)
   \<and> snd (getCurrentGW net s) = requested ''/bootstrap-static/'' s
   \<and> snd (getCurrentGW_cron net s) = requested ''/bootstrap-static/'' s"
proof (intro conjI impI)
  assume f: "fails net ''/bootstrap-static/''"
  from fetch_json_fails [OF f] obtain e where
    "fetchFPL net ''/bootstrap-static/'' s = (Inl e, requested ''/bootstrap-static/'' s)"
    unfolding fetchFPL_def by blast
  then show "fst (getCurrentGW net s) = JNum 11"
    by (simp add: getCurrentGW_def getCurrentGW_with_def)
  from fetch_json_fails [OF f] obtain e' where
    "fetchFPL_cron net ''/bootstrap-static/'' s = (Inl e', requested ''/bootstrap-static/'' s)"
    unfolding fetchFPL_cron_def by blast
  then show "fst (getCurrentGW_cron net s) = JNum 11"
    by (simp add: getCurrentGW_cron_def getCurrentGW_with_def)
next
  assume a: "serves net ''/bootstrap-static/'' bootstrap \<and> opt_prop bootstrap ''events'' = JArr events
        \<and> (\<forall>e\<in>set events. \<not> nullish e)"
  then have ev: "current_event_id bootstrap = Inr (current_period events)"
    by (simp add: current_event_id_array)
  from a have sv: "serves net ''/bootstrap-static/'' bootstrap" by simp
  show "fst (getCurrentGW net s) = current_period events"
    unfolding getCurrentGW_def getCurrentGW_with_def fetchFPL_def fetch_json_serves [OF sv]
    by (simp add: ev)
  show "fst (getCurrentGW_cron net s) = current_period events"
    unfolding getCurrentGW_cron_def getCurrentGW_with_def fetchFPL_cron_def fetch_json_serves [OF sv]
    by (simp add: ev)
next
  show "snd (getCurrentGW net s) = requested ''/bootstrap-static/'' s"
    by (auto simp: getCurrentGW_def getCurrentGW_with_def fetchFPL_def fetch_json_def requested_def
          Let_def split: sum.splits prod.splits)
  show "snd (getCurrentGW_cron net s) = requested ''/bootstrap-static/'' s"
    by (auto simp: getCurrentGW_cron_def getCurrentGW_with_def fetchFPL_cron_def fetch_json_def
          requested_def Let_def split: sum.splits prod.splits)
qed

theorem period_resolver_witness:
  "fails net_down ''/bootstrap-static/''
   \<and> fst (getCurrentGW net_down no_effects) = JNum 11
   \<and> fst (getCurrentGW_cron net_down no_effects) = JNum 11
   \<and> serves net_period_eleven ''/bootstrap-static/'' (JObj [(''events'', JArr events_eleven)])
   \<and> fst (getCurrentGW net_period_eleven no_effects) = JNum 11
   \<and> serves net_period_38 ''/bootstrap-static/'' (JObj [(''events'', JArr events_38)])
   \<and> fst (getCurrentGW net_period_38 no_effects) = JNum 38
   \<and> fst (getCurrentGW_cron net_period_38 no_effects) = JNum 38"
proof -
  have f: "fails net_down ''/bootstrap-static/''"
    by (simp add: fails_def net_down_def)
  have s11: "serves net_period_eleven ''/bootstrap-static/'' (JObj [(''events'', JArr events_eleven)])"
    by (simp add: serves_def net_period_eleven_def ok_body_def events_eleven_def)
  have s38: "serves net_period_38 ''/bootstrap-static/'' (JObj [(''events'', JArr events_38)])"
    by (simp add: serves_def net_period_38_def ok_body_def events_38_def)
  have n11: "\<forall>e\<in>set events_eleven. \<not> nullish e" by (simp add: events_eleven_def)
  have n38: "\<forall>e\<in>set events_38. \<not> nullish e" by (simp add: events_38_def)
  have c11: "current_period events_eleven = JNum 11"
    by (simp add: current_period_def events_eleven_def)
  have c38: "current_period events_38 = JNum 38"
    by (simp add: current_period_def events_38_def)
  note t = period_resolver_current_or_fallback
  from t [where net = net_down and s = no_effects] f
  have a: "fst (getCurrentGW net_down no_effects) = JNum 11
           \<and> fst (getCurrentGW_cron net_down no_effects) = JNum 11"
    by blast
  from t [where net = net_period_eleven and s = no_effects
            and bootstrap = "JObj [(''events'', JArr events_eleven)]" and events = events_eleven]
    s11 n11 c11
  have b: "fst (getCurrentGW net_period_eleven no_effects) = JNum 11"
    by simp
  from t [where net = net_period_38 and s = no_effects
            and bootstrap = "JObj [(''events'', JArr events_38)]" and events = events_38]
    s38 n38 c38
  have c: "fst (getCurrentGW net_period_38 no_effects) = JNum 38
           \<and> fst (getCurrentGW_cron net_period_38 no_effects) = JNum 38"
    by simp
  from f a s11 b s38 c show ?thesis by blast
qed

text \<open>
  Claim C7 as stated fails where the descriptor flagged current has identifier 0: the
  resolver returns 11, not that identifier.
\<close>

theorem period_resolver_zero_identifier:
  "fst (getCurrentGW net_period_zero no_effects) = JNum 11
   \<and> fst (getCurrentGW_cron net_period_zero no_effects) = JNum 11"
  by (simp add: getCurrentGW_def getCurrentGW_cron_def getCurrentGW_with_def fetchFPL_def
        fetchFPL_cron_def fetch_json_def net_period_zero_def ok_body_def current_event_id_def
        flagged_def js_or_def no_effects_def)

subsection \<open>Paginator\<close>

lemma take_page_array:
  assumes "results_of body = JArr rs"
  shows "take_page body ms p = Inr (ms @ rs, p + 1, has_next_of body)"
proof -
  from assms have "\<not> nullish (opt_prop body ''standings'')"
    unfolding results_of_def by (rule opt_prop_not_nullish)
  then have "\<not> nullish body" by (cases body) auto
  then show ?thesis
    using assms by (simp add: take_page_def get_prop_opt results_of_def has_next_of_def)
qed

lemma take_page_manual_array:
  assumes "results_of body = JArr rs"
  shows "take_page_manual body ms p = Inr (ms @ rs, p + 1, has_next_of body)"
proof -
  from assms have nn: "\<not> nullish (opt_prop body ''standings'')"
    unfolding results_of_def by (rule opt_prop_not_nullish)
  then have t: "truthy (opt_prop body ''standings'')"
    using assms unfolding results_of_def by (cases "opt_prop body ''standings''") auto
  from nn have "\<not> nullish body" by (cases body) auto
  then show ?thesis
    using assms t by (simp add: take_page_manual_def get_prop_opt results_of_def has_next_of_def)
qed

lemma own_page_array:
  assumes "results_of body = JArr rs"
  shows "own_page body = Inr (rs, truthy (has_next_of body))"
proof -
  from assms have "\<not> nullish (opt_prop body ''standings'')"
    unfolding results_of_def by (rule opt_prop_not_nullish)
  then have "\<not> nullish body" by (cases body) auto
  then show ?thesis
    using assms by (simp add: own_page_def get_prop_opt results_of_def has_next_of_def)
qed

lemma fetch_pages_done:
  "\<not> truthy h \<Longrightarrow> fetch_pages step net L (ms, p, h) s = Some (ms, s)"
  by (subst fetch_pages.simps) simp

lemma fetch_pages_fails:
  assumes "fails net (standings_endpoint L p)" and "truthy h"
  shows "fetch_pages step net L (ms, p, h) s = Some (ms, requested (standings_endpoint L p) s)"
proof -
  from fetch_json_fails [OF assms(1)] obtain e where
    "fetchFPL net (standings_endpoint L p) s = (Inl e, requested (standings_endpoint L p) s)"
    unfolding fetchFPL_def by blast
  then show ?thesis
    using assms(2) by (subst fetch_pages.simps) (simp add: fetch_pages_done)
qed

lemma fetch_pages_serves:
  assumes "serves net (standings_endpoint L p) body" and "truthy h"
    and "step body ms p = Inr vars"
  shows "fetch_pages step net L (ms, p, h) s =
           fetch_pages step net L vars (requested (standings_endpoint L p) s)"
proof -
  have "fetchFPL net (standings_endpoint L p) s = (Inr body, requested (standings_endpoint L p) s)"
    unfolding fetchFPL_def by (rule fetch_json_serves [OF assms(1)])
  then show ?thesis
    using assms(2,3) by (subst fetch_pages.simps) simp
qed

lemma upt_shift: "[p..<p + Suc k] = p # [Suc p..<Suc p + k]"
  using upt_conv_Cons [of p "p + Suc k"] by (simp del: upt_Suc)

lemma page_urls_shift:
  "page_urls L p (Suc k) = api_url (standings_endpoint L p) # page_urls L (Suc p) k"
  unfolding page_urls_def upt_shift by simp

lemma page_urls_one: "page_urls L p (Suc 0) = [api_url (standings_endpoint L p)]"
  by (simp add: page_urls_def)

lemma fetch_pages_run:
  assumes step: "\<And>body ms p rs. results_of body = JArr rs \<Longrightarrow>
                   step body ms p = Inr (ms @ rs, p + 1, has_next_of body)"
  shows "(\<forall>i. p \<le> i \<and> i < p + k \<longrightarrow>
            (\<exists>body. serves net (standings_endpoint L i) body \<and> results_of body = JArr (rs i)
                    \<and> truthy (has_next_of body))) \<Longrightarrow>
         fails net (standings_endpoint L (p + k)) \<Longrightarrow> truthy h \<Longrightarrow>
         fetch_pages step net L (ms, p, h) s =
           Some (ms @ concat (map rs [p..<p + k]),
                 s\<lparr>fetched := fetched s @ page_urls L p (Suc k)\<rparr>)"
proof (induction k arbitrary: p ms h s)
  case 0
  then show ?case
    by (simp add: fetch_pages_fails requested_def page_urls_one)
next
  case (Suc k)
  have "p \<le> p \<and> p < p + Suc k" by simp
  with Suc.prems(1) obtain body where b: "serves net (standings_endpoint L p) body"
    "results_of body = JArr (rs p)" "truthy (has_next_of body)"
    by blast
  have pre: "\<forall>i. Suc p \<le> i \<and> i < Suc p + k \<longrightarrow>
            (\<exists>body. serves net (standings_endpoint L i) body \<and> results_of body = JArr (rs i)
                    \<and> truthy (has_next_of body))"
    using Suc.prems(1) by auto
  have f: "fails net (standings_endpoint L (Suc p + k))" using Suc.prems(2) by simp
  have "fetch_pages step net L (ms, p, h) s =
          fetch_pages step net L (ms @ rs p, Suc p, has_next_of body) (requested (standings_endpoint L p) s)"
    using fetch_pages_serves [OF b(1) Suc.prems(3), of step ms] step [OF b(2)] by simp
  also have "\<dots> = Some ((ms @ rs p) @ concat (map rs [Suc p..<Suc p + k]),
               (requested (standings_endpoint L p) s)\<lparr>fetched := fetched (requested (standings_endpoint L p) s) @ page_urls L (Suc p) (Suc k)\<rparr>)"
    by (rule Suc.IH [OF pre f b(3)])
  also have "(ms @ rs p) @ concat (map rs [Suc p..<Suc p + k]) = ms @ concat (map rs [p..<p + Suc k])"
    by (simp only: upt_shift) simp
  also have "(requested (standings_endpoint L p) s)\<lparr>fetched := fetched (requested (standings_endpoint L p) s) @ page_urls L (Suc p) (Suc k)\<rparr>
       = s\<lparr>fetched := fetched s @ page_urls L p (Suc (Suc k))\<rparr>"
    by (simp add: requested_def page_urls_shift [of L p])
  finally show ?case .
qed

lemma getAll_run:
  "(\<forall>i. p \<le> i \<and> i < p + k \<longrightarrow>
            (\<exists>body. serves net (standings_endpoint L i) body \<and> results_of body = JArr (rs i)
                    \<and> truthy (has_next_of body))) \<Longrightarrow>
         fails net (standings_endpoint L (p + k)) \<Longrightarrow>
         getAllManagersFromLeague net L p s =
           Some (concat (map rs [p..<p + k]),
                 s\<lparr>fetched := fetched s @ page_urls L p (Suc k)\<rparr>)"
proof (induction k arbitrary: p s)
  case 0
  from 0(2) have "fails net (standings_endpoint L p)" by simp
  from fetch_json_fails [OF this] obtain e where
    "fetchFPL_cron net (standings_endpoint L p) s = (Inl e, requested (standings_endpoint L p) s)"
    unfolding fetchFPL_cron_def by blast
  then show ?case
    by (subst getAllManagersFromLeague.simps) (simp add: requested_def page_urls_one)
next
  case (Suc k)
  have "p \<le> p \<and> p < p + Suc k" by simp
  with Suc.prems(1) obtain body where b: "serves net (standings_endpoint L p) body"
    "results_of body = JArr (rs p)" "truthy (has_next_of body)"
    by blast
  have pre: "\<forall>i. Suc p \<le> i \<and> i < Suc p + k \<longrightarrow>
            (\<exists>body. serves net (standings_endpoint L i) body \<and> results_of body = JArr (rs i)
                    \<and> truthy (has_next_of body))"
    using Suc.prems(1) by auto
  have f: "fails net (standings_endpoint L (Suc p + k))" using Suc.prems(2) by simp
  have fe: "fetchFPL_cron net (standings_endpoint L p) s = (Inr body, requested (standings_endpoint L p) s)"
    unfolding fetchFPL_cron_def by (rule fetch_json_serves [OF b(1)])
  have "getAllManagersFromLeague net L p s =
          Option.bind (getAllManagersFromLeague net L (Suc p) (requested (standings_endpoint L p) s))
            (\<lambda>(nextPageManagers, s''). Some (rs p @ nextPageManagers, s''))"
    by (subst getAllManagersFromLeague.simps) (simp add: fe own_page_array [OF b(2)] b(3))
  also have "\<dots> = Some (rs p @ concat (map rs [Suc p..<Suc p + k]),
      (requested (standings_endpoint L p) s)\<lparr>fetched :=
         fetched (requested (standings_endpoint L p) s) @ page_urls L (Suc p) (Suc k)\<rparr>)"
    unfolding Suc.IH [OF pre f] by simp
  also have "rs p @ concat (map rs [Suc p..<Suc p + k]) = concat (map rs [p..<p + Suc k])"
    by (simp only: upt_shift) simp
  also have "(requested (standings_endpoint L p) s)\<lparr>fetched :=
         fetched (requested (standings_endpoint L p) s) @ page_urls L (Suc p) (Suc k)\<rparr>
       = s\<lparr>fetched := fetched s @ page_urls L p (Suc (Suc k))\<rparr>"
    by (simp add: requested_def page_urls_shift [of L p])
  finally show ?case .
qed



lemma urls7:
  "api_url (standings_endpoint 7 1) = ''https://fantasy.premierleague.com/api/leagues-classic/7/standings/?page_standings=1''"
  "api_url (standings_endpoint 7 (Suc 0)) = ''https://fantasy.premierleague.com/api/leagues-classic/7/standings/?page_standings=1''"
  "api_url (standings_endpoint 7 2) = ''https://fantasy.premierleague.com/api/leagues-classic/7/standings/?page_standings=2''"
  "api_url (standings_endpoint 7 3) = ''https://fantasy.premierleague.com/api/leagues-classic/7/standings/?page_standings=3''"
  "api_url (standings_endpoint 7 4) = ''https://fantasy.premierleague.com/api/leagues-classic/7/standings/?page_standings=4''"
  by code_simp+

lemma three_pages_served:
  "serves net_three_pages (standings_endpoint 7 1) (standings_page (three_pages 1) True)"
  "serves net_three_pages (standings_endpoint 7 2) (standings_page (three_pages 2) True)"
  "serves net_three_pages (standings_endpoint 7 3) (standings_page (three_pages 3) True)"
  "fails net_three_pages (standings_endpoint 7 4)"
  by (simp_all add: serves_def fails_def net_three_pages_def urls7 ok_body_def three_pages_def)

lemma standings_page_fields:
  "results_of (standings_page rs again) = JArr rs"
  "has_next_of (standings_page rs again) = JBool again"
  by (simp_all add: results_of_def has_next_of_def standings_page_def)

text \<open>
  Claim C1.  Let the upstream serve pages 1 to \<open>k\<close> of a league, each with its result
  list \<open>rs i\<close> and a truthy has-more flag, and fail on page \<open>k + 1\<close>.  Then each of the
  three paginators returns the result lists of pages 1 to \<open>k\<close> concatenated in page
  order, after requesting exactly the pages 1 to \<open>k + 1\<close>.  The paginators have no
  exceptional result: the failure on page \<open>k + 1\<close> only ends the pagination.
\<close>

theorem paginator_keeps_pages_before_failure:
  assumes "\<forall>i. 1 \<le> i \<and> i \<le> k \<longrightarrow>
             (\<exists>body. serves net (standings_endpoint leagueId i) body
                     \<and> results_of body = JArr (rs i) \<and> truthy (has_next_of body))"
    and "fails net (standings_endpoint leagueId (Suc k))"
  shows "fetchAllManagers net leagueId s =
           Some (concat (map rs [1..<Suc k]), s\<lparr>fetched := fetched s @ page_urls leagueId 1 (Suc k)\<rparr>)
       \<and> fetchAllManagers_manual net leagueId s =
           Some (concat (map rs [1..<Suc k]), s\<lparr>fetched := fetched s @ page_urls leagueId 1 (Suc k)\<rparr>)
       \<and> getAllManagersFromLeague net leagueId 1 s =
           Some (concat (map rs [1..<Suc k]), s\<lparr>fetched := fetched s @ page_urls leagueId 1 (Suc k)\<rparr>)"
proof -
  have pre: "\<forall>i. 1 \<le> i \<and> i < 1 + k \<longrightarrow>
             (\<exists>body. serves net (standings_endpoint leagueId i) body
                     \<and> results_of body = JArr (rs i) \<and> truthy (has_next_of body))"
    using assms(1) by auto
  have f: "fails net (standings_endpoint leagueId (1 + k))" using assms(2) by simp
  have t: "truthy (JBool True)" by simp
  have a: "fetchAllManagers net leagueId s =
           Some ([] @ concat (map rs [1..<1 + k]), s\<lparr>fetched := fetched s @ page_urls leagueId 1 (Suc k)\<rparr>)"
    unfolding fetchAllManagers_def by (rule fetch_pages_run [OF take_page_array pre f t])
  have b: "fetchAllManagers_manual net leagueId s =
           Some ([] @ concat (map rs [1..<1 + k]), s\<lparr>fetched := fetched s @ page_urls leagueId 1 (Suc k)\<rparr>)"
    unfolding fetchAllManagers_manual_def by (rule fetch_pages_run [OF take_page_manual_array pre f t])
  have c: "getAllManagersFromLeague net leagueId 1 s =
           Some (concat (map rs [1..<1 + k]), s\<lparr>fetched := fetched s @ page_urls leagueId 1 (Suc k)\<rparr>)"
    by (rule getAll_run [OF pre f])
  from a b c show ?thesis by simp
qed

theorem paginator_three_pages_witness:
  "serves net_three_pages (standings_endpoint 7 1) (standings_page [standing 1 1 50] True)
   \<and> serves net_three_pages (standings_endpoint 7 2) (standings_page [standing 2 2 40] True)
   \<and> serves net_three_pages (standings_endpoint 7 3) (standings_page [standing 3 3 30] True)
   \<and> fails net_three_pages (standings_endpoint 7 4)
   \<and> map_option fst (fetchAllManagers net_three_pages 7 no_effects) =
       Some [standing 1 1 50, standing 2 2 40, standing 3 3 30]
   \<and> map_option fst (fetchAllManagers_manual net_three_pages 7 no_effects) =
       Some [standing 1 1 50, standing 2 2 40, standing 3 3 30]
   \<and> map_option fst (getAllManagersFromLeague net_three_pages 7 1 no_effects) =
       Some [standing 1 1 50, standing 2 2 40, standing 3 3 30]"
proof -
  have h1: "\<forall>i. 1 \<le> i \<and> i \<le> 3 \<longrightarrow>
             (\<exists>body. serves net_three_pages (standings_endpoint 7 i) body
                     \<and> results_of body = JArr (three_pages i) \<and> truthy (has_next_of body))"
  proof (intro allI impI)
    fix i :: nat assume "1 \<le> i \<and> i \<le> 3"
    then have "i = 1 \<or> i = 2 \<or> i = 3" by arith
    then show "\<exists>body. serves net_three_pages (standings_endpoint 7 i) body
                     \<and> results_of body = JArr (three_pages i) \<and> truthy (has_next_of body)"
      using three_pages_served(1,2,3) by (auto simp: standings_page_fields)
  qed
  have h2: "fails net_three_pages (standings_endpoint 7 (Suc 3))"
    using three_pages_served(4) by simp
  have c: "concat (map three_pages [1..<Suc 3]) = [standing 1 1 50, standing 2 2 40, standing 3 3 30]"
    by (simp add: three_pages_def upt_rec)
  note r = paginator_keeps_pages_before_failure [OF h1 h2, of no_effects, unfolded c]
  from r three_pages_served show ?thesis
    by (simp add: three_pages_def)
qed

lemma fetch_pages_truthy:
  "truthy h \<Longrightarrow> fetch_pages step net L (ms, p, h) s = fetch_pages step net L (ms, p, JBool True) s"
  by (subst fetch_pages.simps, subst (2) fetch_pages.simps) simp

lemma fetch_pages_advance:
  assumes paged: "\<And>body ms p rs. results_of body = JArr rs \<Longrightarrow>
                   step body ms p = Inr (ms @ rs, p + 1, has_next_of body)"
    and rs: "results_of body = JArr rs"
    and sv: "serves net (standings_endpoint L n) body"
  shows "fetch_pages step net L (ms, n, JBool True) s =
           (if truthy (has_next_of body)
            then fetch_pages step net L (ms @ rs, n + 1, JBool True) (requested (standings_endpoint L n) s)
            else Some (ms @ rs, requested (standings_endpoint L n) s))"
proof -
  have "fetch_pages step net L (ms, n, JBool True) s =
          fetch_pages step net L (ms @ rs, n + 1, has_next_of body) (requested (standings_endpoint L n) s)"
    using fetch_pages_serves [where h = "JBool True" and step = step, OF sv _ paged [OF rs]] by simp
  then show ?thesis
    by (simp add: fetch_pages_done fetch_pages_truthy [of "has_next_of body"])
qed

lemma getAll_advance:
  assumes sv: "serves net (standings_endpoint L n) body" and rs: "results_of body = JArr rs"
  shows "getAllManagersFromLeague net L n s =
           (if truthy (has_next_of body)
            then Option.bind (getAllManagersFromLeague net L (n + 1) (requested (standings_endpoint L n) s))
                   (\<lambda>(nextPageManagers, s'). Some (rs @ nextPageManagers, s'))
            else Some (rs, requested (standings_endpoint L n) s))"
proof -
  have fe: "fetchFPL_cron net (standings_endpoint L n) s = (Inr body, requested (standings_endpoint L n) s)"
    unfolding fetchFPL_cron_def by (rule fetch_json_serves [OF sv])
  show ?thesis
    by (subst getAllManagersFromLeague.simps) (simp add: fe own_page_array [OF rs])
qed

lemma empty_first_served:
  "serves net_empty_first_page (standings_endpoint 7 1) (standings_page [] True)"
  "serves net_empty_first_page (standings_endpoint 7 2) (standings_page [standing 1 1 50] False)"
  "serves net_no_managers (standings_endpoint 7 1) (standings_page [] False)"
  by (simp_all add: serves_def net_empty_first_page_def net_no_managers_def urls7 ok_body_def)

text \<open>
  Claim C2, as amended.  When the response for page \<open>n\<close> carries a result list \<open>rs\<close>,
  empty or not, each paginator appends \<open>rs\<close> and goes on to page \<open>n + 1\<close> exactly when
  the has-more flag of that response is truthy; otherwise it returns what it has.  An
  empty result list does not stop it.  Consequently a league whose first page carries an
  empty result list and no has-more flag yields the empty sequence, with no exception.
\<close>

theorem paginator_advances_on_has_next:
  assumes "serves net (standings_endpoint leagueId n) body" and "results_of body = JArr rs"
  shows "fetch_pages take_page net leagueId (ms, n, JBool True) s =
           (if truthy (has_next_of body)
            then fetch_pages take_page net leagueId (ms @ rs, n + 1, JBool True)
                   (requested (standings_endpoint leagueId n) s)
            else Some (ms @ rs, requested (standings_endpoint leagueId n) s))
       \<and> fetch_pages take_page_manual net leagueId (ms, n, JBool True) s =
           (if truthy (has_next_of body)
            then fetch_pages take_page_manual net leagueId (ms @ rs, n + 1, JBool True)
                   (requested (standings_endpoint leagueId n) s)
            else Some (ms @ rs, requested (standings_endpoint leagueId n) s))
       \<and> getAllManagersFromLeague net leagueId n s =
           (if truthy (has_next_of body)
            then Option.bind
                   (getAllManagersFromLeague net leagueId (n + 1)
                      (requested (standings_endpoint leagueId n) s))
                   (\<lambda>(nextPageManagers, s'). Some (rs @ nextPageManagers, s'))
            else Some (rs, requested (standings_endpoint leagueId n) s))
       \<and> (n = 1 \<and> rs = [] \<and> \<not> truthy (has_next_of body) \<longrightarrow>
            fetchAllManagers net leagueId s = Some ([], requested (standings_endpoint leagueId 1) s)
          \<and> fetchAllManagers_manual net leagueId s = Some ([], requested (standings_endpoint leagueId 1) s)
          \<and> getAllManagersFromLeague net leagueId 1 s = Some ([], requested (standings_endpoint leagueId 1) s))"
proof -
  note a = fetch_pages_advance [OF take_page_array assms(2) assms(1), of ms s]
  note b = fetch_pages_advance [OF take_page_manual_array assms(2) assms(1), of ms s]
  note c = getAll_advance [OF assms, of s]
  have d: "n = 1 \<and> rs = [] \<and> \<not> truthy (has_next_of body) \<longrightarrow>
            fetchAllManagers net leagueId s = Some ([], requested (standings_endpoint leagueId 1) s)
          \<and> fetchAllManagers_manual net leagueId s = Some ([], requested (standings_endpoint leagueId 1) s)
          \<and> getAllManagersFromLeague net leagueId 1 s = Some ([], requested (standings_endpoint leagueId 1) s)"
  proof
    assume h: "n = 1 \<and> rs = [] \<and> \<not> truthy (has_next_of body)"
    from h fetch_pages_advance [OF take_page_array assms(2) assms(1), of "[]" s]
    have 1: "fetchAllManagers net leagueId s = Some ([], requested (standings_endpoint leagueId 1) s)"
      unfolding fetchAllManagers_def by simp
    from h fetch_pages_advance [OF take_page_manual_array assms(2) assms(1), of "[]" s]
    have 2: "fetchAllManagers_manual net leagueId s = Some ([], requested (standings_endpoint leagueId 1) s)"
      unfolding fetchAllManagers_manual_def by simp
    from h c have 3: "getAllManagersFromLeague net leagueId 1 s = Some ([], requested (standings_endpoint leagueId 1) s)"
      by simp
    from 1 2 3 show "fetchAllManagers net leagueId s = Some ([], requested (standings_endpoint leagueId 1) s)
          \<and> fetchAllManagers_manual net leagueId s = Some ([], requested (standings_endpoint leagueId 1) s)
          \<and> getAllManagersFromLeague net leagueId 1 s = Some ([], requested (standings_endpoint leagueId 1) s)"
      by simp
  qed
  from a b c d show ?thesis by blast
qed

theorem paginator_advance_witness:
  "serves net_empty_first_page (standings_endpoint 7 1) (standings_page [] True)
   \<and> fetch_pages take_page net_empty_first_page 7 ([], 1, JBool True) no_effects =
       fetch_pages take_page net_empty_first_page 7 ([], 2, JBool True)
         (requested (standings_endpoint 7 1) no_effects)
   \<and> serves net_no_managers (standings_endpoint 7 1) (standings_page [] False)
   \<and> fetchAllManagers net_no_managers 7 no_effects =
        Some ([], requested (standings_endpoint 7 1) no_effects)
   \<and> fetchAllManagers_manual net_no_managers 7 no_effects =
        Some ([], requested (standings_endpoint 7 1) no_effects)
   \<and> getAllManagersFromLeague net_no_managers 7 1 no_effects =
        Some ([], requested (standings_endpoint 7 1) no_effects)"
proof -
  have two: "1 + 1 = (2::nat)" by simp
  note t1 = paginator_advances_on_has_next [OF empty_first_served(1) standings_page_fields(1),
              of "[]" no_effects]
  note t2 = paginator_advances_on_has_next [OF empty_first_served(3) standings_page_fields(1),
              of "[]" no_effects]
  from t1 have a: "fetch_pages take_page net_empty_first_page 7 ([], 1, JBool True) no_effects =
       fetch_pages take_page net_empty_first_page 7 ([], 2, JBool True)
         (requested (standings_endpoint 7 1) no_effects)"
    by (simp only: standings_page_fields truthy.simps if_True append_Nil two)
  from t2 have b: "fetchAllManagers net_no_managers 7 no_effects =
        Some ([], requested (standings_endpoint 7 1) no_effects)
   \<and> fetchAllManagers_manual net_no_managers 7 no_effects =
        Some ([], requested (standings_endpoint 7 1) no_effects)
   \<and> getAllManagersFromLeague net_no_managers 7 1 no_effects =
        Some ([], requested (standings_endpoint 7 1) no_effects)"
    by (simp only: standings_page_fields truthy.simps) simp
  from a b empty_first_served(1,3) show ?thesis by blast
qed

text \<open>
  Claim C2 as stated fails: page 1 of the league has an empty result list and a true
  has-more flag, and every paginator still requests page 2 and returns its manager.
\<close>

theorem paginator_empty_page_counterexample:
  "results_of (standings_page [] True) = JArr []
   \<and> serves net_empty_first_page (standings_endpoint 7 1) (standings_page [] True)
   \<and> fetchAllManagers net_empty_first_page 7 no_effects =
       Some ([standing 1 1 50], \<lparr>fetched = page_urls 7 1 2, upserts = []\<rparr>)
   \<and> fetchAllManagers_manual net_empty_first_page 7 no_effects =
       Some ([standing 1 1 50], \<lparr>fetched = page_urls 7 1 2, upserts = []\<rparr>)
   \<and> getAllManagersFromLeague net_empty_first_page 7 1 no_effects =
       Some ([standing 1 1 50], \<lparr>fetched = page_urls 7 1 2, upserts = []\<rparr>)"
  by code_simp

subsection \<open>Reconciliation\<close>

lemma find_js_entry:
  "\<forall>lm\<in>set league. \<not> nullish lm \<Longrightarrow>
     find_js (\<lambda>lm. case get_prop lm ''entry'' of Inl e \<Rightarrow> Inl e | Inr v \<Rightarrow> Inr (strict_eq v entry)) league =
       Inr (case find (\<lambda>lm. strict_eq (opt_prop lm ''entry'') entry) league of
              None \<Rightarrow> JUndefined | Some lm \<Rightarrow> lm)"
  by (induction league) (auto simp: get_prop_opt)

lemma rank_in_secondary:
  "\<forall>lm\<in>set league. \<not> nullish lm \<Longrightarrow> rank_in league entry = Inr (secondary_rank league entry)"
  by (simp add: rank_in_def find_js_entry secondary_rank_def js_or_def split: option.splits)

lemma manual_row_merged:
  assumes "\<not> nullish m" and "\<forall>lm\<in>set lmsManagers. \<not> nullish lm"
    and "\<forall>hm\<in>set h2hManagers. \<not> nullish hm"
  shows "manual_row currentGW now lmsManagers h2hManagers m =
           Inr (merged_row currentGW now lmsManagers h2hManagers m)"
  using assms by (simp add: manual_row_def get_prop_opt rank_in_secondary merged_row_def)

lemma map_js_total: "\<forall>x\<in>set xs. f x = Inr (g x) \<Longrightarrow> map_js f xs = Inr (map g xs)"
  by (induction xs) auto

lemma reconcile_merged:
  assumes "\<forall>m\<in>set classicManagers \<union> set lmsManagers \<union> set h2hManagers. \<not> nullish m"
  shows "reconcile currentGW now classicManagers lmsManagers h2hManagers =
           Inr (map (merged_row currentGW now lmsManagers h2hManagers) classicManagers)"
  unfolding reconcile_def
  using assms by (intro map_js_total) (auto simp: manual_row_merged)

text \<open>
  Claim C3.  For a primary list and two secondary lists of manager records (entries that
  are neither \<open>null\<close> nor \<open>undefined\<close>), the reconciliation step returns exactly one
  record per primary entry, carrying the primary entries' identifiers in the primary
  list's order; an identifier that occurs only in a secondary list is the identifier of no
  output record.
\<close>

theorem reconcile_one_row_per_primary:
  assumes "\<forall>m\<in>set classicManagers \<union> set lmsManagers \<union> set h2hManagers. \<not> nullish m"
  shows "\<exists>rows. reconcile currentGW now classicManagers lmsManagers h2hManagers = Inr rows
           \<and> length rows = length classicManagers
           \<and> map (\<lambda>r. opt_prop r ''manager_id'') rows = map (\<lambda>m. opt_prop m ''entry'') classicManagers
           \<and> (\<forall>x\<in>set lmsManagers \<union> set h2hManagers.
                 opt_prop x ''entry'' \<notin> (\<lambda>m. opt_prop m ''entry'') ` set classicManagers \<longrightarrow>
                 opt_prop x ''entry'' \<notin> (\<lambda>r. opt_prop r ''manager_id'') ` set rows)"
proof -
  let ?rows = "map (merged_row currentGW now lmsManagers h2hManagers) classicManagers"
  have ids: "map (\<lambda>r. opt_prop r ''manager_id'') ?rows = map (\<lambda>m. opt_prop m ''entry'') classicManagers"
    by (simp add: merged_row_def)
  have "(\<lambda>r. opt_prop r ''manager_id'') ` set ?rows = (\<lambda>m. opt_prop m ''entry'') ` set classicManagers"
    using ids by (metis list.set_map)
  with ids reconcile_merged [OF assms] show ?thesis by auto
qed

theorem reconcile_rows_witness:
  "\<not> nullish (standing 1 1 50) \<and> \<not> nullish (standing 2 2 40)
   \<and> \<not> nullish (secondary_entry 2 1) \<and> \<not> nullish (secondary_entry 9 2)
   \<and> (\<exists>rows. reconcile (JNum 11) ''t'' [standing 1 1 50, standing 2 2 40]
                 [secondary_entry 2 1, secondary_entry 9 2] [] = Inr rows
          \<and> length rows = 2
          \<and> map (\<lambda>r. opt_prop r ''manager_id'') rows = [JNum 1, JNum 2]
          \<and> JNum 9 \<notin> (\<lambda>r. opt_prop r ''manager_id'') ` set rows)"
proof -
  have h: "\<forall>m\<in>set [standing 1 1 50, standing 2 2 40]
        \<union> set [secondary_entry 2 1, secondary_entry 9 2] \<union> set []. \<not> nullish m"
    by (simp add: standing_def secondary_entry_def)
  from reconcile_one_row_per_primary [OF h, of "JNum 11" "''t''"]
  obtain rows where r: "reconcile (JNum 11) ''t'' [standing 1 1 50, standing 2 2 40]
                 [secondary_entry 2 1, secondary_entry 9 2] [] = Inr rows"
    "length rows = length [standing 1 1 50, standing 2 2 40]"
    "map (\<lambda>r. opt_prop r ''manager_id'') rows =
       map (\<lambda>m. opt_prop m ''entry'') [standing 1 1 50, standing 2 2 40]"
    "\<forall>x\<in>set [secondary_entry 2 1, secondary_entry 9 2] \<union> set [].
        opt_prop x ''entry'' \<notin> (\<lambda>m. opt_prop m ''entry'') ` set [standing 1 1 50, standing 2 2 40] \<longrightarrow>
        opt_prop x ''entry'' \<notin> (\<lambda>r. opt_prop r ''manager_id'') ` set rows"
    by blast
  from r(4) have a: "JNum 9 \<notin> (\<lambda>r. opt_prop r ''manager_id'') ` set rows"
    by (simp add: standing_def secondary_entry_def)
  from r(3) have b: "map (\<lambda>r. opt_prop r ''manager_id'') rows = [JNum 1, JNum 2]"
    by (simp add: standing_def)
  from r(2) have c: "length rows = 2" by simp
  have e: "\<exists>rows. reconcile (JNum 11) ''t'' [standing 1 1 50, standing 2 2 40]
                 [secondary_entry 2 1, secondary_entry 9 2] [] = Inr rows
          \<and> length rows = 2
          \<and> map (\<lambda>r. opt_prop r ''manager_id'') rows = [JNum 1, JNum 2]
          \<and> JNum 9 \<notin> (\<lambda>r. opt_prop r ''manager_id'') ` set rows"
    using r(1) a b c by (intro exI conjI)
  from h e show ?thesis by simp
qed

text \<open>
  Claim C4, as amended.  For each primary entry and each secondary league the
  reconciliation step attaches the rank of the first entry of that league whose manager
  identifier equals the primary entry's, provided that rank is truthy; it attaches
  \<open>null\<close> when the league has no such entry or when that entry's rank is 0 or missing.
\<close>

theorem reconcile_secondary_ranks:
  assumes "\<forall>m\<in>set classicManagers \<union> set lmsManagers \<union> set h2hManagers. \<not> nullish m"
  shows "\<exists>rows. reconcile currentGW now classicManagers lmsManagers h2hManagers = Inr rows
           \<and> map (\<lambda>r. opt_prop r ''lms_rank'') rows =
               map (\<lambda>m. secondary_rank lmsManagers (opt_prop m ''entry'')) classicManagers
           \<and> map (\<lambda>r. opt_prop r ''h2h_rank'') rows =
               map (\<lambda>m. secondary_rank h2hManagers (opt_prop m ''entry'')) classicManagers"
  using reconcile_merged [OF assms] by (simp add: merged_row_def)

theorem reconcile_ranks_witness:
  "\<not> nullish (standing 1 1 50) \<and> \<not> nullish (standing 2 2 40)
   \<and> \<not> nullish (secondary_entry 2 1)
   \<and> (\<exists>rows. reconcile (JNum 11) ''t'' [standing 1 1 50, standing 2 2 40]
                 [secondary_entry 2 1] [] = Inr rows
          \<and> map (\<lambda>r. opt_prop r ''manager_id'') rows = [JNum 1, JNum 2]
          \<and> map (\<lambda>r. opt_prop r ''classic_rank'') rows = [JNum 1, JNum 2]
          \<and> map (\<lambda>r. opt_prop r ''classic_total'') rows = [JNum 50, JNum 40]
          \<and> map (\<lambda>r. opt_prop r ''lms_rank'') rows = [JNull, JNum 1]
          \<and> map (\<lambda>r. opt_prop r ''h2h_rank'') rows = [JNull, JNull])"
proof -
  have h: "\<forall>m\<in>set [standing 1 1 50, standing 2 2 40] \<union> set [secondary_entry 2 1] \<union> set []. \<not> nullish m"
    by (simp add: standing_def secondary_entry_def)
  from reconcile_secondary_ranks [OF h, of "JNum 11" "''t''"]
  obtain rows where r: "reconcile (JNum 11) ''t'' [standing 1 1 50, standing 2 2 40]
                 [secondary_entry 2 1] [] = Inr rows"
    "map (\<lambda>r. opt_prop r ''lms_rank'') rows =
       map (\<lambda>m. secondary_rank [secondary_entry 2 1] (opt_prop m ''entry''))
         [standing 1 1 50, standing 2 2 40]"
    "map (\<lambda>r. opt_prop r ''h2h_rank'') rows =
       map (\<lambda>m. secondary_rank [] (opt_prop m ''entry'')) [standing 1 1 50, standing 2 2 40]"
    by blast
  have e: "reconcile (JNum 11) ''t'' [standing 1 1 50, standing 2 2 40] [secondary_entry 2 1] [] =
             Inr (map (merged_row (JNum 11) ''t'' [secondary_entry 2 1] [])
                    [standing 1 1 50, standing 2 2 40])"
    by (rule reconcile_merged [OF h])
  from r(1) e have rows: "rows = map (merged_row (JNum 11) ''t'' [secondary_entry 2 1] [])
                    [standing 1 1 50, standing 2 2 40]"
    by simp
  from r(2) have a: "map (\<lambda>r. opt_prop r ''lms_rank'') rows = [JNull, JNum 1]"
    by (simp add: standing_def secondary_entry_def secondary_rank_def)
  from r(3) have b: "map (\<lambda>r. opt_prop r ''h2h_rank'') rows = [JNull, JNull]"
    by (simp add: secondary_rank_def)
  from rows have c: "map (\<lambda>r. opt_prop r ''manager_id'') rows = [JNum 1, JNum 2]"
    "map (\<lambda>r. opt_prop r ''classic_rank'') rows = [JNum 1, JNum 2]"
    "map (\<lambda>r. opt_prop r ''classic_total'') rows = [JNum 50, JNum 40]"
    by (simp_all add: merged_row_def standing_def)
  have e: "\<exists>rows. reconcile (JNum 11) ''t'' [standing 1 1 50, standing 2 2 40]
                 [secondary_entry 2 1] [] = Inr rows
          \<and> map (\<lambda>r. opt_prop r ''manager_id'') rows = [JNum 1, JNum 2]
          \<and> map (\<lambda>r. opt_prop r ''classic_rank'') rows = [JNum 1, JNum 2]
          \<and> map (\<lambda>r. opt_prop r ''classic_total'') rows = [JNum 50, JNum 40]
          \<and> map (\<lambda>r. opt_prop r ''lms_rank'') rows = [JNull, JNum 1]
          \<and> map (\<lambda>r. opt_prop r ''h2h_rank'') rows = [JNull, JNull]"
    using r(1) c a b by (intro exI conjI)
  from h e show ?thesis by simp
qed

text \<open>
  Claim C4 as stated fails where the secondary-list entry of the manager has rank 0: the
  entry exists, and the attached rank is \<open>null\<close>.
\<close>

theorem reconcile_rank_zero_counterexample:
  "reconcile (JNum 11) ''t'' [standing 1 1 50] [secondary_entry 1 0] [] =
     Inr [JObj [(''manager_id'', JNum 1), (''gw'', JNum 11),
                (''team_name'', JUndefined), (''player_name'', JUndefined),
                (''classic_rank'', JNum 1), (''classic_total'', JNum 50),
                (''classic_gw_points'', JNum 0), (''lms_rank'', JNull),
                (''h2h_rank'', JNull), (''last_updated'', JStr ''t'')]]"
  by (simp add: reconcile_def manual_row_def rank_in_def js_or_def standing_def secondary_entry_def)

subsection \<open>Authorisation\<close>

lemma cronSecret_bearer: "cronSecret (bearer_header v) = Some v"
  by (simp add: cronSecret_def bearer_header_def)

text \<open>
  Claim C8.  When the secret the request supplies differs from the configured one, each
  protected handler answers 401 with the body \<open>{error: 'Unauthorized'}\<close>, and the
  invocation has requested nothing from the upstream and submitted nothing to the store.
\<close>

theorem unauthorized_no_effects:
  "(cronSecret hs \<noteq> CRON_SECRET env \<longrightarrow>
      handler_scheduled supabase env hs net clk =
        Some (Responded 401 (JObj [(''error'', JStr ''Unauthorized'')]), \<lparr>fetched = [], upserts = []\<rparr>))
   \<and> (hs ''authorization'' \<noteq> Some (bearer (CRON_SECRET env)) \<longrightarrow>
      handler_cron db env hs net now =
        Some (Responded 401 (JObj [(''error'', JStr ''Unauthorized'')]), \<lparr>fetched = [], upserts = []\<rparr>))"
  by (simp add: handler_scheduled_def handler_cron_def no_effects_def)

theorem unauthorized_witness:
  "cronSecret (bearer_header ''wrong'') \<noteq> CRON_SECRET env_example
   \<and> handler_scheduled (Some store_ok) env_example (bearer_header ''wrong'') net_three_pages clock_example =
        Some (Responded 401 (JObj [(''error'', JStr ''Unauthorized'')]), \<lparr>fetched = [], upserts = []\<rparr>)
   \<and> bearer_header ''wrong'' ''authorization'' \<noteq> Some (bearer (CRON_SECRET env_example))
   \<and> handler_cron store_ok env_example (bearer_header ''wrong'') net_three_pages ''2025-01-01T00:00:00.000Z'' =
        Some (Responded 401 (JObj [(''error'', JStr ''Unauthorized'')]), \<lparr>fetched = [], upserts = []\<rparr>)"
proof -
  have a: "cronSecret (bearer_header ''wrong'') \<noteq> CRON_SECRET env_example"
    by (simp add: cronSecret_bearer env_example_def)
  have b: "bearer_header ''wrong'' ''authorization'' \<noteq> Some (bearer (CRON_SECRET env_example))"
    by (simp add: bearer_header_def bearer_def env_example_def)
  from a b unauthorized_no_effects [of "bearer_header ''wrong''" env_example "Some store_ok"
      net_three_pages clock_example store_ok "''2025-01-01T00:00:00.000Z''"]
  show ?thesis by simp
qed

subsection \<open>Missing store credentials\<close>

text \<open>
  The two three-league triggers answer 500 with the message of the initialisation
  failure when a credential is missing; the per-manager trigger never answers 500.
\<close>

lemma three_league_missing_credentials:
  assumes "unset (SUPABASE_URL env) \<or> unset (SUPABASE_KEY env)"
  shows "manual_trigger createClient env net clk =
           Some (Responded 500 (JObj [(''success'', JBool False),
                                      (''error'', JStr ''Supabase client not initialized'')]),
                 \<lparr>fetched = [], upserts = []\<rparr>)"
    and "cronSecret hs = CRON_SECRET env \<Longrightarrow>
         scheduled_trigger createClient env hs net clk =
           Some (Responded 500 (JObj [(''success'', JBool False),
                                      (''error'', JStr ''Supabase client not initialized'')]),
                 \<lparr>fetched = [], upserts = []\<rparr>)"
  using assms
  by (auto simp: manual_trigger_def scheduled_trigger_def handler_manual_def handler_scheduled_def
        init_supabase_def sync_leagues_def respond_def failure_body_def no_effects_def)

lemma cron_trigger_never_500:
  "cron_trigger createClient env hs net now = Some (Responded st body, s) \<Longrightarrow> st = 401 \<or> st = 200"
  by (auto simp: cron_trigger_def handler_cron_def split: sum.splits if_splits prod.splits
        dest!: bind_eq_Some_conv [THEN iffD1])

subsection \<open>The paginators return\<close>

lemma serves_unique: "serves net e b \<Longrightarrow> serves net e b' \<Longrightarrow> b = b'"
  by (auto simp: serves_def split: sum.splits)

lemma serves_not_fails: "serves net e b \<Longrightarrow> \<not> fails net e"
  by (auto simp: serves_def fails_def split: sum.splits)

lemma take_page_shape:
  "take_page body ms p = Inr (ms', p', h') \<Longrightarrow> (p' = Suc p \<and> h' = has_next_of body) \<or> \<not> truthy h'"
  by (cases "nullish body")
     (auto simp: take_page_def get_prop_opt has_next_of_def split: sum.splits if_splits
           elim: nullish.elims)

lemma take_page_manual_shape:
  "take_page_manual body ms p = Inr (ms', p', h') \<Longrightarrow> (p' = Suc p \<and> h' = has_next_of body) \<or> \<not> truthy h'"
  by (cases "nullish body")
     (auto simp: take_page_manual_def get_prop_opt has_next_of_def split: sum.splits if_splits
           elim: nullish.elims)

lemma upserts_requested [simp]: "upserts (requested e s) = upserts s"
  by (simp add: requested_def)

lemma fetch_pages_returns:
  assumes shape: "\<And>body ms p ms' p' h'. step body ms p = Inr (ms', p', h') \<Longrightarrow>
                    (p' = Suc p \<and> h' = has_next_of body) \<or> \<not> truthy h'"
  shows "last_page net L q \<Longrightarrow> p \<le> q \<Longrightarrow>
         \<exists>ms' s'. fetch_pages step net L (ms, p, h) s = Some (ms', s') \<and> upserts s' = upserts s"
proof (induction "q - p" arbitrary: p ms h s)
  case 0
  then have pq: "p = q" by simp
  show ?case
  proof (cases "truthy h")
    case False
    then show ?thesis by (simp add: fetch_pages_done)
  next
    case True
    show ?thesis
    proof (cases "fails net (standings_endpoint L p)")
      case f: True
      then show ?thesis by (simp add: fetch_pages_fails [OF f True])
    next
      case False
      with serves_or_fails obtain body where b: "serves net (standings_endpoint L p) body" by blast
      from False "0.prems"(1) pq b have nh: "\<not> truthy (has_next_of body)"
        unfolding last_page_def using serves_unique by blast
      show ?thesis
      proof (cases "step body ms p")
        case (Inl e)
        have fe: "fetchFPL net (standings_endpoint L p) s = (Inr body, requested (standings_endpoint L p) s)"
          unfolding fetchFPL_def by (rule fetch_json_serves [OF b])
        show ?thesis
          using True Inl fe by (subst fetch_pages.simps) (simp add: fetch_pages_done)
      next
        case (Inr vars)
        obtain ms' p' h' where v: "vars = (ms', p', h')" by (cases vars) auto
        from shape [OF Inr [unfolded v]] nh have "\<not> truthy h'" by auto
        then show ?thesis
          using fetch_pages_serves [where step = step and ms = ms and vars = vars and s = s, OF b True Inr] v by (simp add: fetch_pages_done)
      qed
    qed
  qed
next
  case (Suc d)
  show ?case
  proof (cases "truthy h")
    case False
    then show ?thesis by (simp add: fetch_pages_done)
  next
    case True
    show ?thesis
    proof (cases "fails net (standings_endpoint L p)")
      case f: True
      then show ?thesis by (simp add: fetch_pages_fails [OF f True])
    next
      case False
      with serves_or_fails obtain body where b: "serves net (standings_endpoint L p) body" by blast
      show ?thesis
      proof (cases "step body ms p")
        case (Inl e)
        have fe: "fetchFPL net (standings_endpoint L p) s = (Inr body, requested (standings_endpoint L p) s)"
          unfolding fetchFPL_def by (rule fetch_json_serves [OF b])
        show ?thesis
          using True Inl fe by (subst fetch_pages.simps) (simp add: fetch_pages_done)
      next
        case (Inr vars)
        obtain ms' p' h' where v: "vars = (ms', p', h')" by (cases vars) auto
        note eq = fetch_pages_serves [where step = step and ms = ms and vars = vars and s = s, OF b True Inr, unfolded v]
        show ?thesis
        proof (cases "truthy h'")
          case False
          then show ?thesis using eq by (simp add: fetch_pages_done)
        next
          case t: True
          with shape [OF Inr [unfolded v]] have p': "p' = Suc p" by auto
          from Suc.hyps(2) have d: "d = q - Suc p" and le: "Suc p \<le> q" by auto
          from Suc.hyps(1) [OF d Suc.prems(1) le, of ms' h' "requested (standings_endpoint L p) s"]
          show ?thesis using eq p' by simp
        qed
      qed
    qed
  qed
qed

lemma fetchAllManagers_returns:
  assumes "league_ends net L"
  shows "\<exists>ms s'. fetchAllManagers net L s = Some (ms, s') \<and> upserts s' = upserts s"
    and "\<exists>ms s'. fetchAllManagers_manual net L s = Some (ms, s') \<and> upserts s' = upserts s"
proof -
  from assms obtain q where q: "1 \<le> q" "last_page net L q" unfolding league_ends_def by blast
  show "\<exists>ms s'. fetchAllManagers net L s = Some (ms, s') \<and> upserts s' = upserts s"
    unfolding fetchAllManagers_def by (rule fetch_pages_returns [OF take_page_shape q(2) q(1)])
  show "\<exists>ms s'. fetchAllManagers_manual net L s = Some (ms, s') \<and> upserts s' = upserts s"
    unfolding fetchAllManagers_manual_def
    by (rule fetch_pages_returns [OF take_page_manual_shape q(2) q(1)])
qed

subsection \<open>The \<open>try\<close> block of the three-league handlers\<close>

lemma upserts_getCurrentGW: "upserts (snd (getCurrentGW net s)) = upserts s"
  by (auto simp: getCurrentGW_def getCurrentGW_with_def fetchFPL_def fetch_json_def Let_def
           split: sum.splits prod.splits)

lemma sync_leagues_outcome:
  assumes pag: "\<And>L s. L \<in> {classicLeagueId, lmsLeagueId, h2hLeagueId} \<Longrightarrow>
                  \<exists>ms s'. paginate net L s = Some (ms, s') \<and> upserts s' = upserts s"
  shows "\<exists>r s. sync_leagues paginate rows supabase net clk no_effects = Some (r, s)
           \<and> (case r of
                 Inl e \<Rightarrow> \<not> accepted supabase s
               | Inr body \<Rightarrow>
                   accepted supabase s
                   \<and> (\<exists>currentGW managerData.
                         upserts s = [\<lparr>table = ''manager_data'', payload = JArr managerData,
                                onConflict = ''manager_id,gw''\<rparr>]
                         \<and> body = success_body currentGW (length managerData) clk))"
proof (cases supabase)
  case None
  then show ?thesis
    by (simp add: sync_leagues_def accepted_def)
next
  case (Some db)
  obtain gw s0 where g: "getCurrentGW net no_effects = (gw, s0)" by (cases "getCurrentGW net no_effects")
  with upserts_getCurrentGW [of net no_effects] have u0: "upserts s0 = []"
    by (simp add: no_effects_def)
  from pag [of classicLeagueId s0] obtain c s1 where
    p1: "paginate net classicLeagueId s0 = Some (c, s1)" "upserts s1 = upserts s0" by auto
  from pag [of lmsLeagueId s1] obtain l s2 where
    p2: "paginate net lmsLeagueId s1 = Some (l, s2)" "upserts s2 = upserts s1" by auto
  from pag [of h2hLeagueId s2] obtain h s3 where
    p3: "paginate net h2hLeagueId s2 = Some (h, s3)" "upserts s3 = upserts s2" by auto
  have u3: "upserts s3 = []" using u0 p1(2) p2(2) p3(2) by simp
  have sl: "sync_leagues paginate rows supabase net clk no_effects =
              (case rows gw c l h of
                 Inl e \<Rightarrow> Some (Inl e, s3)
               | Inr managerData \<Rightarrow> Some (store_rows db gw managerData clk s3))"
    by (simp add: sync_leagues_def Some g p1(1) p2(1) p3(1))
  show ?thesis
  proof (cases "rows gw c l h")
    case (Inl e)
    then show ?thesis
      using sl u3 by (simp add: accepted_def Some)
  next
    case (Inr managerData)
    let ?w = "\<lparr>table = ''manager_data'', payload = JArr managerData, onConflict = ''manager_id,gw''\<rparr>"
    show ?thesis
    proof (cases "db ?w")
      case (Rejected e)
      then show ?thesis
        using sl u3 Inr
        by (simp add: accepted_def Some store_rows_def upsert_def Let_def)
    next
      case (Resolved error)
      then show ?thesis
        using sl u3 Inr
        by (auto simp: accepted_def Some store_rows_def upsert_def Let_def split: sum.splits)
    qed
  qed
qed

lemma failure_shape:
  "\<exists>error. Responded 500 (failure_body e) =
            Responded 500 (JObj [(''success'', JBool False), (''error'', JStr (message error))])"
  unfolding failure_body_def by blast

lemma sync_leagues_response:
  assumes pag: "\<And>L s. L \<in> {classicLeagueId, lmsLeagueId, h2hLeagueId} \<Longrightarrow>
                  \<exists>ms s'. paginate net L s = Some (ms, s') \<and> upserts s' = upserts s"
  shows "\<exists>out s. respond (sync_leagues paginate rows supabase net clk no_effects) = Some (out, s)
                 \<and> sync_response clk supabase out s"
proof -
  from sync_leagues_outcome [of paginate net rows supabase clk, OF pag]
  obtain r s where rs: "sync_leagues paginate rows supabase net clk no_effects = Some (r, s)"
    "case r of
       Inl e \<Rightarrow> \<not> accepted supabase s
     | Inr body \<Rightarrow>
         accepted supabase s
         \<and> (\<exists>currentGW managerData.
               upserts s = [\<lparr>table = ''manager_data'', payload = JArr managerData,
                                onConflict = ''manager_id,gw''\<rparr>]
               \<and> body = success_body currentGW (length managerData) clk)"
    by blast
  show ?thesis
  proof (cases r)
    case (Inl e)
    with rs failure_shape [of e] show ?thesis
      by (simp add: respond_def sync_response_def)
  next
    case (Inr body)
    with rs show ?thesis
      by (auto simp: respond_def sync_response_def success_body_def)
  qed
qed

lemma paginate_ends:
  assumes "league_ends net classicLeagueId" "league_ends net lmsLeagueId" "league_ends net h2hLeagueId"
  shows "\<And>L s. L \<in> {classicLeagueId, lmsLeagueId, h2hLeagueId} \<Longrightarrow>
            \<exists>ms s'. fetchAllManagers net L s = Some (ms, s') \<and> upserts s' = upserts s"
    and "\<And>L s. L \<in> {classicLeagueId, lmsLeagueId, h2hLeagueId} \<Longrightarrow>
            \<exists>ms s'. fetchAllManagers_manual net L s = Some (ms, s') \<and> upserts s' = upserts s"
  using assms fetchAllManagers_returns by blast+

lemma show_one: "show_nat 1 = ''1''" "show_nat (Suc 0) = ''1''"
  by (simp_all add: show_nat.simps [of 1] show_nat.simps [of "Suc 0"] digit_char_def)

lemma league_urls:
  "api_url (standings_endpoint classicLeagueId 1) = ''https://fantasy.premierleague.com/api/leagues-classic/1229613/standings/?page_standings=1''"
  "api_url (standings_endpoint lmsLeagueId 1) = ''https://fantasy.premierleague.com/api/leagues-classic/1190208/standings/?page_standings=1''"
  "api_url (standings_endpoint h2hLeagueId 1) = ''https://fantasy.premierleague.com/api/leagues-classic/1190166/standings/?page_standings=1''"
  "api_url ''/bootstrap-static/'' = ''https://fantasy.premierleague.com/api/bootstrap-static/''"
  "api_url (details_endpoint ''1'') = ''https://fantasy.premierleague.com/api/entry/1/''"
  by (simp_all add: api_url_def standings_endpoint_def classicLeagueId_def lmsLeagueId_def h2hLeagueId_def
        show_nat.simps [of 1229613] show_nat.simps [of 122961] show_nat.simps [of 12296]  show_nat.simps [of 1229] show_nat.simps [of 122] show_nat.simps [of 12]
        show_nat.simps [of 1190208] show_nat.simps [of 119020] show_nat.simps [of 11902]  show_nat.simps [of 1190] show_nat.simps [of 119] show_nat.simps [of 11]
        show_nat.simps [of 1190166] show_nat.simps [of 119016] show_nat.simps [of 11901]
        show_one digit_char_def details_endpoint_def)

lemma season_served:
  "serves net_season (standings_endpoint classicLeagueId 1) (standings_page [manager_ann] False)"
  "serves net_season (standings_endpoint lmsLeagueId 1) (standings_page [secondary_entry 1 3] False)"
  "fails net_season (standings_endpoint h2hLeagueId 1)"
  "serves net_season ''/bootstrap-static/'' (JObj [(''events'', JArr events_38)])"
  "fails net_season (details_endpoint ''1'')"
  unfolding serves_def fails_def league_urls
  by (simp_all add: net_season_def ok_body_def)

lemma season_ends:
  "league_ends net_season classicLeagueId" "league_ends net_season lmsLeagueId"
  "league_ends net_season h2hLeagueId"
proof -
  from season_served(1) have "last_page net_season classicLeagueId 1"
    unfolding last_page_def by (auto simp: standings_page_fields)
  then show "league_ends net_season classicLeagueId"
    unfolding league_ends_def by blast
  from season_served(2) have "last_page net_season lmsLeagueId 1"
    unfolding last_page_def by (auto simp: standings_page_fields)
  then show "league_ends net_season lmsLeagueId"
    unfolding league_ends_def by blast
  from season_served(3) have "last_page net_season h2hLeagueId 1"
    unfolding last_page_def by blast
  then show "league_ends net_season h2hLeagueId"
    unfolding league_ends_def by blast
qed

lemma season_period:
  "getCurrentGW net_season s = (JNum 38, requested ''/bootstrap-static/'' s)"
  "getCurrentGW_cron net_season s = (JNum 38, requested ''/bootstrap-static/'' s)"
proof -
  have e: "current_event_id (JObj [(''events'', JArr events_38)]) = Inr (JNum 38)"
    by (simp add: current_event_id_array [of _ events_38] events_38_def current_period_def)
  show "getCurrentGW net_season s = (JNum 38, requested ''/bootstrap-static/'' s)"
    unfolding getCurrentGW_def getCurrentGW_with_def fetchFPL_def fetch_json_serves [OF season_served(4)]
    by (simp add: e)
  show "getCurrentGW_cron net_season s = (JNum 38, requested ''/bootstrap-static/'' s)"
    unfolding getCurrentGW_cron_def getCurrentGW_with_def fetchFPL_cron_def fetch_json_serves [OF season_served(4)]
    by (simp add: e)
qed

lemma season_pages:
  "fetchAllManagers net_season classicLeagueId s =
     Some ([manager_ann], requested (standings_endpoint classicLeagueId 1) s)"
  "fetchAllManagers net_season lmsLeagueId s =
     Some ([secondary_entry 1 3], requested (standings_endpoint lmsLeagueId 1) s)"
  "fetchAllManagers net_season h2hLeagueId s =
     Some ([], requested (standings_endpoint h2hLeagueId 1) s)"
  "fetchAllManagers_manual net_season classicLeagueId s =
     Some ([manager_ann], requested (standings_endpoint classicLeagueId 1) s)"
  "fetchAllManagers_manual net_season lmsLeagueId s =
     Some ([secondary_entry 1 3], requested (standings_endpoint lmsLeagueId 1) s)"
  "fetchAllManagers_manual net_season h2hLeagueId s =
     Some ([], requested (standings_endpoint h2hLeagueId 1) s)"
  "getAllManagersFromLeague net_season classicLeagueId 1 s =
     Some ([manager_ann], requested (standings_endpoint classicLeagueId 1) s)"
  unfolding fetchAllManagers_def fetchAllManagers_manual_def
  using fetch_pages_advance [OF take_page_array standings_page_fields(1) season_served(1), of "[]" s]
    fetch_pages_advance [OF take_page_array standings_page_fields(1) season_served(2), of "[]" s]
    fetch_pages_advance [OF take_page_manual_array standings_page_fields(1) season_served(1), of "[]" s]
    fetch_pages_advance [OF take_page_manual_array standings_page_fields(1) season_served(2), of "[]" s]
    fetch_pages_fails [OF season_served(3), of "JBool True" _ "[]" s]
    getAll_advance [OF season_served(1) standings_page_fields(1), of s]
  by (simp_all add: standings_page_fields)

lemma season_leagues:
  "sync_leagues fetchAllManagers rows (Some db) net_season clk no_effects =
     (case rows (JNum 38) [manager_ann] [secondary_entry 1 3] [] of
        Inl e \<Rightarrow>
          Some (Inl e, requested (standings_endpoint h2hLeagueId 1)
                 (requested (standings_endpoint lmsLeagueId 1)
                   (requested (standings_endpoint classicLeagueId 1)
                     (requested ''/bootstrap-static/'' no_effects))))
      | Inr managerData \<Rightarrow>
          Some (store_rows db (JNum 38) managerData clk
                 (requested (standings_endpoint h2hLeagueId 1)
                   (requested (standings_endpoint lmsLeagueId 1)
                     (requested (standings_endpoint classicLeagueId 1)
                       (requested ''/bootstrap-static/'' no_effects))))))"
  "sync_leagues fetchAllManagers_manual rows (Some db) net_season clk no_effects =
     (case rows (JNum 38) [manager_ann] [secondary_entry 1 3] [] of
        Inl e \<Rightarrow>
          Some (Inl e, requested (standings_endpoint h2hLeagueId 1)
                 (requested (standings_endpoint lmsLeagueId 1)
                   (requested (standings_endpoint classicLeagueId 1)
                     (requested ''/bootstrap-static/'' no_effects))))
      | Inr managerData \<Rightarrow>
          Some (store_rows db (JNum 38) managerData clk
                 (requested (standings_endpoint h2hLeagueId 1)
                   (requested (standings_endpoint lmsLeagueId 1)
                     (requested (standings_endpoint classicLeagueId 1)
                       (requested ''/bootstrap-static/'' no_effects))))))"
  by (simp_all add: sync_leagues_def season_period season_pages del: One_nat_def)

lemma season_rows:
  "map_js (scheduled_row (JNum 38) now) [manager_ann] =
     Inr [JObj [(''manager_id'', JNum 1), (''manager_name'', JStr ''Ann''),
                (''team_name'', JStr ''Team A''), (''gw'', JNum 38), (''gw_points'', JNum 5),
                (''total_points'', JNum 50), (''overall_rank'', JNum 1),
                (''last_updated'', JStr now)]]"
  "reconcile (JNum 38) now [manager_ann] [secondary_entry 1 3] [] =
     Inr [JObj [(''manager_id'', JNum 1), (''gw'', JNum 38), (''team_name'', JStr ''Team A''),
                (''player_name'', JStr ''Ann''), (''classic_rank'', JNum 1),
                (''classic_total'', JNum 50), (''classic_gw_points'', JNum 5),
                (''lms_rank'', JNum 3), (''h2h_rank'', JNull),
                (''last_updated'', JStr now)]]"
  by (simp_all add: scheduled_row_def reconcile_def manual_row_def rank_in_def manager_ann_def
        secondary_entry_def js_or_def)

lemma duration_example: "show_number (endTime clock_example - startTime clock_example) = ''250''"
  by (simp add: clock_example_def show_small_numbers)

lemma auth_example: "cronSecret (bearer_header ''s3cret'') = CRON_SECRET env_example"
  by (simp add: cronSecret_bearer env_example_def)

lemma scheduled_season:
  "map_option fst (handler_scheduled (Some store_ok) env_example (bearer_header ''s3cret'')
                     net_season clock_example) =
     Some (Responded 200
             (JObj [(''success'', JBool True), (''gw'', JNum 38),
                    (''managersProcessed'', JNum 1), (''duration'', JStr ''250ms'')]))"
  "map_option fst (handler_scheduled (Some store_down) env_example (bearer_header ''s3cret'')
                     net_season clock_example) =
     Some (Responded 500
             (JObj [(''success'', JBool False),
                    (''error'', JStr ''Supabase insert failed: connection refused'')]))"
  unfolding handler_scheduled_def season_leagues season_rows
  by (simp_all add: auth_example store_rows_def upsert_def Let_def store_ok_def store_down_def
        respond_def success_body_def failure_body_def duration_example)

lemma season_details:
  "getManagerDetails net_season (JNum 1) s = (Inr JNull, requested (details_endpoint ''1'') s)"
proof -
  from fetch_json_fails [OF season_served(5)] obtain e where
    "fetchFPL_cron net_season (details_endpoint ''1'') s = (Inl e, requested (details_endpoint ''1'') s)"
    unfolding fetchFPL_cron_def by blast
  then show ?thesis
    by (simp add: getManagerDetails_def show_small_numbers details_endpoint_def)
qed

lemma season_sync:
  "syncManagerData db net_season now no_effects =
     (case db \<lparr>table = ''season_snapshot'',
               payload = JObj [(''id'', JNum 1), (''current_gw'', JNum 38), (''updated_at'', JStr now)],
               onConflict = ''id''\<rparr> of
        Rejected error \<Rightarrow>
          Some (JObj [(''success'', JBool False), (''error'', JStr (message error))],
                \<lparr>fetched = [api_url ''/bootstrap-static/'',
                             api_url (standings_endpoint classicLeagueId 1),
                             api_url (details_endpoint ''1'')],
                   upserts = [\<lparr>table = ''season_snapshot'',
                                payload = JObj [(''id'', JNum 1), (''current_gw'', JNum 38),
                                                (''updated_at'', JStr now)],
                                onConflict = ''id''\<rparr>]\<rparr>)
      | Resolved r \<Rightarrow>
          Some (JObj [(''success'', JBool True), (''managers'', JNum 1), (''gw'', JNum 38)],
                \<lparr>fetched = [api_url ''/bootstrap-static/'',
                             api_url (standings_endpoint classicLeagueId 1),
                             api_url (details_endpoint ''1'')],
                   upserts = [\<lparr>table = ''season_snapshot'',
                                payload = JObj [(''id'', JNum 1), (''current_gw'', JNum 38),
                                                (''updated_at'', JStr now)],
                                onConflict = ''id''\<rparr>]\<rparr>))"
  unfolding syncManagerData_def season_period season_pages
  by (simp add: sync_manager_def season_details manager_ann_def upsert_def Let_def requested_def
        no_effects_def show_small_numbers sync_failed_def split: store_outcome.splits
        del: One_nat_def)

lemma getCurrentGW_cron_fails:
  assumes "fails net ''/bootstrap-static/''"
  shows "getCurrentGW_cron net s = (JNum 11, requested ''/bootstrap-static/'' s)"
proof -
  from fetch_json_fails [OF assms] obtain e where
    "fetchFPL_cron net ''/bootstrap-static/'' s = (Inl e, requested ''/bootstrap-static/'' s)"
    unfolding fetchFPL_cron_def by blast
  then show ?thesis by (simp add: getCurrentGW_cron_def getCurrentGW_with_def)
qed

lemma down_fails: "fails net_down endpoint"
  by (simp add: fails_def net_down_def)

lemma down_sync:
  "map_option fst (syncManagerData db net_down now no_effects) =
     Some (JObj [(''success'', JBool False), (''message'', JStr ''No managers found'')])"
proof -
  have "\<forall>i. 1 \<le> i \<and> i < 1 + 0 \<longrightarrow>
            (\<exists>body. serves net_down (standings_endpoint classicLeagueId i) body
                    \<and> results_of body = JArr ((\<lambda>i. []) i) \<and> truthy (has_next_of body))"
    by simp
  from getAll_run [OF this down_fails]
  have "getAllManagersFromLeague net_down classicLeagueId 1 (requested ''/bootstrap-static/'' no_effects) =
          Some ([], (requested ''/bootstrap-static/'' no_effects)\<lparr>fetched :=
                 fetched (requested ''/bootstrap-static/'' no_effects) @ page_urls classicLeagueId 1 (Suc 0)\<rparr>)"
    by simp
  then show ?thesis
    unfolding syncManagerData_def getCurrentGW_cron_fails [OF down_fails]
    by (simp add: show_small_numbers)
qed

subsection \<open>The per-manager trigger without store credentials\<close>

text \<open>
  Claim C9 at the per-manager trigger of \<open>api/cron/sync-fpl-data.js\<close>: the environment
  has no store credentials and the request is authorised.  When the client library
  refuses the missing URL, the module's unguarded \<open>createClient\<close> call throws at load
  time and the invocation ends in an uncaught exception, with no response.  Were the
  library to hand out a client all the same, the handler would run the sync and answer
  200.  In neither case does the trigger answer with an initialisation failure.
\<close>

theorem cron_trigger_crashes_without_credentials:
  "unset (SUPABASE_URL env_no_credentials)
   \<and> bearer_header ''s3cret'' ''authorization'' = Some (bearer (CRON_SECRET env_no_credentials))
   \<and> cron_trigger createClient_strict env_no_credentials (bearer_header ''s3cret'') net_season
        ''2025-01-01T00:00:00.000Z'' =
      Some (Uncaught (Error ''supabaseUrl is required.''), \<lparr>fetched = [], upserts = []\<rparr>)
   \<and> map_option fst
        (cron_trigger createClient_lenient env_no_credentials (bearer_header ''s3cret'') net_season
           ''2025-01-01T00:00:00.000Z'') =
      Some (Responded 200 (JObj [(''success'', JBool True), (''managers'', JNum 1), (''gw'', JNum 38)]))"
proof -
  have auth: "bearer_header ''s3cret'' ''authorization'' = Some (bearer (CRON_SECRET env_no_credentials))"
    by (simp add: bearer_header_def bearer_def env_no_credentials_def)
  have a: "cron_trigger createClient_strict env_no_credentials (bearer_header ''s3cret'') net_season
        ''2025-01-01T00:00:00.000Z'' =
      Some (Uncaught (Error ''supabaseUrl is required.''), \<lparr>fetched = [], upserts = []\<rparr>)"
    by (simp add: cron_trigger_def createClient_strict_def env_no_credentials_def unset_def
          no_effects_def)
  have b: "map_option fst
        (cron_trigger createClient_lenient env_no_credentials (bearer_header ''s3cret'') net_season
           ''2025-01-01T00:00:00.000Z'') =
      Some (Responded 200 (JObj [(''success'', JBool True), (''managers'', JNum 1), (''gw'', JNum 38)]))"
    unfolding cron_trigger_def createClient_lenient_def handler_cron_def season_sync
    by (simp add: auth store_ok_def)
  have c: "unset (SUPABASE_URL env_no_credentials)"
    by (simp add: env_no_credentials_def unset_def)
  from a b c auth show ?thesis by simp
qed

subsection \<open>The answers of the scheduled triggers\<close>

text \<open>
  The scheduled handler of the three-league pipeline.  For an authorised request, and
  leagues whose pagination ends, that handler responds.  When the store accepted the rows
  it answers 200 with \<open>{success: true, gw, managersProcessed, duration}\<close>, where
  \<open>managersProcessed\<close> is the number of rows submitted; in every other case (no store
  client, an exception while the rows are built, a rejected upsert, an upsert answered
  with an error) it answers 500 with \<open>{success: false, error}\<close>, \<open>error\<close> being the
  message of the exception.
\<close>

lemma scheduled_handler_responses:
  assumes "cronSecret hs = CRON_SECRET env"
    and "league_ends net classicLeagueId" and "league_ends net lmsLeagueId"
    and "league_ends net h2hLeagueId"
  shows "\<exists>out s. handler_scheduled supabase env hs net clk = Some (out, s)
           \<and> (accepted supabase s \<longrightarrow>
                (\<exists>currentGW rows.
                   upserts s = [\<lparr>table = ''manager_data'', payload = JArr rows,
                                onConflict = ''manager_id,gw''\<rparr>]
                   \<and> out = Responded 200
                        (JObj [(''success'', JBool True),
                               (''gw'', currentGW),
                               (''managersProcessed'', JNum (int (length rows))),
                               (''duration'', JStr (show_number (endTime clk - startTime clk) @ ''ms''))])))
           \<and> (\<not> accepted supabase s \<longrightarrow>
                (\<exists>error. out = Responded 500
                   (JObj [(''success'', JBool False), (''error'', JStr (message error))])))"
proof -
  from sync_leagues_response [of fetchAllManagers net, OF paginate_ends(1) [OF assms(2-4)]]
  obtain out s where
    "respond (sync_leagues fetchAllManagers
        (\<lambda>currentGW classicManagers lmsManagers h2hManagers.
            map_js (scheduled_row currentGW (isoNow clk)) classicManagers)
        supabase net clk no_effects) = Some (out, s)"
    "sync_response clk supabase out s"
    by blast
  then show ?thesis
    using assms(1) by (auto simp: handler_scheduled_def sync_response_def split: if_splits)
qed

lemma scheduled_handler_example:
  "cronSecret (bearer_header ''s3cret'') = CRON_SECRET env_example
   \<and> league_ends net_season classicLeagueId \<and> league_ends net_season lmsLeagueId
   \<and> league_ends net_season h2hLeagueId
   \<and> (\<exists>out s. handler_scheduled (Some store_ok) env_example (bearer_header ''s3cret'')
                  net_season clock_example = Some (out, s)
          \<and> accepted (Some store_ok) s
          \<and> out = Responded 200
                    (JObj [(''success'', JBool True), (''gw'', JNum 38),
                           (''managersProcessed'', JNum 1), (''duration'', JStr ''250ms'')]))
   \<and> (\<exists>out s. handler_scheduled (Some store_down) env_example (bearer_header ''s3cret'')
                  net_season clock_example = Some (out, s)
          \<and> \<not> accepted (Some store_down) s
          \<and> out = Responded 500
                    (JObj [(''success'', JBool False),
                           (''error'', JStr ''Supabase insert failed: connection refused'')]))"
proof -
  note t = scheduled_handler_responses [OF auth_example season_ends]
  from t [of "Some store_ok" clock_example]
  obtain out s where a: "handler_scheduled (Some store_ok) env_example (bearer_header ''s3cret'')
                  net_season clock_example = Some (out, s)"
    and a2: "\<not> accepted (Some store_ok) s \<longrightarrow> (\<exists>error. out = Responded 500
                   (JObj [(''success'', JBool False), (''error'', JStr (message error))]))"
    by (elim exE conjE)
  from a scheduled_season(1) have o: "out = Responded 200
                    (JObj [(''success'', JBool True), (''gw'', JNum 38),
                           (''managersProcessed'', JNum 1), (''duration'', JStr ''250ms'')])"
    by simp
  with a2 have acc: "accepted (Some store_ok) s" by auto
  from t [of "Some store_down" clock_example]
  obtain out' s' where b: "handler_scheduled (Some store_down) env_example (bearer_header ''s3cret'')
                  net_season clock_example = Some (out', s')"
    and b2: "accepted (Some store_down) s' \<longrightarrow> (\<exists>currentGW rows.
                   upserts s' = [\<lparr>table = ''manager_data'', payload = JArr rows,
                                onConflict = ''manager_id,gw''\<rparr>]
                   \<and> out' = Responded 200
                        (JObj [(''success'', JBool True),
                               (''gw'', currentGW),
                               (''managersProcessed'', JNum (int (length rows))),
                               (''duration'', JStr (show_number (endTime clock_example - startTime clock_example) @ ''ms''))]))"
    by (elim exE conjE)
  from b scheduled_season(2) have o': "out' = Responded 500
                    (JObj [(''success'', JBool False),
                           (''error'', JStr ''Supabase insert failed: connection refused'')])"
    by simp
  with b2 have nacc: "\<not> accepted (Some store_down) s'" by auto
  from a acc o have A: "\<exists>out s. handler_scheduled (Some store_ok) env_example (bearer_header ''s3cret'')
                  net_season clock_example = Some (out, s)
          \<and> accepted (Some store_ok) s
          \<and> out = Responded 200
                    (JObj [(''success'', JBool True), (''gw'', JNum 38),
                           (''managersProcessed'', JNum 1), (''duration'', JStr ''250ms'')])"
    by blast
  from b nacc o' have B: "\<exists>out s. handler_scheduled (Some store_down) env_example (bearer_header ''s3cret'')
                  net_season clock_example = Some (out, s)
          \<and> \<not> accepted (Some store_down) s
          \<and> out = Responded 500
                    (JObj [(''success'', JBool False),
                           (''error'', JStr ''Supabase insert failed: connection refused'')])"
    by blast
  from auth_example season_ends A B show ?thesis by simp
qed

text \<open>
  Claim C5 at the per-manager handler of \<open>api/cron/sync-fpl-data.js\<close>, which ends with
  \<open>res.status(200).json(result)\<close> whatever \<open>syncManagerData\<close> returned.  The request
  is authorised.  When the upstream is down the handler answers 200 with
  \<open>{success: false, message}\<close>, and when the store rejects the write of the period
  marker it answers 200 with \<open>{success: false, error}\<close>: two internal failures, neither
  answered with status 500.  After a completed sync it answers 200 with
  \<open>{success: true, managers, gw}\<close>.
\<close>

theorem cron_handler_answers_200:
  "map_option fst (handler_cron store_ok env_example (bearer_header ''s3cret'') net_down
                     ''2025-01-01T00:00:00.000Z'') =
     Some (Responded 200 (JObj [(''success'', JBool False), (''message'', JStr ''No managers found'')]))
   \<and> map_option fst (handler_cron store_reject env_example (bearer_header ''s3cret'') net_season
                     ''2025-01-01T00:00:00.000Z'') =
     Some (Responded 200 (JObj [(''success'', JBool False), (''error'', JStr ''connection refused'')]))
   \<and> map_option fst (handler_cron store_ok env_example (bearer_header ''s3cret'') net_season
                       ''2025-01-01T00:00:00.000Z'') =
     Some (Responded 200 (JObj [(''success'', JBool True), (''managers'', JNum 1), (''gw'', JNum 38)]))"
proof -
  have auth: "bearer_header ''s3cret'' ''authorization'' = Some (bearer (CRON_SECRET env_example))"
    by (simp add: bearer_header_def bearer_def env_example_def)
  have a: "map_option fst (handler_cron store_ok env_example (bearer_header ''s3cret'') net_down
                     ''2025-01-01T00:00:00.000Z'') =
     Some (Responded 200 (JObj [(''success'', JBool False), (''message'', JStr ''No managers found'')]))"
    using down_sync [of store_ok "''2025-01-01T00:00:00.000Z''"]
    by (auto simp: handler_cron_def auth)
  have b: "map_option fst (handler_cron store_reject env_example (bearer_header ''s3cret'') net_season
                     ''2025-01-01T00:00:00.000Z'') =
     Some (Responded 200 (JObj [(''success'', JBool False), (''error'', JStr ''connection refused'')]))"
    unfolding handler_cron_def season_sync
    by (simp add: auth store_reject_def)
  have c: "map_option fst (handler_cron store_ok env_example (bearer_header ''s3cret'') net_season
                       ''2025-01-01T00:00:00.000Z'') =
     Some (Responded 200 (JObj [(''success'', JBool True), (''managers'', JNum 1), (''gw'', JNum 38)]))"
    unfolding handler_cron_def season_sync
    by (simp add: auth store_ok_def)
  from a b c show ?thesis by simp
qed

subsection \<open>The two paginators of the three-league handlers agree\<close>

lemma fetch_json_Inr:
  "fetch_json c net endpoint s = (Inr v, s') \<Longrightarrow> serves net endpoint v \<and> s' = requested endpoint s"
  by (auto simp: fetch_json_def serves_def requested_def Let_def split: sum.splits if_splits)

lemma listed_cases:
  assumes "listed body"
  obtains (list) rs where "results_of body = JArr rs" "\<forall>m\<in>set rs. \<not> nullish m"
        | (none) "\<not> truthy (results_of body)"
  using assms unfolding listed_def
  by (cases "results_of body") (auto simp: list_all_iff)

lemma take_page_none:
  assumes "\<not> truthy (results_of body)" and "\<not> nullish body"
  shows "take_page body ms p = Inr (ms, p, JBool False)"
    and "take_page_manual body ms p = Inr (ms, p, JBool False)"
  using assms
  by (simp_all add: take_page_def take_page_manual_def get_prop_opt results_of_def)

lemma take_page_nullish:
  assumes "nullish body"
  shows "isl (take_page body ms p)" and "isl (take_page_manual body ms p)"
  using assms by (cases body; simp add: take_page_def take_page_manual_def)+

lemma take_page_listed:
  assumes "listed body"
  shows "take_page_manual body ms p = take_page body ms p"
    and "take_page body ms p = Inr (ms', p', h') \<Longrightarrow> \<forall>m\<in>set ms. \<not> nullish m \<Longrightarrow>
           \<forall>m\<in>set ms'. \<not> nullish m"
proof -
  show "take_page_manual body ms p = take_page body ms p"
  proof (cases "nullish body")
    case True
    then show ?thesis by (cases body) (simp_all add: take_page_def take_page_manual_def)
  next
    case False
    from assms show ?thesis
    proof (cases rule: listed_cases)
      case (list rs)
      then show ?thesis by (simp add: take_page_array take_page_manual_array)
    next
      case none
      then show ?thesis by (simp add: take_page_none [OF none False])
    qed
  qed
  assume r: "take_page body ms p = Inr (ms', p', h')" and nn: "\<forall>m\<in>set ms. \<not> nullish m"
  show "\<forall>m\<in>set ms'. \<not> nullish m"
  proof (cases "nullish body")
    case True
    from take_page_nullish(1) [OF True, of ms p] r show ?thesis by simp
  next
    case False
    from assms show ?thesis
    proof (cases rule: listed_cases)
      case (list rs)
      with r nn show ?thesis by (auto simp: take_page_array)
    next
      case none
      with r nn show ?thesis by (auto simp: take_page_none [OF none False])
    qed
  qed
qed

lemma fetch_pages_listed:
  assumes ll: "league_listed net L" and run: "fetch_pages take_page net L vars s = Some y"
  shows "fetch_pages take_page_manual net L vars s = Some y
         \<and> ((\<forall>m\<in>set (fst vars). \<not> nullish m) \<longrightarrow> (\<forall>m\<in>set (fst y). \<not> nullish m))"
proof -
  have "take_page = take_page \<longrightarrow> net = net \<longrightarrow> L = L \<longrightarrow>
          fetch_pages take_page_manual net L vars s = Some y
          \<and> ((\<forall>m\<in>set (fst vars). \<not> nullish m) \<longrightarrow> (\<forall>m\<in>set (fst y). \<not> nullish m))"
  proof (rule fetch_pages.raw_induct
           [where P = "\<lambda>step net' L' vars s y. step = take_page \<longrightarrow> net' = net \<longrightarrow> L' = L \<longrightarrow>
                         fetch_pages take_page_manual net L vars s = Some y
                         \<and> ((\<forall>m\<in>set (fst vars). \<not> nullish m) \<longrightarrow> (\<forall>m\<in>set (fst y). \<not> nullish m))",
            OF _ run], goal_cases)
    case (1 fp step net' L' vars s y)
    show ?case
    proof (intro impI)
      assume st: "step = take_page" and n: "net' = net" and l: "L' = L"
      note body = 1(2) [unfolded st n l]
      have IH: "fetch_pages take_page_manual net L vars' s' = Some y'
                \<and> ((\<forall>m\<in>set (fst vars'). \<not> nullish m) \<longrightarrow> (\<forall>m\<in>set (fst y'). \<not> nullish m))"
        if "fp take_page net L vars' s' = Some y'" for vars' s' y'
        using 1(1) [OF that] by simp
      obtain ms p h where v: "vars = (ms, p, h)" by (cases vars) auto
      show "fetch_pages take_page_manual net L vars s = Some y
             \<and> ((\<forall>m\<in>set (fst vars). \<not> nullish m) \<longrightarrow> (\<forall>m\<in>set (fst y). \<not> nullish m))"
      proof (cases "truthy h")
        case False
        with body v show ?thesis by (auto simp: fetch_pages_done)
      next
        case True
        obtain x s' where f: "fetchFPL net (standings_endpoint L p) s = (x, s')"
          by (cases "fetchFPL net (standings_endpoint L p) s")
        show ?thesis
        proof (cases x)
          case (Inl e)
          with body v True f have "fp take_page net L (ms, p, JBool False) s' = Some y" by simp
          from IH [OF this]
          have "fetch_pages take_page_manual net L (ms, p, JBool False) s' = Some y
                \<and> ((\<forall>m\<in>set ms. \<not> nullish m) \<longrightarrow> (\<forall>m\<in>set (fst y). \<not> nullish m))"
            by simp
          moreover have "fetch_pages take_page_manual net L (ms, p, h) s =
                           fetch_pages take_page_manual net L (ms, p, JBool False) s'"
            using True f Inl by (subst fetch_pages.simps) simp
          ultimately show ?thesis using v by simp
        next
          case (Inr data)
          from f Inr have sv: "serves net (standings_endpoint L p) data"
            unfolding fetchFPL_def by (auto dest: fetch_json_Inr)
          with ll have li: "listed data" unfolding league_listed_def by blast
          note same = take_page_listed(1) [OF li, of ms p]
          show ?thesis
          proof (cases "take_page data ms p")
            case e: (Inl e)
            with body v True f Inr have "fp take_page net L (ms, p, JBool False) s' = Some y" by simp
            from IH [OF this]
            have "fetch_pages take_page_manual net L (ms, p, JBool False) s' = Some y
                  \<and> ((\<forall>m\<in>set ms. \<not> nullish m) \<longrightarrow> (\<forall>m\<in>set (fst y). \<not> nullish m))"
              by simp
            moreover have "fetch_pages take_page_manual net L (ms, p, h) s =
                             fetch_pages take_page_manual net L (ms, p, JBool False) s'"
              using True f Inr e same by (subst fetch_pages.simps) simp
            ultimately show ?thesis using v by simp
          next
            case r: (Inr vars')
            obtain ms' p' h' where v': "vars' = (ms', p', h')" by (cases vars') auto
            from body v True f Inr r have "fp take_page net L vars' s' = Some y" by simp
            from IH [OF this]
            have "fetch_pages take_page_manual net L vars' s' = Some y
                  \<and> ((\<forall>m\<in>set ms'. \<not> nullish m) \<longrightarrow> (\<forall>m\<in>set (fst y). \<not> nullish m))"
              using v' by simp
            moreover have "fetch_pages take_page_manual net L (ms, p, h) s =
                             fetch_pages take_page_manual net L vars' s'"
              using True f Inr r same by (subst fetch_pages.simps) simp
            moreover have "(\<forall>m\<in>set ms. \<not> nullish m) \<longrightarrow> (\<forall>m\<in>set ms'. \<not> nullish m)"
              using take_page_listed(2) [OF li r [unfolded v']] by blast
            ultimately show ?thesis using v by simp
          qed
        qed
      qed
    qed
  qed
  then show ?thesis by simp
qed

lemma fetchAllManagers_listed:
  assumes "league_ends net L" and "league_listed net L"
  shows "\<exists>ms s'. fetchAllManagers net L s = Some (ms, s')
           \<and> fetchAllManagers_manual net L s = Some (ms, s')
           \<and> upserts s' = upserts s \<and> (\<forall>m\<in>set ms. \<not> nullish m)"
proof -
  from fetchAllManagers_returns(1) [OF assms(1), of s] obtain ms s' where
    r: "fetchAllManagers net L s = Some (ms, s')" "upserts s' = upserts s"
    by blast
  from fetch_pages_listed [OF assms(2) r(1) [unfolded fetchAllManagers_def]]
  have "fetch_pages take_page_manual net L ([], 1, JBool True) s = Some (ms, s')"
    "\<forall>m\<in>set ms. \<not> nullish m"
    by simp_all
  with r show ?thesis by (simp add: fetchAllManagers_manual_def)
qed

subsection \<open>The two triggers on one upstream\<close>

lemma scheduled_records:
  assumes "\<forall>m\<in>set classicManagers. \<not> nullish m"
  shows "map_js (scheduled_row currentGW now) classicManagers =
           Inr (map (scheduled_record currentGW now) classicManagers)"
  using assms by (intro map_js_total) (auto simp: scheduled_row_def scheduled_record_def get_prop_opt)

lemma store_rows_answers:
  assumes "upserts s = []"
  shows "\<exists>out. respond (Some (store_rows db currentGW rows clk s)) =
                  Some (out, s\<lparr>upserts := [rows_write rows]\<rparr>)
               \<and> answers clk db currentGW rows out"
proof (cases "db (rows_write rows)")
  case (Rejected e)
  then show ?thesis
    using assms
    by (simp add: store_rows_def upsert_def Let_def respond_def answers_def rows_write_def)
next
  case (Resolved error)
  then show ?thesis
    using assms
    by (cases "to_string (opt_prop error ''message'')")
       (auto simp: store_rows_def upsert_def Let_def respond_def answers_def rows_write_def)
qed

lemma record_fields:
  "opt_prop (scheduled_record currentGW now m) ''manager_id'' =
     opt_prop (merged_row currentGW now' lmsManagers h2hManagers m) ''manager_id''"
  "opt_prop (scheduled_record currentGW now m) ''gw'' =
     opt_prop (merged_row currentGW now' lmsManagers h2hManagers m) ''gw''"
  "opt_prop (scheduled_record currentGW now m) ''team_name'' =
     opt_prop (merged_row currentGW now' lmsManagers h2hManagers m) ''team_name''"
  "fields (scheduled_record currentGW now m) =
     [''manager_id'', ''manager_name'', ''team_name'', ''gw'', ''gw_points'',
      ''total_points'', ''overall_rank'', ''last_updated'']"
  "fields (merged_row currentGW now' lmsManagers h2hManagers m) =
     [''manager_id'', ''gw'', ''team_name'', ''player_name'', ''classic_rank'',
      ''classic_total'', ''classic_gw_points'', ''lms_rank'', ''h2h_rank'', ''last_updated'']"
  by (simp_all add: scheduled_record_def merged_row_def fields_def)

text \<open>
  Claim C6, as amended.  Take an upstream whose three leagues are listed and end, one
  store, and an authorised request for the scheduled trigger.  Both triggers then run the
  same pipeline on it: the same period, the same requests, and the lists the paginator
  returns for the three leagues.  Each submits one bulk write, under the conflict key
  \<open>manager_id,gw\<close>, of one record per classic-league manager, in the paginator's order,
  and the two records of a manager agree on \<open>manager_id\<close>, \<open>gw\<close> and \<open>team_name\<close>.
  But the records do not have the same fields: the scheduled trigger's carry
  \<open>manager_name\<close>, \<open>gw_points\<close>, \<open>total_points\<close>, \<open>overall_rank\<close>, the manual
  trigger's \<open>player_name\<close>, \<open>classic_rank\<close>, \<open>classic_total\<close>,
  \<open>classic_gw_points\<close>, \<open>lms_rank\<close>, \<open>h2h_rank\<close>.  Each trigger answers for its own
  rows, with bodies of the same shape: the success body when the store took them, the
  failure body otherwise.  (Without a store client both answer 500 and submit nothing.)
\<close>

theorem triggers_same_managers_other_fields:
  assumes "league_ends net classicLeagueId" and "league_ends net lmsLeagueId"
    and "league_ends net h2hLeagueId"
    and "league_listed net classicLeagueId" and "league_listed net lmsLeagueId"
    and "league_listed net h2hLeagueId"
    and "cronSecret hs = CRON_SECRET env"
  shows "\<exists>currentGW classicManagers lmsManagers h2hManagers s0 s1 s2 s3 scheduled manual out out'.
           getCurrentGW net no_effects = (currentGW, s0)
         \<and> fetchAllManagers net classicLeagueId s0 = Some (classicManagers, s1)
         \<and> fetchAllManagers net lmsLeagueId s1 = Some (lmsManagers, s2)
         \<and> fetchAllManagers net h2hLeagueId s2 = Some (h2hManagers, s3)
         \<and> scheduled = map (scheduled_record currentGW (isoNow clk)) classicManagers
         \<and> manual = map (merged_row currentGW (isoNow clk') lmsManagers h2hManagers) classicManagers
         \<and> handler_scheduled (Some db) env hs net clk =
             Some (out, s3\<lparr>upserts := [rows_write scheduled]\<rparr>)
         \<and> handler_manual (Some db) net clk' =
             Some (out', s3\<lparr>upserts := [rows_write manual]\<rparr>)
         \<and> answers clk db currentGW scheduled out
         \<and> answers clk' db currentGW manual out'
         \<and> length scheduled = length classicManagers
         \<and> length manual = length classicManagers
         \<and> (\<forall>k\<in>{''manager_id'', ''gw'', ''team_name''}.
               map (\<lambda>r. opt_prop r k) scheduled = map (\<lambda>r. opt_prop r k) manual)
         \<and> (\<forall>r\<in>set scheduled. fields r =
               [''manager_id'', ''manager_name'', ''team_name'', ''gw'', ''gw_points'',
                ''total_points'', ''overall_rank'', ''last_updated''])
         \<and> (\<forall>r\<in>set manual. fields r =
               [''manager_id'', ''gw'', ''team_name'', ''player_name'', ''classic_rank'',
                ''classic_total'', ''classic_gw_points'', ''lms_rank'', ''h2h_rank'',
                ''last_updated''])"
proof -
  obtain gw s0 where g: "getCurrentGW net no_effects = (gw, s0)"
    by (cases "getCurrentGW net no_effects")
  with upserts_getCurrentGW [of net no_effects] have u0: "upserts s0 = []"
    by (simp add: no_effects_def)
  from fetchAllManagers_listed [OF assms(1,4), of s0] obtain c s1 where
    p1: "fetchAllManagers net classicLeagueId s0 = Some (c, s1)"
        "fetchAllManagers_manual net classicLeagueId s0 = Some (c, s1)"
        "upserts s1 = upserts s0" "\<forall>m\<in>set c. \<not> nullish m"
    by (elim exE conjE)
  from fetchAllManagers_listed [OF assms(2,5), of s1] obtain l s2 where
    p2: "fetchAllManagers net lmsLeagueId s1 = Some (l, s2)"
        "fetchAllManagers_manual net lmsLeagueId s1 = Some (l, s2)"
        "upserts s2 = upserts s1" "\<forall>m\<in>set l. \<not> nullish m"
    by (elim exE conjE)
  from fetchAllManagers_listed [OF assms(3,6), of s2] obtain h s3 where
    p3: "fetchAllManagers net h2hLeagueId s2 = Some (h, s3)"
        "fetchAllManagers_manual net h2hLeagueId s2 = Some (h, s3)"
        "upserts s3 = upserts s2" "\<forall>m\<in>set h. \<not> nullish m"
    by (elim exE conjE)
  have u3: "upserts s3 = []" using u0 p1(3) p2(3) p3(3) by simp
  let ?scheduled = "map (scheduled_record gw (isoNow clk)) c"
  let ?manual = "map (merged_row gw (isoNow clk') l h) c"
  have all: "\<forall>m\<in>set c \<union> set l \<union> set h. \<not> nullish m"
    using p1(4) p2(4) p3(4) by blast
  have hs: "handler_scheduled (Some db) env hs net clk =
              respond (Some (store_rows db gw ?scheduled clk s3))"
    using assms(7)
    by (simp add: handler_scheduled_def sync_leagues_def g p1(1) p2(1) p3(1)
          scheduled_records [OF p1(4)])
  have hm: "handler_manual (Some db) net clk' =
              respond (Some (store_rows db gw ?manual clk' s3))"
    by (simp add: handler_manual_def sync_leagues_def g p1(2) p2(2) p3(2)
          reconcile_merged [OF all])
  from store_rows_answers [OF u3, of db gw ?scheduled clk] hs obtain out where
    o: "handler_scheduled (Some db) env hs net clk =
          Some (out, s3\<lparr>upserts := [rows_write ?scheduled]\<rparr>)"
       "answers clk db gw ?scheduled out"
    by auto
  from store_rows_answers [OF u3, of db gw ?manual clk'] hm obtain out' where
    o': "handler_manual (Some db) net clk' =
          Some (out', s3\<lparr>upserts := [rows_write ?manual]\<rparr>)"
       "answers clk' db gw ?manual out'"
    by auto
  have keys: "\<forall>k\<in>{''manager_id'', ''gw'', ''team_name''}.
               map (\<lambda>r. opt_prop r k) ?scheduled = map (\<lambda>r. opt_prop r k) ?manual"
    by (simp add: record_fields(1-3) [of gw "isoNow clk" _ "isoNow clk'" l h])
  have f1: "\<forall>r\<in>set ?scheduled. fields r =
               [''manager_id'', ''manager_name'', ''team_name'', ''gw'', ''gw_points'',
                ''total_points'', ''overall_rank'', ''last_updated'']"
    by (auto simp: record_fields(4))
  have f2: "\<forall>r\<in>set ?manual. fields r =
               [''manager_id'', ''gw'', ''team_name'', ''player_name'', ''classic_rank'',
                ''classic_total'', ''classic_gw_points'', ''lms_rank'', ''h2h_rank'',
                ''last_updated'']"
    by (auto simp: record_fields(5))
  have len: "length ?scheduled = length c" "length ?manual = length c" by simp_all
  have r1: "?scheduled = map (scheduled_record gw (isoNow clk)) c" ..
  have r2: "?manual = map (merged_row gw (isoNow clk') l h) c" ..
  show ?thesis
    using g p1(1) p2(1) p3(1) r1 r2 o(1) o'(1) o(2) o'(2) len keys f1 f2
    by (intro exI conjI)
qed

lemma season_listed: "league_listed net_season leagueId"
  by (auto simp: league_listed_def serves_def net_season_def ok_body_def listed_def
        standings_page_def results_of_def manager_ann_def secondary_entry_def events_38_def
        split: if_splits)

theorem triggers_witness:
  "league_ends net_season classicLeagueId \<and> league_ends net_season lmsLeagueId
   \<and> league_ends net_season h2hLeagueId
   \<and> league_listed net_season classicLeagueId \<and> league_listed net_season lmsLeagueId
   \<and> league_listed net_season h2hLeagueId
   \<and> cronSecret (bearer_header ''s3cret'') = CRON_SECRET env_example
   \<and> (\<exists>currentGW classicManagers lmsManagers h2hManagers s0 s1 s2 s3 scheduled manual out out'.
           getCurrentGW net_season no_effects = (currentGW, s0)
         \<and> fetchAllManagers net_season classicLeagueId s0 = Some (classicManagers, s1)
         \<and> fetchAllManagers net_season lmsLeagueId s1 = Some (lmsManagers, s2)
         \<and> fetchAllManagers net_season h2hLeagueId s2 = Some (h2hManagers, s3)
         \<and> scheduled = map (scheduled_record currentGW (isoNow clock_example)) classicManagers
         \<and> manual = map (merged_row currentGW (isoNow clock_example) lmsManagers h2hManagers)
                       classicManagers
         \<and> handler_scheduled (Some store_ok) env_example (bearer_header ''s3cret'') net_season
               clock_example =
             Some (out, s3\<lparr>upserts := [rows_write scheduled]\<rparr>)
         \<and> handler_manual (Some store_ok) net_season clock_example =
             Some (out', s3\<lparr>upserts := [rows_write manual]\<rparr>)
         \<and> answers clock_example store_ok currentGW scheduled out
         \<and> answers clock_example store_ok currentGW manual out'
         \<and> length scheduled = length classicManagers
         \<and> length manual = length classicManagers
         \<and> (\<forall>k\<in>{''manager_id'', ''gw'', ''team_name''}.
               map (\<lambda>r. opt_prop r k) scheduled = map (\<lambda>r. opt_prop r k) manual)
         \<and> (\<forall>r\<in>set scheduled. fields r =
               [''manager_id'', ''manager_name'', ''team_name'', ''gw'', ''gw_points'',
                ''total_points'', ''overall_rank'', ''last_updated''])
         \<and> (\<forall>r\<in>set manual. fields r =
               [''manager_id'', ''gw'', ''team_name'', ''player_name'', ''classic_rank'',
                ''classic_total'', ''classic_gw_points'', ''lms_rank'', ''h2h_rank'',
                ''last_updated'']))"
  using season_ends season_listed auth_example
    triggers_same_managers_other_fields [OF season_ends season_listed season_listed season_listed
      auth_example, where db = store_ok and clk = clock_example and clk' = clock_example]
  by (intro conjI)

lemma fetch_pages_throws:
  assumes "serves net (standings_endpoint L p) body" and "truthy h"
    and "step body ms p = Inl e"
  shows "fetch_pages step net L (ms, p, h) s = Some (ms, requested (standings_endpoint L p) s)"
proof -
  have "fetchFPL net (standings_endpoint L p) s = (Inr body, requested (standings_endpoint L p) s)"
    unfolding fetchFPL_def by (rule fetch_json_serves [OF assms(1)])
  then show ?thesis
    using assms(2,3) by (subst fetch_pages.simps) (simp add: fetch_pages_done)
qed

lemma unlisted_served:
  "serves net_unlisted (standings_endpoint classicLeagueId 1)
     (JObj [(''standings'', JObj [(''has_next'', JBool False), (''results'', manager_ann)])])"
  "fails net_unlisted (standings_endpoint lmsLeagueId 1)"
  "fails net_unlisted (standings_endpoint h2hLeagueId 1)"
  "serves net_unlisted ''/bootstrap-static/'' (JObj [(''events'', JArr events_38)])"
  unfolding serves_def fails_def league_urls
  by (simp_all add: net_unlisted_def ok_body_def)

lemma unlisted_period:
  "getCurrentGW net_unlisted s = (JNum 38, requested ''/bootstrap-static/'' s)"
proof -
  have e: "current_event_id (JObj [(''events'', JArr events_38)]) = Inr (JNum 38)"
    by (simp add: current_event_id_array [of _ events_38] events_38_def current_period_def)
  show ?thesis
    unfolding getCurrentGW_def getCurrentGW_with_def fetchFPL_def fetch_json_serves [OF unlisted_served(4)]
    by (simp add: e)
qed

lemma unlisted_pages:
  "fetchAllManagers net_unlisted classicLeagueId s =
     Some ([], requested (standings_endpoint classicLeagueId 1) s)"
  "fetchAllManagers_manual net_unlisted classicLeagueId s =
     Some ([manager_ann], requested (standings_endpoint classicLeagueId 1) s)"
  "fetchAllManagers net_unlisted lmsLeagueId s =
     Some ([], requested (standings_endpoint lmsLeagueId 1) s)"
  "fetchAllManagers_manual net_unlisted lmsLeagueId s =
     Some ([], requested (standings_endpoint lmsLeagueId 1) s)"
  "fetchAllManagers net_unlisted h2hLeagueId s =
     Some ([], requested (standings_endpoint h2hLeagueId 1) s)"
  "fetchAllManagers_manual net_unlisted h2hLeagueId s =
     Some ([], requested (standings_endpoint h2hLeagueId 1) s)"
proof -
  let ?body = "JObj [(''standings'', JObj [(''has_next'', JBool False), (''results'', manager_ann)])]"
  have t: "\<exists>e. take_page ?body [] 1 = Inl e"
    by (simp add: take_page_def manager_ann_def)
  then obtain e where e: "take_page ?body [] 1 = Inl e" by blast
  have m: "take_page_manual ?body [] 1 = Inr ([manager_ann], 2, JBool False)"
    by (simp add: take_page_manual_def manager_ann_def)
  show "fetchAllManagers net_unlisted classicLeagueId s =
     Some ([], requested (standings_endpoint classicLeagueId 1) s)"
    unfolding fetchAllManagers_def
    by (rule fetch_pages_throws [where step = take_page and ms = "[]" and h = "JBool True",
              OF unlisted_served(1) _ e]) simp
  show "fetchAllManagers_manual net_unlisted classicLeagueId s =
     Some ([manager_ann], requested (standings_endpoint classicLeagueId 1) s)"
    unfolding fetchAllManagers_manual_def
    using fetch_pages_serves [where step = take_page_manual and h = "JBool True" and ms = "[]"
            and s = s, OF unlisted_served(1) _ m]
    by (simp add: fetch_pages_done)
  show "fetchAllManagers net_unlisted lmsLeagueId s =
     Some ([], requested (standings_endpoint lmsLeagueId 1) s)"
    "fetchAllManagers_manual net_unlisted lmsLeagueId s =
     Some ([], requested (standings_endpoint lmsLeagueId 1) s)"
    "fetchAllManagers net_unlisted h2hLeagueId s =
     Some ([], requested (standings_endpoint h2hLeagueId 1) s)"
    "fetchAllManagers_manual net_unlisted h2hLeagueId s =
     Some ([], requested (standings_endpoint h2hLeagueId 1) s)"
    unfolding fetchAllManagers_def fetchAllManagers_manual_def
    by (simp_all add: fetch_pages_fails [OF unlisted_served(2)] fetch_pages_fails [OF unlisted_served(3)]
          del: One_nat_def)
qed

lemma unlisted_rows:
  "reconcile (JNum 38) now [manager_ann] [] [] =
     Inr [JObj [(''manager_id'', JNum 1), (''gw'', JNum 38), (''team_name'', JStr ''Team A''),
                (''player_name'', JStr ''Ann''), (''classic_rank'', JNum 1),
                (''classic_total'', JNum 50), (''classic_gw_points'', JNum 5),
                (''lms_rank'', JNull), (''h2h_rank'', JNull),
                (''last_updated'', JStr now)]]"
  by (simp add: reconcile_def manual_row_def rank_in_def manager_ann_def js_or_def)

text \<open>
  Claim C6 as stated fails.  On the same upstream and the same store the two triggers
  submit records with different fields.  And where a page carries a single record in
  place of the list of results, they do not even submit the same managers: the scheduled
  trigger's paginator drops the page and the trigger submits no record, the manual
  trigger's paginator keeps the record and the trigger submits it.
\<close>

theorem triggers_persist_other_fields:
  "map_option (\<lambda>r. map payload (upserts (snd r)))
     (handler_scheduled (Some store_ok) env_example (bearer_header ''s3cret'') net_season clock_example) =
     Some [JArr [JObj [(''manager_id'', JNum 1), (''manager_name'', JStr ''Ann''),
                       (''team_name'', JStr ''Team A''), (''gw'', JNum 38), (''gw_points'', JNum 5),
                       (''total_points'', JNum 50), (''overall_rank'', JNum 1),
                       (''last_updated'', JStr ''2025-01-01T00:00:00.000Z'')]]]
   \<and> map_option (\<lambda>r. map payload (upserts (snd r)))
     (handler_manual (Some store_ok) net_season clock_example) =
     Some [JArr [JObj [(''manager_id'', JNum 1), (''gw'', JNum 38), (''team_name'', JStr ''Team A''),
                       (''player_name'', JStr ''Ann''), (''classic_rank'', JNum 1),
                       (''classic_total'', JNum 50), (''classic_gw_points'', JNum 5),
                       (''lms_rank'', JNum 3), (''h2h_rank'', JNull),
                       (''last_updated'', JStr ''2025-01-01T00:00:00.000Z'')]]]
   \<and> map_option (\<lambda>r. map payload (upserts (snd r)))
     (handler_scheduled (Some store_ok) env_example (bearer_header ''s3cret'') net_unlisted clock_example) =
     Some [JArr []]
   \<and> map_option (\<lambda>r. map payload (upserts (snd r)))
     (handler_manual (Some store_ok) net_unlisted clock_example) =
     Some [JArr [JObj [(''manager_id'', JNum 1), (''gw'', JNum 38), (''team_name'', JStr ''Team A''),
                       (''player_name'', JStr ''Ann''), (''classic_rank'', JNum 1),
                       (''classic_total'', JNum 50), (''classic_gw_points'', JNum 5),
                       (''lms_rank'', JNull), (''h2h_rank'', JNull),
                       (''last_updated'', JStr ''2025-01-01T00:00:00.000Z'')]]]"
proof -
  have a: "map_option (\<lambda>r. map payload (upserts (snd r)))
     (handler_scheduled (Some store_ok) env_example (bearer_header ''s3cret'') net_season clock_example) =
     Some [JArr [JObj [(''manager_id'', JNum 1), (''manager_name'', JStr ''Ann''),
                       (''team_name'', JStr ''Team A''), (''gw'', JNum 38), (''gw_points'', JNum 5),
                       (''total_points'', JNum 50), (''overall_rank'', JNum 1),
                       (''last_updated'', JStr ''2025-01-01T00:00:00.000Z'')]]]"
    "map_option (\<lambda>r. map payload (upserts (snd r)))
     (handler_manual (Some store_ok) net_season clock_example) =
     Some [JArr [JObj [(''manager_id'', JNum 1), (''gw'', JNum 38), (''team_name'', JStr ''Team A''),
                       (''player_name'', JStr ''Ann''), (''classic_rank'', JNum 1),
                       (''classic_total'', JNum 50), (''classic_gw_points'', JNum 5),
                       (''lms_rank'', JNum 3), (''h2h_rank'', JNull),
                       (''last_updated'', JStr ''2025-01-01T00:00:00.000Z'')]]]"
    unfolding handler_scheduled_def handler_manual_def season_leagues season_rows
    by (simp_all add: auth_example store_rows_def upsert_def Let_def store_ok_def respond_def
          no_effects_def clock_example_def)
  have b: "map_option (\<lambda>r. map payload (upserts (snd r)))
     (handler_scheduled (Some store_ok) env_example (bearer_header ''s3cret'') net_unlisted clock_example) =
     Some [JArr []]"
    unfolding handler_scheduled_def sync_leagues_def unlisted_period unlisted_pages
    by (simp add: auth_example store_rows_def upsert_def Let_def store_ok_def respond_def
          no_effects_def clock_example_def)
  have c: "map_option (\<lambda>r. map payload (upserts (snd r)))
     (handler_manual (Some store_ok) net_unlisted clock_example) =
     Some [JArr [JObj [(''manager_id'', JNum 1), (''gw'', JNum 38), (''team_name'', JStr ''Team A''),
                       (''player_name'', JStr ''Ann''), (''classic_rank'', JNum 1),
                       (''classic_total'', JNum 50), (''classic_gw_points'', JNum 5),
                       (''lms_rank'', JNull), (''h2h_rank'', JNull),
                       (''last_updated'', JStr ''2025-01-01T00:00:00.000Z'')]]]"
    unfolding handler_manual_def sync_leagues_def unlisted_period unlisted_pages
    by (simp add: unlisted_rows store_rows_def upsert_def Let_def store_ok_def respond_def
          no_effects_def clock_example_def)
  from a b c show ?thesis by (intro conjI)
qed

subsection \<open>The per-manager loop\<close>

lemma fetch_json_cases:
  assumes "fetch_json c net endpoint s = (x, s')"
  shows "s' = requested endpoint s"
    and "fetched_body net endpoint = None \<Longrightarrow> \<exists>e. x = Inl e"
    and "fetched_body net endpoint = Some v \<Longrightarrow> x = Inr v"
  using assms
  by (auto simp: fetch_json_def fetched_body_def requested_def Let_def
           split: sum.splits option.splits if_splits dest: sym)

lemma fetchFPL_cron_body:
  "\<exists>x. fetchFPL_cron net endpoint s = (x, requested endpoint s)
       \<and> (case fetched_body net endpoint of None \<Rightarrow> isl x | Some v \<Rightarrow> x = Inr v)"
proof -
  obtain x s' where f: "fetch_json (\<lambda>st. ''FPL API error: '' @ show_nat st) net endpoint s = (x, s')"
    by (cases "fetch_json (\<lambda>st. ''FPL API error: '' @ show_nat st) net endpoint s")
  note c = fetch_json_cases [OF f]
  show ?thesis
  proof (cases "fetched_body net endpoint")
    case None
    with c(2) obtain e where "x = Inl e" by blast
    with f c(1) None show ?thesis by (simp add: fetchFPL_cron_def)
  next
    case (Some v)
    with c(3) have "x = Inr v" by blast
    with f c(1) Some show ?thesis by (simp add: fetchFPL_cron_def)
  qed
qed

lemma getManagerDetails_body:
  assumes "to_string managerId = Inr label"
  shows "getManagerDetails net managerId s =
     (Inr (case fetched_body net (details_endpoint label) of None \<Rightarrow> JNull | Some v \<Rightarrow> v),
      requested (details_endpoint label) s)"
proof -
  from fetchFPL_cron_body [of net "details_endpoint label" s] obtain x where
    x: "fetchFPL_cron net (details_endpoint label) s = (x, requested (details_endpoint label) s)"
       "case fetched_body net (details_endpoint label) of None \<Rightarrow> isl x | Some v \<Rightarrow> x = Inr v"
    by blast
  show ?thesis
    unfolding getManagerDetails_def assms details_endpoint_def [symmetric]
    using x by (cases x) (auto split: option.splits)
qed

lemma getManagerGWPicks_body:
  assumes "to_string managerId = Inr label"
  shows "getManagerGWPicks net managerId gw s =
     (case to_string gw of
        Inl e \<Rightarrow> (Inr JNull, s)
      | Inr period \<Rightarrow>
          (Inr (case fetched_body net (picks_endpoint label period) of None \<Rightarrow> JNull | Some v \<Rightarrow> v),
           requested (picks_endpoint label period) s))"
proof (cases "to_string gw")
  case (Inl e)
  then show ?thesis by (simp add: getManagerGWPicks_def assms)
next
  case (Inr period)
  from fetchFPL_cron_body [of net "picks_endpoint label period" s] obtain x where
    x: "fetchFPL_cron net (picks_endpoint label period) s = (x, requested (picks_endpoint label period) s)"
       "case fetched_body net (picks_endpoint label period) of None \<Rightarrow> isl x | Some v \<Rightarrow> x = Inr v"
    by blast
  show ?thesis
    unfolding getManagerGWPicks_def assms Inr picks_endpoint_def [symmetric]
    using x by (cases x) (auto split: option.splits)
qed

lemma captain_of_null: "captain_of JNull = Inr JUndefined"
  by (simp add: captain_of_def)

lemma sync_manager_upserts:
  assumes "manager_record manager"
  shows "upserts (snd (sync_manager supabase net now currentGW manager s)) =
           upserts s @ (case expected_row net now currentGW manager of
                          None \<Rightarrow> [] | Some row \<Rightarrow> [manager_write row])"
proof -
  from assms have nn: "\<not> nullish manager" by (simp add: manager_record_def)
  from assms obtain label where l: "to_string (opt_prop manager ''entry'') = Inr label"
    by (cases "to_string (opt_prop manager ''entry'')") (auto simp: manager_record_def)
  show ?thesis
  proof (cases "fetched_body net (details_endpoint label)")
    case None
    then show ?thesis
      by (simp add: sync_manager_def get_prop_opt [OF nn] getManagerDetails_body [OF l]
            expected_row_def details_served_def l)
  next
    case d: (Some details)
    show ?thesis
    proof (cases "truthy details")
      case False
      then show ?thesis
        using d
        by (simp add: sync_manager_def get_prop_opt [OF nn] getManagerDetails_body [OF l]
              expected_row_def details_served_def l)
    next
      case t: True
      show ?thesis
      proof (cases "to_string currentGW")
        case (Inl e)
        then show ?thesis
          using d t
          by (simp add: sync_manager_def get_prop_opt [OF nn] getManagerDetails_body [OF l]
                getManagerGWPicks_body [OF l] expected_row_def details_served_def picks_served_def l
                captain_of_null upsert_def Let_def manager_write_def js_or_def
                split: store_outcome.splits)
      next
        case g: (Inr period)
        show ?thesis
        proof (cases "fetched_body net (picks_endpoint label period)")
          case None
          then show ?thesis
            using d t g
            by (simp add: sync_manager_def get_prop_opt [OF nn] getManagerDetails_body [OF l]
                  getManagerGWPicks_body [OF l] expected_row_def details_served_def picks_served_def l
                  captain_of_null upsert_def Let_def manager_write_def js_or_def
                  split: store_outcome.splits)
        next
          case p: (Some picks)
          show ?thesis
            using d t g p
            by (simp add: sync_manager_def get_prop_opt [OF nn] getManagerDetails_body [OF l]
                  getManagerGWPicks_body [OF l] expected_row_def details_served_def picks_served_def l
                  upsert_def Let_def manager_write_def
                  split: store_outcome.splits sum.splits)
        qed
      qed
    qed
  qed
qed

lemma sync_each_upserts:
  "\<forall>m\<in>set managers. manager_record m \<Longrightarrow>
     \<exists>s'. sync_each supabase net now currentGW managers s = (Inr (), s')
          \<and> upserts s' =
              upserts s @ map manager_write (List.map_filter (expected_row net now currentGW) managers)"
proof (induction managers arbitrary: s)
  case Nil
  then show ?case by (simp add: List.map_filter_simps)
next
  case (Cons m ms)
  then have mr: "manager_record m" and rest: "\<forall>m\<in>set ms. manager_record m" by simp_all
  from mr have nn: "\<not> nullish m" by (simp add: manager_record_def)
  from mr obtain label where l: "to_string (opt_prop m ''entry'') = Inr label"
    by (cases "to_string (opt_prop m ''entry'')") (auto simp: manager_record_def)
  obtain r s1 where sm: "sync_manager supabase net now currentGW m s = (r, s1)"
    by (cases "sync_manager supabase net now currentGW m s")
  from sync_manager_upserts [OF mr, of supabase net now currentGW s] sm
  have u1: "upserts s1 = upserts s @ (case expected_row net now currentGW m of
                          None \<Rightarrow> [] | Some row \<Rightarrow> [manager_write row])"
    by simp
  have step: "sync_each supabase net now currentGW (m # ms) s = sync_each supabase net now currentGW ms s1"
    using sm by (cases r) (simp_all add: get_prop_opt [OF nn] l)
  from Cons.IH [OF rest, of s1] obtain s' where
    "sync_each supabase net now currentGW ms s1 = (Inr (), s')"
    "upserts s' = upserts s1 @ map manager_write (List.map_filter (expected_row net now currentGW) ms)"
    by blast
  with step u1 show ?case
    by (auto simp: List.map_filter_simps split: option.splits)
qed

text \<open>
  An entry of the standings that is not a manager record ends the loop, and with it the
  run: nothing more is requested or written, and the outer \<open>catch\<close> block returns the
  failure.
\<close>

lemma sync_each_aborts:
  assumes "\<not> manager_record m"
  shows "\<exists>e. sync_each supabase net now currentGW (m # rest) s = (Inl e, s)"
proof (cases "nullish m")
  case True
  then obtain e where "get_prop m ''entry'' = Inl e" by (cases m) auto
  then show ?thesis by (simp add: sync_manager_def)
next
  case False
  with assms obtain e where e: "to_string (opt_prop m ''entry'') = Inl e"
    by (cases "to_string (opt_prop m ''entry'')") (auto simp: manager_record_def)
  then show ?thesis
    by (simp add: sync_manager_def get_prop_opt [OF False] getManagerDetails_def)
qed


lemma run_aborts_on_bad_record:
  assumes "getCurrentGW_cron net s0 = (currentGW, s1)" and "\<not> isl (to_string currentGW)"
    and "getAllManagersFromLeague net classicLeagueId 1 s1 = Some (m # rest, s)"
    and "\<not> manager_record m"
  shows "\<exists>e. syncManagerData supabase net now s0 = Some (sync_failed e, s)"
proof -
  from assms(2) obtain label where l: "to_string currentGW = Inr label"
    by (cases "to_string currentGW") auto
  from sync_each_aborts [OF assms(4), of supabase net now currentGW rest s] obtain e where
    "sync_each supabase net now currentGW (m # rest) s = (Inl e, s)" by blast
  then have "syncManagerData supabase net now s0 = Some (sync_failed e, s)"
    unfolding syncManagerData_def assms(1)
    by (simp add: assms(3) l del: sync_each.simps One_nat_def)
  then show ?thesis by blast
qed

lemma entries_bodies:
  "fetched_body net_entries (details_endpoint ''1'') = None"
  "fetched_body net_entries (details_endpoint ''2'') =
     Some (JObj [(''last_name'', JStr ''Bee''), (''bank'', JNum 5)])"
  "fetched_body net_entries (picks_endpoint ''2'' ''38'') = None"
  "fetched_body net_entries (details_endpoint ''3'') = Some (JObj [(''last_name'', JStr ''Cee'')])"
  "fetched_body net_entries (picks_endpoint ''3'' ''38'') =
     Some (JObj [(''picks'',
               JArr [JObj [(''element'', JNum 5), (''is_captain'', JBool False)],
                     JObj [(''element'', JNum 7), (''is_captain'', JBool True)]])])"
  by (simp_all add: fetched_body_def details_endpoint_def picks_endpoint_def
        api_url_def net_entries_def ok_body_def)

lemma entries_run:
  "getCurrentGW_cron net_entries s = (JNum 38, requested ''/bootstrap-static/'' s)"
  "getAllManagersFromLeague net_entries classicLeagueId 1 s =
     Some ([standing 1 1 50, standing 2 2 40, standing 3 3 30],
           requested (standings_endpoint classicLeagueId 1) s)"
proof -
  have sv: "serves net_entries ''/bootstrap-static/'' (JObj [(''events'', JArr events_38)])"
    "serves net_entries (standings_endpoint classicLeagueId 1)
       (standings_page [standing 1 1 50, standing 2 2 40, standing 3 3 30] False)"
    unfolding serves_def league_urls by (simp_all add: net_entries_def ok_body_def)
  have e: "current_event_id (JObj [(''events'', JArr events_38)]) = Inr (JNum 38)"
    by (simp add: current_event_id_array [of _ events_38] events_38_def current_period_def)
  show "getCurrentGW_cron net_entries s = (JNum 38, requested ''/bootstrap-static/'' s)"
    unfolding getCurrentGW_cron_def getCurrentGW_with_def fetchFPL_cron_def fetch_json_serves [OF sv(1)]
    by (simp add: e)
  show "getAllManagersFromLeague net_entries classicLeagueId 1 s =
     Some ([standing 1 1 50, standing 2 2 40, standing 3 3 30],
           requested (standings_endpoint classicLeagueId 1) s)"
    using getAll_advance [OF sv(2) standings_page_fields(1), of s]
    by (simp add: standings_page_fields)
qed

lemma entries_records:
  "manager_record (standing 1 1 50)" "manager_record (standing 2 2 40)"
  "manager_record (standing 3 3 30)"
  by (simp_all add: manager_record_def standing_def)

text \<open>
  Claim C10, as amended.  Over manager records the loop never aborts: it runs to its end
  whatever the upstream and the store answer, and it submits, in the managers' order,
  exactly the rows of \<open>expected_row\<close>.  That is no row for a manager whose detail fetch
  fails or whose details are served falsy, no row for a manager whose served picks cannot
  be searched for a captain, and otherwise the manager's row, with \<open>captain_id\<close>
  \<open>null\<close> when the picks fetch failed.  The run then writes the period marker, and its
  result depends on that write alone.
\<close>

theorem manager_failures_do_not_abort:
  assumes "\<forall>m\<in>set managers. manager_record m"
  shows "(\<exists>s'. sync_each supabase net now currentGW managers s = (Inr (), s')
            \<and> upserts s' =
                upserts s @ map manager_write (List.map_filter (expected_row net now currentGW) managers))
       \<and> (managers \<noteq> [] \<and> \<not> isl (to_string currentGW)
            \<and> getCurrentGW_cron net s0 = (currentGW, s1)
            \<and> getAllManagersFromLeague net classicLeagueId 1 s1 = Some (managers, s) \<longrightarrow>
          (\<exists>s'. syncManagerData supabase net now s0 =
                   Some (case supabase (season_write currentGW now) of
                           Rejected error \<Rightarrow> sync_failed error
                         | Resolved r \<Rightarrow>
                             JObj [(''success'', JBool True),
                                   (''managers'', JNum (int (length managers))),
                                   (''gw'', currentGW)], s')
             \<and> upserts s' =
                 upserts s
                 @ map manager_write (List.map_filter (expected_row net now currentGW) managers)
                 @ [season_write currentGW now]))"
proof (intro conjI impI)
  from sync_each_upserts [OF assms, of supabase net now currentGW s]
  obtain s2 where a: "sync_each supabase net now currentGW managers s = (Inr (), s2)"
    "upserts s2 =
       upserts s @ map manager_write (List.map_filter (expected_row net now currentGW) managers)"
    by blast
  then show "\<exists>s'. sync_each supabase net now currentGW managers s = (Inr (), s')
            \<and> upserts s' =
                upserts s @ map manager_write (List.map_filter (expected_row net now currentGW) managers)"
    by blast
  assume h: "managers \<noteq> [] \<and> \<not> isl (to_string currentGW)
            \<and> getCurrentGW_cron net s0 = (currentGW, s1)
            \<and> getAllManagersFromLeague net classicLeagueId 1 s1 = Some (managers, s)"
  then obtain label where l: "to_string currentGW = Inr label"
    by (cases "to_string currentGW") auto
  show "\<exists>s'. syncManagerData supabase net now s0 =
                   Some (case supabase (season_write currentGW now) of
                           Rejected error \<Rightarrow> sync_failed error
                         | Resolved r \<Rightarrow>
                             JObj [(''success'', JBool True),
                                   (''managers'', JNum (int (length managers))),
                                   (''gw'', currentGW)], s')
             \<and> upserts s' =
                 upserts s
                 @ map manager_write (List.map_filter (expected_row net now currentGW) managers)
                 @ [season_write currentGW now]"
  proof (cases "supabase (season_write currentGW now)")
    case (Rejected e)
    with h a l show ?thesis
      by (simp add: syncManagerData_def upsert_def Let_def season_write_def)
  next
    case (Resolved r)
    with h a l show ?thesis
      by (simp add: syncManagerData_def upsert_def Let_def season_write_def)
  qed
qed

theorem manager_failures_witness:
  "manager_record (standing 1 1 50) \<and> manager_record (standing 2 2 40)
   \<and> manager_record (standing 3 3 30)
   \<and> details_served net_entries (standing 1 1 50) = None
   \<and> picks_served net_entries (JNum 38) (standing 2 2 40) = None
   \<and> (\<exists>s'. sync_each store_reject net_entries ''t'' (JNum 38)
                [standing 1 1 50, standing 2 2 40, standing 3 3 30] no_effects = (Inr (), s')
          \<and> map (\<lambda>w. (table w, opt_prop (payload w) ''manager_id'',
                        opt_prop (payload w) ''captain_id'', opt_prop (payload w) ''captain_name''))
                (upserts s') =
              [(''manager_data'', JNum 2, JNull, JStr ''Bee''),
               (''manager_data'', JNum 3, JNum 7, JStr ''Cee'')])
   \<and> \<not> isl (to_string (JNum 38))
   \<and> getCurrentGW_cron net_entries no_effects = (JNum 38, requested ''/bootstrap-static/'' no_effects)
   \<and> getAllManagersFromLeague net_entries classicLeagueId 1
         (requested ''/bootstrap-static/'' no_effects) =
       Some ([standing 1 1 50, standing 2 2 40, standing 3 3 30],
             requested (standings_endpoint classicLeagueId 1)
               (requested ''/bootstrap-static/'' no_effects))
   \<and> (\<exists>s'. syncManagerData store_ok net_entries ''t'' no_effects =
               Some (JObj [(''success'', JBool True), (''managers'', JNum 3), (''gw'', JNum 38)], s')
          \<and> map (\<lambda>w. (table w, opt_prop (payload w) ''manager_id'')) (upserts s') =
              [(''manager_data'', JNum 2), (''manager_data'', JNum 3),
               (''season_snapshot'', JUndefined)])"
proof -
  have wf: "\<forall>m\<in>set [standing 1 1 50, standing 2 2 40, standing 3 3 30]. manager_record m"
    using entries_records by simp
  have p: "\<not> isl (to_string (JNum 38))" by simp
  have run: "[standing 1 1 50, standing 2 2 40, standing 3 3 30] \<noteq> [] \<and> \<not> isl (to_string (JNum 38))
     \<and> getCurrentGW_cron net_entries no_effects = (JNum 38, requested ''/bootstrap-static/'' no_effects)
     \<and> getAllManagersFromLeague net_entries classicLeagueId 1
           (requested ''/bootstrap-static/'' no_effects) =
         Some ([standing 1 1 50, standing 2 2 40, standing 3 3 30],
               requested (standings_endpoint classicLeagueId 1)
                 (requested ''/bootstrap-static/'' no_effects))"
    using entries_run by simp
  have rows: "List.map_filter (expected_row net_entries ''t'' (JNum 38))
                [standing 1 1 50, standing 2 2 40, standing 3 3 30] =
              [manager_row (standing 2 2 40) (JObj [(''last_name'', JStr ''Bee''), (''bank'', JNum 5)])
                 JNull ''t'',
               manager_row (standing 3 3 30) (JObj [(''last_name'', JStr ''Cee'')]) (JNum 7) ''t'']"
    by (simp add: List.map_filter_simps expected_row_def details_served_def picks_served_def
          standing_def show_small_numbers entries_bodies captain_of_def flagged_def js_or_def)
  from manager_failures_do_not_abort [OF wf, of store_reject net_entries "''t''" "JNum 38" no_effects,
         THEN conjunct1]
  obtain s' where s': "sync_each store_reject net_entries ''t'' (JNum 38)
                [standing 1 1 50, standing 2 2 40, standing 3 3 30] no_effects = (Inr (), s')"
    "upserts s' = upserts no_effects @ map manager_write
            (List.map_filter (expected_row net_entries ''t'' (JNum 38))
               [standing 1 1 50, standing 2 2 40, standing 3 3 30])"
    by (elim exE conjE)
  from s'(2) have "map (\<lambda>w. (table w, opt_prop (payload w) ''manager_id'',
                        opt_prop (payload w) ''captain_id'', opt_prop (payload w) ''captain_name''))
                (upserts s') =
              [(''manager_data'', JNum 2, JNull, JStr ''Bee''),
               (''manager_data'', JNum 3, JNum 7, JStr ''Cee'')]"
    unfolding rows
    by (simp add: no_effects_def manager_write_def manager_row_def standing_def js_or_def)
  then have m: "map (\<lambda>w. (table w, opt_prop (payload w) ''manager_id'',
                        opt_prop (payload w) ''captain_id'', opt_prop (payload w) ''captain_name''))
                (upserts s') =
              [(''manager_data'', JNum 2, JNull, JStr ''Bee''),
               (''manager_data'', JNum 3, JNum 7, JStr ''Cee'')]" .
  have e: "\<exists>s'. sync_each store_reject net_entries ''t'' (JNum 38)
                [standing 1 1 50, standing 2 2 40, standing 3 3 30] no_effects = (Inr (), s')
          \<and> map (\<lambda>w. (table w, opt_prop (payload w) ''manager_id'',
                        opt_prop (payload w) ''captain_id'', opt_prop (payload w) ''captain_name''))
                (upserts s') =
              [(''manager_data'', JNum 2, JNull, JStr ''Bee''),
               (''manager_data'', JNum 3, JNum 7, JStr ''Cee'')]"
    using s'(1) m by (intro exI conjI)
  have d: "details_served net_entries (standing 1 1 50) = None"
    "picks_served net_entries (JNum 38) (standing 2 2 40) = None"
    by (simp_all add: details_served_def picks_served_def standing_def show_small_numbers entries_bodies)
  from manager_failures_do_not_abort [OF wf, where supabase = store_ok and net = net_entries
         and now = "''t''" and currentGW = "JNum 38" and ?s0.0 = no_effects
         and ?s1.0 = "requested ''/bootstrap-static/'' no_effects"
         and s = "requested (standings_endpoint classicLeagueId 1)
                    (requested ''/bootstrap-static/'' no_effects)",
         THEN conjunct2, rule_format, OF run]
  obtain s2 where s2: "syncManagerData store_ok net_entries ''t'' no_effects =
        Some (case store_ok (season_write (JNum 38) ''t'') of
                Rejected error \<Rightarrow> sync_failed error
              | Resolved r \<Rightarrow>
                  JObj [(''success'', JBool True),
                        (''managers'', JNum (int (length [standing 1 1 50, standing 2 2 40, standing 3 3 30]))),
                        (''gw'', JNum 38)], s2)"
    "upserts s2 =
       upserts (requested (standings_endpoint classicLeagueId 1)
                  (requested ''/bootstrap-static/'' no_effects))
       @ map manager_write
           (List.map_filter (expected_row net_entries ''t'' (JNum 38))
              [standing 1 1 50, standing 2 2 40, standing 3 3 30])
       @ [season_write (JNum 38) ''t'']"
    by (elim exE conjE)
  from s2(1) have r1: "syncManagerData store_ok net_entries ''t'' no_effects =
               Some (JObj [(''success'', JBool True), (''managers'', JNum 3), (''gw'', JNum 38)], s2)"
    by (simp add: store_ok_def)
  from s2(2) have r2: "map (\<lambda>w. (table w, opt_prop (payload w) ''manager_id'')) (upserts s2) =
              [(''manager_data'', JNum 2), (''manager_data'', JNum 3),
               (''season_snapshot'', JUndefined)]"
    unfolding rows
    by (simp add: no_effects_def manager_write_def manager_row_def standing_def season_write_def)
  have f: "\<exists>s'. syncManagerData store_ok net_entries ''t'' no_effects =
               Some (JObj [(''success'', JBool True), (''managers'', JNum 3), (''gw'', JNum 38)], s')
          \<and> map (\<lambda>w. (table w, opt_prop (payload w) ''manager_id'')) (upserts s') =
              [(''manager_data'', JNum 2), (''manager_data'', JNum 3),
               (''season_snapshot'', JUndefined)]"
    using r1 r2 by (intro exI conjI)
  from run have g: "getCurrentGW_cron net_entries no_effects = (JNum 38, requested ''/bootstrap-static/'' no_effects)"
    "getAllManagersFromLeague net_entries classicLeagueId 1
         (requested ''/bootstrap-static/'' no_effects) =
       Some ([standing 1 1 50, standing 2 2 40, standing 3 3 30],
             requested (standings_endpoint classicLeagueId 1)
               (requested ''/bootstrap-static/'' no_effects))"
    by simp_all
  from entries_records d e p g f show ?thesis by (intro conjI)
qed

lemma odd_bodies:
  "fetched_body net_entries_odd (details_endpoint ''1'') = Some (JNum 0)"
  "fetched_body net_entries_odd (details_endpoint ''2'') = Some (JObj [(''last_name'', JStr ''Bee'')])"
  "fetched_body net_entries_odd (picks_endpoint ''2'' ''38'') = Some (JObj [(''picks'', JNum 5)])"
  "fetched_body net_entries_odd (details_endpoint ''3'') = Some (JObj [(''last_name'', JStr ''Cee'')])"
  "fetched_body net_entries_odd (picks_endpoint ''3'' ''38'') = None"
  by (simp_all add: fetched_body_def details_endpoint_def picks_endpoint_def
        api_url_def net_entries_odd_def ok_body_def)

text \<open>
  Claim C10 as stated fails where a fetch succeeds with a body the loop cannot use: the
  details of manager 1 are served (the number 0) and the details and the picks of
  manager 2 are served (the picks with a number for their \<open>picks\<close> field), no fetch
  for either fails, and neither manager is upserted.  It also fails where the identifier
  of a manager has no string form: the attempt to fetch that manager's details throws,
  the \<open>catch\<close> block of the iteration throws again, and the loop is left before the
  remaining manager is looked at.
\<close>

theorem manager_skipped_without_failure:
  "details_served net_entries_odd (standing 1 1 50) = Some (JNum 0)
   \<and> details_served net_entries_odd (standing 2 2 40) = Some (JObj [(''last_name'', JStr ''Bee'')])
   \<and> picks_served net_entries_odd (JNum 38) (standing 2 2 40) = Some (JObj [(''picks'', JNum 5)])
   \<and> map (\<lambda>w. (table w, opt_prop (payload w) ''manager_id''))
       (upserts (snd (sync_each store_ok net_entries_odd ''t'' (JNum 38)
                        [standing 1 1 50, standing 2 2 40, standing 3 3 30] no_effects))) =
     [(''manager_data'', JNum 3)]
   \<and> sync_each store_ok net_entries_odd ''t'' (JNum 38)
         [JObj [(''entry'', JObj [(''toString'', JNum 1)])], standing 3 3 30] no_effects =
       (Inl (TypeError ''Cannot convert object to primitive value''), no_effects)"
proof -
  have left: "sync_each store_ok net_entries_odd ''t'' (JNum 38)
         [JObj [(''entry'', JObj [(''toString'', JNum 1)])], standing 3 3 30] no_effects =
       (Inl (TypeError ''Cannot convert object to primitive value''), no_effects)"
    by (simp add: sync_manager_def getManagerDetails_def)
  have served: "details_served net_entries_odd (standing 1 1 50) = Some (JNum 0)"
    "details_served net_entries_odd (standing 2 2 40) = Some (JObj [(''last_name'', JStr ''Bee'')])"
    "picks_served net_entries_odd (JNum 38) (standing 2 2 40) = Some (JObj [(''picks'', JNum 5)])"
    "details_served net_entries_odd (standing 3 3 30) = Some (JObj [(''last_name'', JStr ''Cee'')])"
    "picks_served net_entries_odd (JNum 38) (standing 3 3 30) = None"
    by (simp_all add: details_served_def picks_served_def standing_def show_small_numbers odd_bodies)
  have rows: "List.map_filter (expected_row net_entries_odd ''t'' (JNum 38))
                [standing 1 1 50, standing 2 2 40, standing 3 3 30] =
              [manager_row (standing 3 3 30) (JObj [(''last_name'', JStr ''Cee'')]) JNull ''t'']"
    by (simp add: List.map_filter_simps expected_row_def served captain_of_def)
  have wf: "\<forall>m\<in>set [standing 1 1 50, standing 2 2 40, standing 3 3 30]. manager_record m"
    using entries_records by simp
  from sync_each_upserts [OF wf, of store_ok net_entries_odd "''t''" "JNum 38" no_effects]
  obtain s' where s': "sync_each store_ok net_entries_odd ''t'' (JNum 38)
                [standing 1 1 50, standing 2 2 40, standing 3 3 30] no_effects = (Inr (), s')"
    "upserts s' = upserts no_effects @ map manager_write
            (List.map_filter (expected_row net_entries_odd ''t'' (JNum 38))
               [standing 1 1 50, standing 2 2 40, standing 3 3 30])"
    by (elim exE conjE)
  from s'(2) have "map (\<lambda>w. (table w, opt_prop (payload w) ''manager_id'')) (upserts s') =
     [(''manager_data'', JNum 3)]"
    unfolding rows
    by (simp add: no_effects_def manager_write_def manager_row_def standing_def)
  with s'(1) served(1,2,3) left show ?thesis by simp
qed

end
